theory Spec2Isabelle
  imports Complex_Main "HOL-Library.Word" "HOL-Library.AList"
begin

section \<open>JavaScript values\<close>

text \<open>
  A JavaScript string is a sequence of UTF-16 code units, and \<open>length\<close> counts code
  units. ASCII literals are written with \<open>u16\<close>; the literals of the source that are not
  ASCII are given by their code units.
\<close>

type_synonym jsstring = "16 word list"

definition u16 :: "string \<Rightarrow> jsstring" where
  "u16 s = map (\<lambda>c. of_nat (of_char c)) s"

text \<open>
  \<open>String.prototype.trim\<close> removes the WhiteSpace and LineTerminator code points of
  ECMAScript from both ends.
\<close>

definition isWhiteSpace :: "16 word \<Rightarrow> bool" where
  "isWhiteSpace c =
     (c \<in> set [0x09, 0x0A, 0x0B, 0x0C, 0x0D, 0x20, 0xA0, 0x1680, 0x2028, 0x2029, 0x202F,
               0x205F, 0x3000, 0xFEFF]
      \<or> (0x2000 \<le> c \<and> c \<le> 0x200A))"

definition trim :: "jsstring \<Rightarrow> jsstring" where
  "trim s = rev (dropWhile isWhiteSpace (rev (dropWhile isWhiteSpace s)))"

text \<open>
  A value of TypeScript's type \<open>unknown\<close>, as \<open>JSON.parse\<close> or a property read
  produces it. Numbers are the finite ones (JSON has no other), hence rationals.
\<close>

datatype jsval =
    JUndefined
  | JNull
  | JBool bool
  | JNum rat
  | JStr jsstring
  | JArr "jsval list"
  | JObj "(jsstring \<times> jsval) list"

text \<open>\<open>isRecord\<close>: \<open>typeof value === "object" && value !== null\<close>; true of arrays too.\<close>

definition isRecord :: "jsval \<Rightarrow> bool" where
  "isRecord v = (case v of JArr _ \<Rightarrow> True | JObj _ \<Rightarrow> True | _ \<Rightarrow> False)"

text \<open>
  The property read \<open>value.k\<close> for the names the source reads: an object gives the stored
  value, anything else (an array included) gives \<open>undefined\<close>. The source reads properties
  only of values that passed \<open>isRecord\<close>.
\<close>

definition js_get :: "jsval \<Rightarrow> string \<Rightarrow> jsval" where
  "js_get v k =
     (case v of
        JObj kvs \<Rightarrow> (case map_of kvs (u16 k) of Some x \<Rightarrow> x | None \<Rightarrow> JUndefined)
      | _ \<Rightarrow> JUndefined)"

definition truthy :: "jsval \<Rightarrow> bool" where
  "truthy v =
     (case v of
        JUndefined \<Rightarrow> False
      | JNull \<Rightarrow> False
      | JBool b \<Rightarrow> b
      | JNum r \<Rightarrow> r \<noteq> 0
      | JStr s \<Rightarrow> s \<noteq> []
      | JArr _ \<Rightarrow> True
      | JObj _ \<Rightarrow> True)"

text \<open>\<open>a || b\<close> and \<open>a ?? b\<close>.\<close>

definition js_or :: "jsval \<Rightarrow> jsval \<Rightarrow> jsval" where
  "js_or a b = (if truthy a then a else b)"

definition js_nullish :: "jsval \<Rightarrow> jsval \<Rightarrow> jsval" where
  "js_nullish a b = (if a = JUndefined \<or> a = JNull then b else a)"

definition toSafeString :: "jsval \<Rightarrow> jsstring \<Rightarrow> jsstring" where
  "toSafeString v fallback = (case v of JStr s \<Rightarrow> s | _ \<Rightarrow> fallback)"

definition toSafeNumber :: "jsval \<Rightarrow> rat option" where
  "toSafeNumber v = (case v of JNum r \<Rightarrow> Some r | _ \<Rightarrow> None)"

subsection \<open>Numbers\<close>

text \<open>
  A number of the source is an IEEE 754 double. The finite ones are rationals, and a
  \<open>rat\<close> stands for the double of that value; \<open>JNum r\<close> is the number that parsing the
  JSON text gave. Comparisons, \<open>Math.max\<close> and \<open>Math.min\<close> of doubles are exact.
  Addition is not: the exact sum is rounded to the nearest double, a tie going to the
  double whose significand is even.

  \<open>toDouble\<close> is that rounding: the significand has 53 bits, so the unit in the last
  place of \<open>x\<close> is \<open>2 ^ (binade x - 52)\<close>, and not less than \<open>2 ^ -1074\<close>, the smallest
  subnormal. A result of magnitude \<open>2 ^ 1024\<close> or more, which is \<open>Infinity\<close> in the
  source, is not represented; \<open>x + 1\<close> for a double \<open>x\<close>, the sum the page computes on
  an index, never gets there. The sums of times in the auth client go to \<open>iso_of_ms\<close> of
  the environment, of which nothing is assumed, and are left exact.
\<close>

fun bitLength :: "nat \<Rightarrow> nat" where
  "bitLength n = (if n = 0 then 0 else Suc (bitLength (n div 2)))"

declare bitLength.simps [simp del]

definition pow2 :: "int \<Rightarrow> rat" where
  "pow2 k = (if 0 \<le> k then 2 ^ nat k else 1 / 2 ^ nat (- k))"

text \<open>The binary exponent of a number that is not zero: the floor of its logarithm to base 2.\<close>

definition binade :: "rat \<Rightarrow> int" where
  "binade x =
     (if 1 \<le> \<bar>x\<bar> then int (bitLength (nat \<lfloor>\<bar>x\<bar>\<rfloor>)) - 1
      else - int (bitLength (nat (\<lceil>1 / \<bar>x\<bar>\<rceil> - 1))))"

definition roundHalfEven :: "rat \<Rightarrow> int" where
  "roundHalfEven x =
     (if x - of_int \<lfloor>x\<rfloor> < 1 / 2 then \<lfloor>x\<rfloor>
      else if 1 / 2 < x - of_int \<lfloor>x\<rfloor> then \<lfloor>x\<rfloor> + 1
      else if even \<lfloor>x\<rfloor> then \<lfloor>x\<rfloor> else \<lfloor>x\<rfloor> + 1)"

definition toDouble :: "rat \<Rightarrow> rat" where
  "toDouble x =
     (if x = 0 then 0
      else let u = pow2 (max (binade x - 52) (- 1074))
           in of_int (roundHalfEven (x / u)) * u)"

text \<open>\<open>x + y\<close> on numbers.\<close>

definition js_add :: "rat \<Rightarrow> rat \<Rightarrow> rat" where
  "js_add x y = toDouble (x + y)"

text \<open>\<open>Number.isSafeInteger\<close>: a whole number of magnitude at most \<open>2 ^ 53 - 1\<close>.\<close>

definition isSafeInteger :: "rat \<Rightarrow> bool" where
  "isSafeInteger x = (of_int \<lfloor>x\<rfloor> = x \<and> \<bar>x\<bar> \<le> 2 ^ 53 - 1)"

subsection \<open>Arrays of strings\<close>

fun strings_of :: "jsval list \<Rightarrow> jsstring list" where
  "strings_of [] = []"
| "strings_of (JStr s # xs) = s # strings_of xs"
| "strings_of (_ # xs) = strings_of xs"

definition toStringArray :: "jsval \<Rightarrow> jsstring list" where
  "toStringArray v =
     (case v of
        JArr xs \<Rightarrow> filter (\<lambda>item. item \<noteq> []) (map trim (strings_of xs))
      | _ \<Rightarrow> [])"

section \<open>The interview data model (src/unnamed/part_003)\<close>

record InterviewQuestion =
  q_id :: jsstring
  q_text :: jsstring
  tips :: "jsstring list"
  q_index :: "rat option"
  category :: "jsstring option"
  focus :: "jsstring option"

record InterviewFeedback =
  summary :: jsstring
  strengths :: "jsstring list"
  improvements :: "jsstring list"
  score :: "rat option"

datatype InterviewMode = Remote | Local

datatype InterviewStatus = Active | Paused | Finished

section \<open>The fallback generators\<close>

definition default_role :: jsstring where
  \<comment> \<open>the literal of part_003 lines 239 and 283: the default role name (4 code units)\<close>
  "default_role =
     [0x76EE, 0x6807, 0x5C97, 0x4F4D]"

definition q1_text_before :: jsstring where
  \<comment> \<open>src/unnamed/part_003 line 243, the template up to the role\<close>
  "q1_text_before =
     [0x8BF7, 0x4F60, 0x7528, 0x20, 0x39, 0x30, 0x20, 0x79D2, 0x505A, 0x4E00, 0x4E2A, 0x4E0E,
     0x300C]"

definition q1_text_after :: jsstring where
  \<comment> \<open>src/unnamed/part_003 line 243, the template after the role\<close>
  "q1_text_after =
     [0x300D, 0x76F8, 0x5173, 0x7684, 0x81EA, 0x6211, 0x4ECB, 0x7ECD, 0x3002]"

definition q1_tip1 :: jsstring where
  \<comment> \<open>src/unnamed/part_003 line 244, first tip\<close>
  "q1_tip1 =
     [0x7A81, 0x51FA, 0x4E0E, 0x5C97, 0x4F4D, 0x6700, 0x76F8, 0x5173, 0x7684, 0x7ECF, 0x5386]"

definition q1_tip2 :: jsstring where
  \<comment> \<open>src/unnamed/part_003 line 244, second tip\<close>
  "q1_tip2 =
     [0x7ED9, 0x51FA, 0x20, 0x31, 0x2D, 0x32, 0x20, 0x4E2A, 0x91CF, 0x5316, 0x7ED3, 0x679C]"

definition q1_focus :: jsstring where
  \<comment> \<open>src/unnamed/part_003 line 246\<close>
  "q1_focus =
     [0x5C97, 0x4F4D, 0x5339, 0x914D]"

definition q2_text :: jsstring where
  \<comment> \<open>src/unnamed/part_003 line 250\<close>
  "q2_text =
     [0x63CF, 0x8FF0, 0x4E00, 0x4E2A, 0x4F60, 0x89E3, 0x51B3, 0x590D, 0x6742, 0x95EE, 0x9898,
     0x7684, 0x6848, 0x4F8B, 0xFF1A, 0x80CC, 0x666F, 0x3001, 0x52A8, 0x4F5C, 0x3001, 0x7ED3,
     0x679C, 0x5206, 0x522B, 0x662F, 0x4EC0, 0x4E48, 0xFF1F]"

definition q2_tip1 :: jsstring where
  \<comment> \<open>src/unnamed/part_003 line 251, first tip\<close>
  "q2_tip1 =
     [0x5EFA, 0x8BAE, 0x4F7F, 0x7528, 0x201C, 0x60C5, 0x5883, 0x2D, 0x4EFB, 0x52A1, 0x2D, 0x884C,
     0x52A8, 0x2D, 0x7ED3, 0x679C, 0x201D, 0x7ED3, 0x6784]"

definition q2_tip2 :: jsstring where
  \<comment> \<open>src/unnamed/part_003 line 251, second tip\<close>
  "q2_tip2 =
     [0x7ED3, 0x679C, 0x5C3D, 0x91CF, 0x7ED9, 0x51FA, 0x6570, 0x5B57]"

definition q2_focus :: jsstring where
  \<comment> \<open>src/unnamed/part_003 line 253\<close>
  "q2_focus =
     [0x9879, 0x76EE, 0x6DF1, 0x6316]"

definition q3_text :: jsstring where
  \<comment> \<open>src/unnamed/part_003 line 257\<close>
  "q3_text =
     [0x5982, 0x679C, 0x4F60, 0x52A0, 0x5165, 0x56E2, 0x961F, 0xFF0C, 0x524D, 0x20, 0x33, 0x30,
     0x20, 0x5929, 0x4F1A, 0x5982, 0x4F55, 0x5FEB, 0x901F, 0x521B, 0x9020, 0x4EF7, 0x503C,
     0xFF1F]"

definition q3_tip1 :: jsstring where
  \<comment> \<open>src/unnamed/part_003 line 258\<close>
  "q3_tip1 =
     [0x62C6, 0x5206, 0x4E3A, 0x5B66, 0x4E60, 0x3001, 0x4EA4, 0x4ED8, 0x3001, 0x534F, 0x540C,
     0x4E09, 0x4E2A, 0x7EF4, 0x5EA6]"

definition q3_focus :: jsstring where
  \<comment> \<open>src/unnamed/part_003 line 260\<close>
  "q3_focus =
     [0x843D, 0x5730, 0x8BA1, 0x5212]"

definition strength_complete :: jsstring where
  \<comment> \<open>src/unnamed/part_003 line 275\<close>
  "strength_complete =
     [0x56DE, 0x7B54, 0x5B8C, 0x6574, 0x5EA6, 0x8F83, 0x597D, 0xFF0C, 0x8986, 0x76D6, 0x4E86,
     0x4E3B, 0x8981, 0x95EE, 0x9898]"

definition strength_detailed :: jsstring where
  \<comment> \<open>src/unnamed/part_003 line 276\<close>
  "strength_detailed =
     [0x8868, 0x8FF0, 0x7EC6, 0x8282, 0x8F83, 0x5145, 0x5206, 0xFF0C, 0x5177, 0x5907, 0x4E00,
     0x5B9A, 0x8BF4, 0x670D, 0x529B]"

definition improve_short :: jsstring where
  \<comment> \<open>src/unnamed/part_003 line 279\<close>
  "improve_short =
     [0x7B54, 0x6848, 0x504F, 0x77ED, 0xFF0C, 0x5EFA, 0x8BAE, 0x8865, 0x5145, 0x5177, 0x4F53,
     0x80CC, 0x666F, 0x4E0E, 0x7ED3, 0x679C, 0x6570, 0x636E]"

definition improve_always :: jsstring where
  \<comment> \<open>src/unnamed/part_003 line 280\<close>
  "improve_always =
     [0x6BCF, 0x4E2A, 0x56DE, 0x7B54, 0x90FD, 0x53EF, 0x8865, 0x5145, 0x201C, 0x4F60, 0x505A,
     0x4E86, 0x4EC0, 0x4E48, 0x3001, 0x5E26, 0x6765, 0x4EC0, 0x4E48, 0x53D8, 0x5316, 0x201D,
     0x6765, 0x589E, 0x5F3A, 0x8BF4, 0x670D, 0x529B]"

definition summary_before :: jsstring where
  \<comment> \<open>src/unnamed/part_003 line 283, the template up to the role\<close>
  "summary_before =
     [0x5DF2, 0x5B8C, 0x6210, 0x20]"

definition summary_after :: jsstring where
  \<comment> \<open>src/unnamed/part_003 line 283, the template after the role\<close>
  "summary_after =
     [0x20, 0x7684, 0x6A21, 0x62DF, 0x9762, 0x8BD5, 0xFF0C, 0x5EFA, 0x8BAE, 0x7EE7, 0x7EED,
     0x6253, 0x78E8, 0x9AD8, 0x9891, 0x95EE, 0x9898, 0x8868, 0x8FBE, 0x3002]"

definition default_summary :: jsstring where
  \<comment> \<open>src/unnamed/part_003 line 231\<close>
  "default_summary =
     [0x672C, 0x6B21, 0x7EC3, 0x4E60, 0x5DF2, 0x5B8C, 0x6210, 0xFF0C, 0x7EE7, 0x7EED, 0x6253,
     0x78E8, 0x8868, 0x8FBE, 0x4F1A, 0x66F4, 0x597D, 0x3002]"

definition roleOrDefault :: "jsstring \<Rightarrow> jsstring" where
  \<comment> \<open>\<open>position.trim() || default_role\<close>\<close>
  "roleOrDefault position = (if trim position = [] then default_role else trim position)"

definition buildLocalQuestions :: "jsstring \<Rightarrow> InterviewQuestion list" where
  "buildLocalQuestions position =
     (let role = roleOrDefault position in
      [\<lparr>q_id = u16 ''q-1'',
        q_text = q1_text_before @ role @ q1_text_after,
        tips = [q1_tip1, q1_tip2],
        q_index = None,
        category = Some (u16 ''self_intro''),
        focus = Some q1_focus\<rparr>,
       \<lparr>q_id = u16 ''q-2'',
        q_text = q2_text,
        tips = [q2_tip1, q2_tip2],
        q_index = None,
        category = Some (u16 ''project_depth''),
        focus = Some q2_focus\<rparr>,
       \<lparr>q_id = u16 ''q-3'',
        q_text = q3_text,
        tips = [q3_tip1],
        q_index = None,
        category = Some (u16 ''onboarding''),
        focus = Some q3_focus\<rparr>])"

text \<open>
  \<open>Math.round(sum / n)\<close> for a sum of lengths and a positive count: the quotient rounded
  to the nearest integer, a half rounded up.
\<close>

definition round_quotient :: "nat \<Rightarrow> nat \<Rightarrow> nat" where
  "round_quotient s n = (2 * s + n) div (2 * n)"

text \<open>
  The answers are a \<open>Record<string, string>\<close>: an association list with one entry per key,
  in insertion order.
\<close>

definition buildLocalFeedback ::
  "(jsstring \<times> jsstring) list \<Rightarrow> nat \<Rightarrow> jsstring \<Rightarrow> InterviewFeedback" where
  "buildLocalFeedback answers totalQuestions position =
     (let answerList = filter (\<lambda>value. length (trim value) > 0) (map snd answers);
          avgLength =
            (if length answerList > 0
             then round_quotient
                    (foldl (\<lambda>sum item. sum + length (trim item)) 0 answerList)
                    (length answerList)
             else 0);
          score =
            min 95 (45 + length answerList * 12 + (if avgLength \<ge> 80 then 12 else 0)
                    + (if avgLength \<ge> 140 then 6 else 0));
          strengths =
            (if length answerList \<ge> min 3 totalQuestions then [strength_complete] else [])
            @ (if avgLength \<ge> 80 then [strength_detailed] else []);
          improvements =
            (if avgLength < 80 then [improve_short] else []) @ [improve_always]
      in \<lparr>summary = summary_before @ roleOrDefault position @ summary_after,
          strengths = strengths,
          improvements = improvements,
          score = Some (of_nat score)\<rparr>)"

section \<open>The environment of one operation\<close>

text \<open>
  What an operation reads from outside the program: the clock, the random identifiers, the
  date parser and printer, and the network. The outcome of a request may depend on the
  number of requests sent before it and on the request, so every behaviour of the remote
  side is some value of \<open>net\<close>. Local storage is assumed to be available and writable.
\<close>

datatype http_method = GET | POST

record response =
  http_status :: nat
  body :: jsval \<comment> \<open>what \<open>readJsonSafe\<close> returns: \<open>null\<close> unless the reply is JSON\<close>
  x_session_id :: "jsstring option" \<comment> \<open>the reply's \<open>x-session-id\<close> header\<close>

definition ok :: "response \<Rightarrow> bool" where
  "ok r = (200 \<le> http_status r \<and> http_status r \<le> 299)"

datatype outcome = NetworkError | Reply response

datatype ClientAuthMode = AuthLocal | AuthCustom

datatype AuthFailureReason = Expired | Unauthorized | RefreshFailed

record ClientAuthState =
  auth_sessionId :: jsstring
  accessToken :: jsstring
  refreshToken :: "jsstring option"
  auth_mode :: ClientAuthMode
  auth_updatedAt :: jsstring
  userName :: "jsstring option"
  expiresAt :: "jsstring option"

text \<open>
  A request as the network sees it: an application request carrying the credential
  headers of \<open>buildInitWithAuth\<close>, or the POST of one of the three refresh payload shapes
  (numbered 0 to 2) to a refresh endpoint.
\<close>

datatype request =
    Request http_method jsstring ClientAuthState
  | Refresh jsstring nat

record env =
  now_ms :: nat \<comment> \<open>\<open>Date.now()\<close>\<close>
  now_iso :: jsstring \<comment> \<open>\<open>new Date().toISOString()\<close>\<close>
  date_ms :: "jsstring \<Rightarrow> int option" \<comment> \<open>\<open>new Date(s).getTime()\<close>, \<open>None\<close> for \<open>NaN\<close>\<close>
  iso_of_ms :: "rat \<Rightarrow> jsstring option" \<comment> \<open>\<open>new Date(ms).toISOString()\<close>, \<open>None\<close> for its RangeError\<close>
  number_text :: "rat \<Rightarrow> jsstring" \<comment> \<open>a number inside a template literal\<close>
  new_session_id :: jsstring \<comment> \<open>\<open>generateSessionId()\<close>\<close>
  new_access_token :: jsstring \<comment> \<open>\<open>generateAccessToken()\<close>\<close>
  at_login_path :: bool \<comment> \<open>\<open>shouldSkipAutoRedirect(loginPath)\<close>\<close>
  net :: "nat \<Rightarrow> request \<Rightarrow> outcome"

definition API_BASE_URL :: jsstring where
  "API_BASE_URL = u16 ''http://127.0.0.1:8000''"

section \<open>The auth session client (src/unnamed/part_002)\<close>

text \<open>
  \<open>toLowerCase\<close> on the letters A to Z. The source only compares the result with
  lower-case ASCII literals that have no letter k, and no other code unit lower-cases to
  such a letter, so the comparisons are exact.
\<close>

definition toLowerCase :: "jsstring \<Rightarrow> jsstring" where
  "toLowerCase s = map (\<lambda>c. if 0x41 \<le> c \<and> c \<le> 0x5A then c + 0x20 else c) s"

definition isAuthExpired :: "env \<Rightarrow> jsstring option \<Rightarrow> bool" where
  "isAuthExpired e expires =
     (case expires of
        None \<Rightarrow> False
      | Some t \<Rightarrow>
          if t = [] then False
          else (case date_ms e t of
                  None \<Rightarrow> False
                | Some expiresAtMs \<Rightarrow> int (now_ms e) \<ge> expiresAtMs))"

definition isClientAuthenticated :: "env \<Rightarrow> ClientAuthState option \<Rightarrow> bool" where
  "isClientAuthenticated e state =
     (case state of
        None \<Rightarrow> False
      | Some s \<Rightarrow> if auth_mode s \<noteq> AuthCustom then False else \<not> isAuthExpired e (expiresAt s))"

text \<open>\<open>Boolean(state.refreshToken)\<close>: neither \<open>null\<close> nor the empty string.\<close>

definition hasRefreshToken :: "ClientAuthState \<Rightarrow> bool" where
  "hasRefreshToken s = (case refreshToken s of None \<Rightarrow> False | Some t \<Rightarrow> t \<noteq> [])"

text \<open>
  The test the source writes out three times (\<open>normalizeClientAuthState\<close>,
  \<open>persistState\<close>, \<open>ensureAuthState\<close>):
  \<open>mode === "custom" && isAuthExpired(s) && !s.refreshToken\<close>.
\<close>

definition expiredWithoutRefresh :: "env \<Rightarrow> ClientAuthState \<Rightarrow> bool" where
  "expiredWithoutRefresh e s =
     (auth_mode s = AuthCustom \<and> isAuthExpired e (expiresAt s) \<and> \<not> hasRefreshToken s)"

text \<open>\<open>typeof v === "string" ? v.trim() : ""\<close> and \<open>s || null\<close>.\<close>

definition trimmedString :: "jsval \<Rightarrow> jsstring" where
  "trimmedString v = (case v of JStr s \<Rightarrow> trim s | _ \<Rightarrow> [])"

definition orNull :: "jsstring \<Rightarrow> jsstring option" where
  "orNull s = (if s = [] then None else Some s)"

definition normalizeClientAuthState :: "env \<Rightarrow> jsval \<Rightarrow> ClientAuthState option" where
  "normalizeClientAuthState e v =
     (if \<not> isRecord v then None
      else
        let sessionId = trimmedString (js_get v ''sessionId'');
            token = trimmedString (js_get v ''accessToken'');
            modeRaw = toLowerCase (trimmedString (js_get v ''mode''));
            m = (if modeRaw = u16 ''custom'' then AuthCustom else AuthLocal)
        in if sessionId = [] \<or> token = [] then None
           else
             let normalized =
                   \<lparr>auth_sessionId = sessionId,
                    accessToken = token,
                    refreshToken = orNull (trimmedString (js_get v ''refreshToken'')),
                    auth_mode = m,
                    auth_updatedAt =
                      (case js_get v ''updatedAt'' of
                         JStr u \<Rightarrow> if u \<noteq> [] then u else now_iso e
                       | _ \<Rightarrow> now_iso e),
                    userName = orNull (trimmedString (js_get v ''userName'')),
                    expiresAt = orNull (trimmedString (js_get v ''expiresAt''))\<rparr>
             in if expiredWithoutRefresh e normalized then None else Some normalized)"

definition createGuestAuthState :: "env \<Rightarrow> ClientAuthState" where
  "createGuestAuthState e =
     \<lparr>auth_sessionId = new_session_id e,
      accessToken = new_access_token e,
      refreshToken = None,
      auth_mode = AuthLocal,
      auth_updatedAt = now_iso e,
      userName = None,
      expiresAt = None\<rparr>"

text \<open>
  The state of the \<open>useClientAuth\<close> hook together with what it shares with the browser:
  the two local-storage slots it reads (a slot holds text that parses as JSON or does
  not), the requests sent so far, and the redirect to the login page.
\<close>

datatype stored = Unparsable | Parsed jsval

record client =
  authRef :: "ClientAuthState option"
  authState :: "ClientAuthState option"
  tokenDraft :: jsstring
  authFailureReason :: "AuthFailureReason option"
  storage_v3 :: "stored option"
  storage_v2 :: "stored option"
  sent :: "request list"
  redirected :: "AuthFailureReason option"

definition authJson :: "ClientAuthState \<Rightarrow> jsval" where
  \<comment> \<open>\<open>JSON.stringify(state)\<close>, as \<open>JSON.parse\<close> reads it back\<close>
  "authJson s =
     JObj [(u16 ''sessionId'', JStr (auth_sessionId s)),
           (u16 ''accessToken'', JStr (accessToken s)),
           (u16 ''refreshToken'', (case refreshToken s of None \<Rightarrow> JNull | Some t \<Rightarrow> JStr t)),
           (u16 ''mode'', JStr (case auth_mode s of AuthLocal \<Rightarrow> u16 ''local'' | AuthCustom \<Rightarrow> u16 ''custom'')),
           (u16 ''updatedAt'', JStr (auth_updatedAt s)),
           (u16 ''userName'', (case userName s of None \<Rightarrow> JNull | Some t \<Rightarrow> JStr t)),
           (u16 ''expiresAt'', (case expiresAt s of None \<Rightarrow> JNull | Some t \<Rightarrow> JStr t))]"

definition clearClientAuthState :: "client \<Rightarrow> client" where
  "clearClientAuthState c = c\<lparr>storage_v3 := None, storage_v2 := None\<rparr>"

definition loadClientAuthState :: "env \<Rightarrow> client \<Rightarrow> ClientAuthState option \<times> client" where
  "loadClientAuthState e c =
     (case (case storage_v3 c of Some raw \<Rightarrow> Some raw | None \<Rightarrow> storage_v2 c) of
        None \<Rightarrow> (None, c)
      | Some Unparsable \<Rightarrow> (None, c)
      | Some (Parsed parsed) \<Rightarrow>
          (case normalizeClientAuthState e parsed of
             None \<Rightarrow> (None, clearClientAuthState c)
           | Some normalized \<Rightarrow> (Some normalized, c)))"

definition saveClientAuthState :: "ClientAuthState \<Rightarrow> client \<Rightarrow> ClientAuthState \<times> client" where
  "saveClientAuthState s c = (s, c\<lparr>storage_v3 := Some (Parsed (authJson s))\<rparr>)"

definition getOrCreateClientAuthState :: "env \<Rightarrow> client \<Rightarrow> ClientAuthState \<times> client" where
  "getOrCreateClientAuthState e c =
     (case loadClientAuthState e c of
        (Some current, c1) \<Rightarrow> (current, c1)
      | (None, c1) \<Rightarrow> saveClientAuthState (createGuestAuthState e) c1)"

definition syncAuthStateFromResponse ::
  "env \<Rightarrow> ClientAuthState \<Rightarrow> response \<Rightarrow> client \<Rightarrow> ClientAuthState \<times> client" where
  "syncAuthStateFromResponse e current r c =
     (let responseSessionId = (case x_session_id r of None \<Rightarrow> [] | Some h \<Rightarrow> trim h)
      in if responseSessionId = [] \<or> responseSessionId = auth_sessionId current then (current, c)
         else saveClientAuthState
                (current\<lparr>auth_sessionId := responseSessionId, auth_updatedAt := now_iso e\<rparr>) c)"

text \<open>
  \<open>authFetch\<close> with the credential given. A rejected \<open>fetch\<close> rejects the call:
  \<open>None\<close>.
\<close>

definition authFetch ::
  "env \<Rightarrow> http_method \<Rightarrow> jsstring \<Rightarrow> ClientAuthState \<Rightarrow> client
   \<Rightarrow> (response \<times> ClientAuthState) option \<times> client" where
  "authFetch e m url current c =
     (let req = Request m url current;
          c1 = c\<lparr>sent := sent c @ [req]\<rparr>
      in case net e (length (sent c)) req of
           NetworkError \<Rightarrow> (None, c1)
         | Reply r \<Rightarrow>
             (case syncAuthStateFromResponse e current r c1 of
                (next, c2) \<Rightarrow> (Some (r, next), c2)))"

subsection \<open>Decoding a refresh reply\<close>

text \<open>
  The first of the given property names whose value is a string that is not blank, trimmed:
  the loop over \<open>directKeys\<close> of the four \<open>extract...FromPayload\<close> functions.
\<close>

fun firstString :: "jsval \<Rightarrow> string list \<Rightarrow> jsstring option" where
  "firstString v [] = None"
| "firstString v (k # ks) =
     (if trimmedString (js_get v k) \<noteq> [] then Some (trimmedString (js_get v k))
      else firstString v ks)"

fun firstSome :: "'a option list \<Rightarrow> 'a option" where
  "firstSome [] = None"
| "firstSome (Some x # _) = Some x"
| "firstSome (None # xs) = firstSome xs"

text \<open>
  The recursion into the nested objects \<open>data\<close>, \<open>item\<close>, \<open>session\<close>, \<open>auth\<close>
  is written over the object's entries so that it is structural: looking \<open>key\<close> up among
  the entries' results is the result for the value stored under \<open>key\<close>, and \<open>None\<close>
  when there is none, as the source returns \<open>null\<close> for what is not a record.
\<close>

fun extractTokenFromPayload :: "jsval \<Rightarrow> jsstring option" where
  "extractTokenFromPayload (JObj kvs) =
     (case firstString (JObj kvs)
             [''accessToken'', ''access_token'', ''token'', ''jwt'', ''sessionToken''] of
        Some t \<Rightarrow> Some t
      | None \<Rightarrow>
          firstSome
            (map (\<lambda>key. case map_of (map (\<lambda>(k, v). (k, extractTokenFromPayload v)) kvs) (u16 key) of
                          Some nested \<Rightarrow> nested
                        | None \<Rightarrow> None)
               [''data'', ''item'', ''session'', ''auth'']))"
| "extractTokenFromPayload _ = None"

fun extractRefreshTokenFromPayload :: "jsval \<Rightarrow> jsstring option" where
  "extractRefreshTokenFromPayload (JObj kvs) =
     (case firstString (JObj kvs) [''refreshToken'', ''refresh_token'', ''refresh''] of
        Some t \<Rightarrow> Some t
      | None \<Rightarrow>
          firstSome
            (map (\<lambda>key. case map_of (map (\<lambda>(k, v). (k, extractRefreshTokenFromPayload v)) kvs)
                                (u16 key) of
                          Some nested \<Rightarrow> nested
                        | None \<Rightarrow> None)
               [''data'', ''item'', ''session'', ''auth'']))"
| "extractRefreshTokenFromPayload _ = None"

fun extractUserNameFromPayload :: "jsval \<Rightarrow> jsstring option" where
  "extractUserNameFromPayload (JObj kvs) =
     (case firstString (JObj kvs) [''userName'', ''username'', ''name''] of
        Some t \<Rightarrow> Some t
      | None \<Rightarrow>
          (case map_of (map (\<lambda>(k, v). (k, extractUserNameFromPayload v)) kvs) (u16 ''user'') of
             Some nested \<Rightarrow> nested
           | None \<Rightarrow> None))"
| "extractUserNameFromPayload _ = None"

datatype js_error = RangeError

definition extractExpiresAtFromPayload :: "env \<Rightarrow> jsval \<Rightarrow> js_error + jsstring option" where
  "extractExpiresAtFromPayload e payload =
     (if \<not> isRecord payload then Inr None
      else
        case firstString payload [''expiresAt'', ''expires_at'', ''expiry'', ''expiredAt''] of
          Some t \<Rightarrow> Inr (Some t)
        | None \<Rightarrow>
            (case js_nullish (js_nullish (js_get payload ''expiresIn'') (js_get payload ''expires_in''))
                    (js_get payload ''ttlSeconds'') of
               JNum expiresIn \<Rightarrow>
                 if expiresIn > 0
                 then (case iso_of_ms e (of_nat (now_ms e) + expiresIn * 1000) of
                         None \<Rightarrow> Inl RangeError
                       | Some t \<Rightarrow> Inr (Some t))
                 else Inr None
             | _ \<Rightarrow> Inr None))"

subsection \<open>Refresh\<close>

text \<open>
  The inner loop of \<open>tryAutoRefreshAuth\<close> over the payload shapes for one endpoint:
  \<open>Some\<close> is the \<open>return\<close> of the refreshed state, \<open>None\<close> the \<open>break\<close> on 404 or
  405 or the end of the loop. Every exception inside the \<open>try\<close> is a \<open>continue\<close>.
\<close>

fun refreshPayloads ::
  "env \<Rightarrow> ClientAuthState \<Rightarrow> string \<Rightarrow> nat list \<Rightarrow> client \<Rightarrow> ClientAuthState option \<times> client" where
  "refreshPayloads e current endpoint [] c = (None, c)"
| "refreshPayloads e current endpoint (payload # rest) c =
     (let req = Refresh (API_BASE_URL @ u16 endpoint) payload;
          c1 = c\<lparr>sent := sent c @ [req]\<rparr>
      in case net e (length (sent c)) req of
           NetworkError \<Rightarrow> refreshPayloads e current endpoint rest c1
         | Reply r \<Rightarrow>
             if http_status r = 404 \<or> http_status r = 405 then (None, c1)
             else if \<not> ok r then refreshPayloads e current endpoint rest c1
             else
               (case extractTokenFromPayload (body r) of
                  None \<Rightarrow> refreshPayloads e current endpoint rest c1
                | Some nextAccessToken \<Rightarrow>
                    (case extractExpiresAtFromPayload e (body r) of
                       Inl RangeError \<Rightarrow> refreshPayloads e current endpoint rest c1
                     | Inr extractedExpiresAt \<Rightarrow>
                         (Some
                            (current
                               \<lparr>auth_sessionId :=
                                  (case x_session_id r of
                                     None \<Rightarrow> auth_sessionId current
                                   | Some h \<Rightarrow> if trim h = [] then auth_sessionId current else trim h),
                                accessToken := nextAccessToken,
                                refreshToken :=
                                  (case extractRefreshTokenFromPayload (body r) of
                                     Some t \<Rightarrow> Some t
                                   | None \<Rightarrow> refreshToken current),
                                expiresAt :=
                                  (case extractedExpiresAt of
                                     Some t \<Rightarrow> Some t
                                   | None \<Rightarrow> expiresAt current),
                                userName :=
                                  (case extractUserNameFromPayload (body r) of
                                     Some t \<Rightarrow> Some t
                                   | None \<Rightarrow> userName current),
                                auth_updatedAt := now_iso e,
                                auth_mode := AuthCustom\<rparr>),
                          c1))))"

fun refreshEndpoints ::
  "env \<Rightarrow> ClientAuthState \<Rightarrow> string list \<Rightarrow> client \<Rightarrow> ClientAuthState option \<times> client" where
  "refreshEndpoints e current [] c = (None, c)"
| "refreshEndpoints e current (endpoint # rest) c =
     (case refreshPayloads e current endpoint [0, 1, 2] c of
        (Some refreshed, c1) \<Rightarrow> (Some refreshed, c1)
      | (None, c1) \<Rightarrow> refreshEndpoints e current rest c1)"

definition tryAutoRefreshAuth ::
  "env \<Rightarrow> ClientAuthState \<Rightarrow> client \<Rightarrow> ClientAuthState option \<times> client" where
  "tryAutoRefreshAuth e current c =
     (if \<not> hasRefreshToken current then (None, c)
      else refreshEndpoints e current
             [''/api/auth/refresh'', ''/api/auth/token/refresh'', ''/api/auth/session/refresh'',
              ''/api/auth/login/refresh'']
             c)"

subsection \<open>The hook's operations\<close>

definition toSafeAuthReason :: "jsstring option \<Rightarrow> AuthFailureReason option" where
  "toSafeAuthReason raw =
     (if raw = Some (u16 ''expired'') then Some Expired
      else if raw = Some (u16 ''unauthorized'') then Some Unauthorized
      else if raw = Some (u16 ''refresh_failed'') then Some RefreshFailed
      else None)"

text \<open>The effect that runs when the hook mounts; \<open>reasonParam\<close> is the page's query parameter.\<close>

definition initAuth :: "env \<Rightarrow> jsstring option \<Rightarrow> client \<Rightarrow> client" where
  "initAuth e reasonParam c =
     (case loadClientAuthState e c of
        (loaded, c1) \<Rightarrow>
          (case saveClientAuthState
                  (case loaded of Some s \<Rightarrow> s | None \<Rightarrow> createGuestAuthState e) c1 of
             (saved, c2) \<Rightarrow>
               c2\<lparr>authRef := Some saved,
                  authState := Some saved,
                  tokenDraft := accessToken saved,
                  authFailureReason := toSafeAuthReason reasonParam\<rparr>))"

definition persistState :: "env \<Rightarrow> ClientAuthState \<Rightarrow> client \<Rightarrow> ClientAuthState \<times> client" where
  "persistState e next c =
     (let fallbackToGuest = (if expiredWithoutRefresh e next then createGuestAuthState e else next)
      in case saveClientAuthState fallbackToGuest c of
           (saved, c1) \<Rightarrow>
             (saved, c1\<lparr>authRef := Some saved, authState := Some saved, tokenDraft := accessToken saved\<rparr>))"

definition ensureAuthState :: "env \<Rightarrow> client \<Rightarrow> ClientAuthState \<times> client" where
  "ensureAuthState e c =
     (case authRef c of
        Some current \<Rightarrow>
          if expiredWithoutRefresh e current then persistState e (createGuestAuthState e) c
          else (current, c)
      | None \<Rightarrow>
          (case getOrCreateClientAuthState e c of
             (fallback, c1) \<Rightarrow>
               (fallback,
                c1\<lparr>authRef := Some fallback, authState := Some fallback,
                   tokenDraft := accessToken fallback\<rparr>)))"

definition toAbsoluteInput :: "jsstring \<Rightarrow> jsstring \<Rightarrow> jsstring" where
  "toAbsoluteInput apiBaseUrl input =
     (if toLowerCase (take 7 input) = u16 ''http://'' \<or> toLowerCase (take 8 input) = u16 ''https://''
      then input
      else apiBaseUrl @ (if take 1 input = u16 ''/'' then input else u16 ''/'' @ input))"

text \<open>
  The end of \<open>apiFetch\<close> (lines 579 to 592): the reason is surfaced, the credential becomes a
  guest one, the page may be sent to the login page, and the last 401 reply is returned.
\<close>

definition authFailed ::
  "env \<Rightarrow> bool \<Rightarrow> ClientAuthState \<Rightarrow> bool \<Rightarrow> response \<Rightarrow> client \<Rightarrow> response option \<times> client" where
  "authFailed e autoRedirectOnUnauthorized current hadRefreshToken result c =
     (let reason =
            (if hadRefreshToken then RefreshFailed
             else if isAuthExpired e (expiresAt current) then Expired
             else Unauthorized);
          c1 = snd (persistState e (createGuestAuthState e) (c\<lparr>authFailureReason := Some reason\<rparr>))
      in (Some result,
          if autoRedirectOnUnauthorized \<and> \<not> at_login_path e then c1\<lparr>redirected := Some reason\<rparr>
          else c1))"

text \<open>The comparison of lines 553 to 557: the reply changed the credential.\<close>

definition credentialChanged :: "ClientAuthState \<Rightarrow> ClientAuthState \<Rightarrow> bool" where
  "credentialChanged st current =
     (auth_sessionId st \<noteq> auth_sessionId current
      \<or> accessToken st \<noteq> accessToken current
      \<or> auth_mode st \<noteq> auth_mode current
      \<or> auth_updatedAt st \<noteq> auth_updatedAt current
      \<or> refreshToken st \<noteq> refreshToken current)"

text \<open>\<open>apiFetch\<close>: \<open>None\<close> is a rejected promise (a request that threw).\<close>

definition apiFetch ::
  "env \<Rightarrow> bool \<Rightarrow> http_method \<Rightarrow> jsstring \<Rightarrow> client \<Rightarrow> response option \<times> client" where
  "apiFetch e autoRedirectOnUnauthorized m input c =
     (let requestInput = toAbsoluteInput API_BASE_URL input
      in case ensureAuthState e c of
           (current, c1) \<Rightarrow>
             (case authFetch e m requestInput current c1 of
                (None, c2) \<Rightarrow> (None, c2)
              | (Some (r, st), c2) \<Rightarrow>
                  let c3 = (if credentialChanged st current then snd (persistState e st c2) else c2)
                  in if http_status r \<noteq> 401 \<or> auth_mode current \<noteq> AuthCustom then (Some r, c3)
                     else
                       let hadRefreshToken = hasRefreshToken current
                       in (case (if hadRefreshToken then tryAutoRefreshAuth e current c3 else (None, c3)) of
                            (Some refreshCandidate, c4) \<Rightarrow>
                              (case persistState e refreshCandidate c4 of
                                 (refreshedState, c5) \<Rightarrow>
                                   (case authFetch e m requestInput refreshedState
                                           (c5\<lparr>authFailureReason := None\<rparr>) of
                                      (None, c6) \<Rightarrow> (None, c6)
                                    | (Some (retry, st2), c6) \<Rightarrow>
                                        if ok retry \<or> http_status retry \<noteq> 401
                                        then (Some retry, snd (persistState e st2 c6))
                                        else authFailed e autoRedirectOnUnauthorized current
                                               hadRefreshToken retry c6))
                          | (None, c4) \<Rightarrow>
                              authFailed e autoRedirectOnUnauthorized current hadRefreshToken r c4)))"

definition logout :: "env \<Rightarrow> client \<Rightarrow> ClientAuthState \<times> client" where
  "logout e c = persistState e (createGuestAuthState e) (c\<lparr>authFailureReason := None\<rparr>)"

record LoginPayload =
  lp_token :: "jsstring option"
  lp_refreshToken :: "jsstring option"
  lp_userName :: "jsstring option"
  expiresInHours :: "rat option" \<comment> \<open>\<open>None\<close> also stands for a number that is not finite\<close>
  lp_expiresAt :: "jsstring option"
  lp_sessionId :: "jsstring option"

definition toFutureTimeIso :: "env \<Rightarrow> rat option \<Rightarrow> js_error + jsstring option" where
  "toFutureTimeIso e hours =
     (case hours of
        None \<Rightarrow> Inr None
      | Some h \<Rightarrow>
          if h \<le> 0 then Inr None
          else (case iso_of_ms e (of_nat (now_ms e) + h * 60 * 60 * 1000) of
                  None \<Rightarrow> Inl RangeError
                | Some t \<Rightarrow> Inr (Some t)))"

definition normalizeExpiresAt :: "env \<Rightarrow> LoginPayload \<Rightarrow> js_error + jsstring option" where
  "normalizeExpiresAt e payload =
     (case lp_expiresAt payload of
        Some t \<Rightarrow> if trim t \<noteq> [] then Inr (Some (trim t)) else toFutureTimeIso e (expiresInHours payload)
      | None \<Rightarrow> toFutureTimeIso e (expiresInHours payload))"

text \<open>\<open>value?.trim() || fallback\<close>.\<close>

definition trimmedOr :: "jsstring option \<Rightarrow> jsstring \<Rightarrow> jsstring" where
  "trimmedOr v fallback = (case v of Some t \<Rightarrow> if trim t \<noteq> [] then trim t else fallback | None \<Rightarrow> fallback)"

definition default_user_name :: jsstring where
  \<comment> \<open>src/unnamed/part_002 lines 165 and 625: the default display name (3 code units)\<close>
  "default_user_name = [0x5019, 0x9009, 0x4EBA]"

definition createAuthenticatedAuthState :: "env \<Rightarrow> LoginPayload \<Rightarrow> js_error + ClientAuthState" where
  "createAuthenticatedAuthState e payload =
     (case normalizeExpiresAt e payload of
        Inl err \<Rightarrow> Inl err
      | Inr expires \<Rightarrow>
          Inr \<lparr>auth_sessionId = trimmedOr (lp_sessionId payload) (new_session_id e),
               accessToken = trimmedOr (lp_token payload) (new_access_token e),
               refreshToken = orNull (trimmedOr (lp_refreshToken payload) []),
               auth_mode = AuthCustom,
               auth_updatedAt = now_iso e,
               userName = Some (trimmedOr (lp_userName payload) default_user_name),
               expiresAt = expires\<rparr>)"

text \<open>\<open>login\<close>: the failure reason is cleared before the credential is built.\<close>

definition login :: "env \<Rightarrow> LoginPayload \<Rightarrow> client \<Rightarrow> (js_error + ClientAuthState) \<times> client" where
  "login e payload c =
     (case createAuthenticatedAuthState e payload of
        Inl err \<Rightarrow> (Inl err, c\<lparr>authFailureReason := None\<rparr>)
      | Inr nxt \<Rightarrow>
          (case persistState e nxt (c\<lparr>authFailureReason := None\<rparr>) of
             (saved, c1) \<Rightarrow> (Inr saved, c1)))"

definition applyAccessToken :: "env \<Rightarrow> jsstring \<Rightarrow> client \<Rightarrow> ClientAuthState \<times> client" where
  "applyAccessToken e token c =
     (let normalized = trim token
      in if normalized = [] then logout e c
         else
           case ensureAuthState e c of
             (current, c1) \<Rightarrow>
               persistState e
                 (current
                    \<lparr>accessToken := normalized,
                     auth_mode := AuthCustom,
                     auth_updatedAt := now_iso e,
                     userName :=
                       (case userName current of
                          None \<Rightarrow> Some default_user_name
                        | Some n \<Rightarrow> if n = [] then Some default_user_name else Some n)\<rparr>)
                 (c1\<lparr>authFailureReason := None\<rparr>))"

definition rotateSession :: "env \<Rightarrow> client \<Rightarrow> ClientAuthState \<times> client" where
  "rotateSession e c =
     (case ensureAuthState e c of
        (current, c1) \<Rightarrow>
          persistState e (current\<lparr>auth_sessionId := new_session_id e, auth_updatedAt := now_iso e\<rparr>) c1)"

section \<open>The interview page (src/unnamed/part_003)\<close>

subsection \<open>The session record\<close>

text \<open>
  \<open>answers\<close> is a \<open>Record<string, string>\<close>: an association list with one entry per
  key, updated with \<open>AList.update\<close>, so that \<open>Object.keys(answers).length\<close> is its
  length. The order of the keys plays no part: the source only counts and sums over them.
  \<open>resumeContextKey\<close> is a string in every record the source builds.

  \<open>remoteNumericId\<close> is the one optional property. The record that \<open>startSession\<close>
  builds when it falls back has no such property (\<open>NoProperty\<close>); every other record the
  source builds has it, holding a number or \<open>undefined\<close>. Reading it gives \<open>undefined\<close>
  in both cases, but \<open>{ ...current, ...next }\<close> takes it from \<open>next\<close> only when
  \<open>next\<close> has the property.
\<close>

datatype optional_number = NoProperty | Holds "rat option"

definition numberOf :: "optional_number \<Rightarrow> rat option" where
  "numberOf v = (case v of NoProperty \<Rightarrow> None | Holds x \<Rightarrow> x)"

definition overlaid :: "optional_number \<Rightarrow> optional_number \<Rightarrow> optional_number" where
  \<comment> \<open>the property in \<open>{ ...current, ...next }\<close>\<close>
  "overlaid current next = (case next of NoProperty \<Rightarrow> current | Holds x \<Rightarrow> Holds x)"

record InterviewSessionRecord =
  key :: jsstring
  sessionId :: jsstring
  mode :: InterviewMode
  status :: InterviewStatus
  position :: jsstring
  jdText :: jsstring
  resumeText :: jsstring
  resumeContextKey :: jsstring
  createdAt :: jsstring
  updatedAt :: jsstring
  questionCount :: rat
  answeredCount :: rat
  currentIndex :: rat
  questions :: "InterviewQuestion list"
  answers :: "(jsstring \<times> jsstring) list"
  feedback :: "InterviewFeedback option"
  remoteNumericId :: optional_number

subsection \<open>Numbers and text\<close>

text \<open>A natural number inside a template literal: its decimal digits.\<close>

fun decimal :: "nat \<Rightarrow> jsstring" where
  "decimal n =
     (if n < 10 then [of_nat (48 + n)] else decimal (n div 10) @ [of_nat (48 + n mod 10)])"

declare decimal.simps [simp del]

text \<open>
  \<open>Number.parseInt(s, 10)\<close>: leading white space, an optional sign, then the longest run
  of decimal digits; \<open>None\<close> is \<open>NaN\<close>. Exact for values below \<open>2^53\<close>.
\<close>

definition isDigit :: "16 word \<Rightarrow> bool" where
  "isDigit c = (0x30 \<le> c \<and> c \<le> 0x39)"

definition parseInt10 :: "jsstring \<Rightarrow> int option" where
  "parseInt10 s =
     (let s1 = dropWhile isWhiteSpace s;
          negative = (take 1 s1 = [0x2D]);
          s2 = (if take 1 s1 = [0x2D] \<or> take 1 s1 = [0x2B] then drop 1 s1 else s1);
          digits = takeWhile isDigit s2;
          magnitude = foldl (\<lambda>acc d. acc * 10 + (uint d - 48)) 0 digits
      in if digits = [] then None else Some (if negative then - magnitude else magnitude))"

fun splitOn :: "16 word \<Rightarrow> jsstring \<Rightarrow> jsstring list" where
  "splitOn c [] = [[]]"
| "splitOn c (x # xs) =
     (if x = c then [] # splitOn c xs
      else (case splitOn c xs of l # ls \<Rightarrow> (x # l) # ls | [] \<Rightarrow> [[x]]))"

text \<open>
  The lines are trimmed before they are looked at, so splitting at the line feed alone
  gives the lines that the source's split at \<open>\r?\n\<close> gives.
\<close>

definition inferPositionFromJd :: "jsstring \<Rightarrow> jsstring" where
  "inferPositionFromJd jd =
     (case filter (\<lambda>item. item \<noteq> []) (map trim (splitOn 0x0A jd)) of
        [] \<Rightarrow> []
      | firstLine # _ \<Rightarrow>
          if length firstLine \<le> 30 then firstLine else take 30 firstLine @ [0x2026])"

subsection \<open>Decoding remote payloads\<close>

definition toInterviewQuestion :: "jsval \<Rightarrow> jsstring \<Rightarrow> InterviewQuestion option" where
  "toInterviewQuestion v fallbackId =
     (case v of
        JStr s \<Rightarrow>
          if trim s = [] then None
          else Some \<lparr>q_id = fallbackId, q_text = trim s, tips = [], q_index = None,
                     category = None, focus = None\<rparr>
      | _ \<Rightarrow>
          if \<not> isRecord v then None
          else
            let t = trim (toSafeString
                            (js_or (js_or (js_or (js_get v ''text'') (js_get v ''question''))
                                      (js_get v ''questionText''))
                               (js_get v ''prompt''))
                            [])
            in if t = [] then None
               else
                 let i = trim (toSafeString
                                 (js_or (js_or (js_or (js_get v ''id'') (js_get v ''questionId''))
                                           (js_get v ''qid''))
                                    (js_get v ''index''))
                                 fallbackId)
                 in Some \<lparr>q_id = (if i = [] then fallbackId else i),
                          q_text = t,
                          tips = toStringArray
                                   (js_nullish (js_nullish (js_get v ''tips'') (js_get v ''hints''))
                                      (js_get v ''keyPoints'')),
                          q_index = toSafeNumber (js_get v ''index''),
                          category = Some (toSafeString (js_get v ''category'') []),
                          focus = Some (toSafeString (js_get v ''focus'') [])\<rparr>)"

text \<open>
  \<open>raw.map((item, index) => toInterviewQuestion(item, `q-${index + 1}`)).filter(...)\<close>,
  with \<open>i\<close> the index of the first item.
\<close>

fun questionsFrom :: "nat \<Rightarrow> jsval list \<Rightarrow> InterviewQuestion list" where
  "questionsFrom i [] = []"
| "questionsFrom i (item # rest) =
     (case toInterviewQuestion item (u16 ''q-'' @ decimal (i + 1)) of
        None \<Rightarrow> questionsFrom (i + 1) rest
      | Some q \<Rightarrow> q # questionsFrom (i + 1) rest)"

fun firstQuestionList :: "jsval list \<Rightarrow> InterviewQuestion list" where
  "firstQuestionList [] = []"
| "firstQuestionList (JArr raw # rest) =
     (if questionsFrom 0 raw \<noteq> [] then questionsFrom 0 raw else firstQuestionList rest)"
| "firstQuestionList (_ # rest) = firstQuestionList rest"

definition toQuestionList :: "jsval \<Rightarrow> InterviewQuestion list" where
  "toQuestionList payload =
     (if \<not> isRecord payload then []
      else
        case firstQuestionList
               [js_get payload ''questions'', js_get payload ''questionList'',
                js_get payload ''items'', js_get payload ''bank''] of
          q # qs \<Rightarrow> q # qs
        | [] \<Rightarrow>
            (case toInterviewQuestion
                    (js_nullish (js_nullish (js_get payload ''currentQuestion'') (js_get payload ''question''))
                       (js_get payload ''nextQuestion''))
                    (u16 ''q-1'') of
               Some single \<Rightarrow> [single]
             | None \<Rightarrow> []))"

definition toInterviewFeedback :: "jsval \<Rightarrow> InterviewFeedback option" where
  "toInterviewFeedback payload =
     (if \<not> isRecord payload then None
      else
        let maybeFeedback =
              (if isRecord (js_get payload ''feedback'') then js_get payload ''feedback''
               else if isRecord (js_get payload ''feedbackDraft'') then js_get payload ''feedbackDraft''
               else payload);
            summaryText =
              trim (toSafeString
                      (js_or (js_or (js_get maybeFeedback ''summary'') (js_get maybeFeedback ''overall''))
                         (js_get maybeFeedback ''comment''))
                      []);
            strengthList =
              toStringArray
                (js_nullish (js_nullish (js_get maybeFeedback ''strengths'') (js_get maybeFeedback ''highlights''))
                   (js_get maybeFeedback ''goodPoints''));
            improvementList =
              toStringArray
                (js_nullish
                   (js_nullish
                      (js_nullish (js_get maybeFeedback ''improvements'')
                         (js_get maybeFeedback ''suggestions''))
                      (js_get maybeFeedback ''gaps''))
                   (js_get maybeFeedback ''improvementPlan''));
            scoreValue =
              toSafeNumber (js_nullish (js_get maybeFeedback ''score'') (js_get maybeFeedback ''overallScore''))
        in if summaryText = [] \<and> strengthList = [] \<and> improvementList = [] \<and> scoreValue = None
           then None
           else Some \<lparr>summary = (if summaryText = [] then default_summary else summaryText),
                      strengths = strengthList,
                      improvements = improvementList,
                      score = scoreValue\<rparr>)"

definition extractSessionId :: "jsval \<Rightarrow> jsstring" where
  "extractSessionId payload =
     (if \<not> isRecord payload then []
      else
        let direct = toSafeString
                       (js_or (js_or (js_get payload ''sessionId'') (js_get payload ''session_id''))
                          (js_get payload ''id''))
                       []
        in if direct \<noteq> [] then direct
           else if isRecord (js_get payload ''session'')
           then toSafeString
                  (js_or (js_or (js_or (js_get (js_get payload ''session'') ''id'')
                                   (js_get (js_get payload ''session'') ''sessionId''))
                            (js_get (js_get payload ''session'') ''session_id''))
                     (js_get (js_get payload ''session'') ''sessionToken''))
                  []
           else [])"

definition normalizeStatus :: "jsval \<Rightarrow> InterviewStatus" where
  "normalizeStatus v =
     (let raw = toLowerCase (toSafeString v [])
      in if raw = u16 ''paused'' then Paused
         else if raw = u16 ''finished'' \<or> raw = u16 ''completed'' \<or> raw = u16 ''done'' then Finished
         else Active)"

definition statusText :: "InterviewStatus \<Rightarrow> jsval" where
  \<comment> \<open>a record's own status, where the source passes it on to \<open>normalizeStatus\<close>\<close>
  "statusText st =
     JStr (case st of Active \<Rightarrow> u16 ''active'' | Paused \<Rightarrow> u16 ''paused'' | Finished \<Rightarrow> u16 ''finished'')"

definition normalizeRemoteSession :: "env \<Rightarrow> jsval \<Rightarrow> InterviewSessionRecord option" where
  "normalizeRemoteSession e v =
     (if \<not> isRecord v then None
      else
        let sessionToken =
              trim (toSafeString
                      (js_or (js_or (js_get v ''sessionToken'') (js_get v ''session_id''))
                         (js_get v ''sessionId''))
                      [])
        in case toSafeNumber (js_get v ''id'') of
             None \<Rightarrow> None
           | Some i \<Rightarrow>
               if i = 0 \<or> sessionToken = [] then None
               else
                 let created = (if toSafeString (js_get v ''createdAt'') [] \<noteq> []
                                then toSafeString (js_get v ''createdAt'') [] else now_iso e);
                     updated = (if toSafeString (js_get v ''updatedAt'') [] \<noteq> []
                                then toSafeString (js_get v ''updatedAt'') [] else created)
                 in Some \<lparr>key = u16 ''remote-history-'' @ number_text e i,
                          sessionId = sessionToken,
                          mode = Remote,
                          status = normalizeStatus (js_get v ''status''),
                          position = [],
                          jdText = [],
                          resumeText = [],
                          resumeContextKey = toSafeString (js_get v ''resumeContextKey'') [],
                          createdAt = created,
                          updatedAt = updated,
                          questionCount =
                            (case toSafeNumber (js_get v ''questionCount'') of Some n \<Rightarrow> n | None \<Rightarrow> 0),
                          answeredCount =
                            (case toSafeNumber (js_get v ''answeredCount'') of Some n \<Rightarrow> n | None \<Rightarrow> 0),
                          currentIndex =
                            max 0 (case toSafeNumber (js_get v ''currentIndex'') of Some n \<Rightarrow> n | None \<Rightarrow> 0),
                          questions = [],
                          answers = [],
                          feedback = None,
                          remoteNumericId = Holds (Some i)\<rparr>)"

text \<open>
  \<open>Object.entries\<close> of a value that passed \<open>isRecord\<close>; an array's keys are its
  indices. In \<open>normalizeRecord\<close> the answers are copied by assignment, \<open>acc[k] = v\<close>,
  and assigning a string to the key \<open>__proto__\<close> of a plain object stores nothing: the
  entry of that key is dropped.
\<close>

definition entries :: "jsval \<Rightarrow> (jsstring \<times> jsval) list" where
  "entries v =
     (case v of
        JObj kvs \<Rightarrow> kvs
      | JArr xs \<Rightarrow> zip (map decimal [0..<length xs]) xs
      | _ \<Rightarrow> [])"

definition normalizeRecord :: "jsval \<Rightarrow> InterviewSessionRecord option" where
  "normalizeRecord v =
     (if \<not> isRecord v then None
      else if toSafeString (js_get v ''key'') [] = [] \<or> toSafeString (js_get v ''sessionId'') [] = []
      then None
      else
        let questionList =
              (case js_get v ''questions'' of JArr raw \<Rightarrow> questionsFrom 0 raw | _ \<Rightarrow> []);
            answersRaw = (if isRecord (js_get v ''answers'') then entries (js_get v ''answers'') else []);
            answerMap =
              foldl (\<lambda>acc (k, x). case x of
                                   JStr t \<Rightarrow> if k = u16 ''__proto__'' then acc else AList.update k t acc
                                 | _ \<Rightarrow> acc)
                [] answersRaw
        in Some \<lparr>key = toSafeString (js_get v ''key'') [],
                 sessionId = toSafeString (js_get v ''sessionId'') [],
                 mode = (if toLowerCase (toSafeString (js_get v ''mode'') []) = u16 ''remote''
                         then Remote else Local),
                 status = normalizeStatus (js_get v ''status''),
                 position = toSafeString (js_get v ''position'') [],
                 jdText = toSafeString (js_get v ''jdText'') [],
                 resumeText = toSafeString (js_get v ''resumeText'') [],
                 resumeContextKey = toSafeString (js_get v ''resumeContextKey'') [],
                 createdAt = toSafeString (js_get v ''createdAt'') [],
                 updatedAt = toSafeString (js_get v ''updatedAt'') [],
                 questionCount =
                   (case toSafeNumber (js_get v ''questionCount'') of
                      Some n \<Rightarrow> n
                    | None \<Rightarrow> of_nat (length questionList)),
                 answeredCount =
                   (case toSafeNumber (js_get v ''answeredCount'') of
                      Some n \<Rightarrow> n
                    | None \<Rightarrow> of_nat (length answerMap)),
                 currentIndex =
                   (case toSafeNumber (js_get v ''currentIndex'') of Some n \<Rightarrow> n | None \<Rightarrow> 0),
                 questions = questionList,
                 answers = answerMap,
                 feedback = toInterviewFeedback (js_get v ''feedback''),
                 remoteNumericId = Holds (toSafeNumber (js_get v ''remoteNumericId''))\<rparr>)"

fun recordsFrom :: "jsval list \<Rightarrow> InterviewSessionRecord list" where
  "recordsFrom [] = []"
| "recordsFrom (item # rest) =
     (case normalizeRecord item of None \<Rightarrow> recordsFrom rest | Some r \<Rightarrow> r # recordsFrom rest)"

definition loadSessionRecords :: "stored option \<Rightarrow> InterviewSessionRecord list" where
  "loadSessionRecords raw =
     (case raw of
        Some (Parsed (JArr parsed)) \<Rightarrow> take 50 (recordsFrom parsed)
      | _ \<Rightarrow> [])"

subsection \<open>The store\<close>

text \<open>\<open>{ ...a, ...b }\<close> for two answer maps.\<close>

definition spread :: "(jsstring \<times> jsstring) list \<Rightarrow> (jsstring \<times> jsstring) list \<Rightarrow> (jsstring \<times> jsstring) list" where
  "spread a b = foldl (\<lambda>acc (k, v). AList.update k v acc) a b"

fun findIndex :: "('a \<Rightarrow> bool) \<Rightarrow> 'a list \<Rightarrow> nat option" where
  "findIndex P [] = None"
| "findIndex P (x # xs) = (if P x then Some 0 else map_option Suc (findIndex P xs))"

definition upsertRecord ::
  "InterviewSessionRecord list \<Rightarrow> InterviewSessionRecord \<Rightarrow> InterviewSessionRecord list" where
  "upsertRecord list next =
     (case findIndex
             (\<lambda>item. key item = key next \<or> sessionId item = sessionId next
                      \<or> (numberOf (remoteNumericId item) \<noteq> None
                          \<and> numberOf (remoteNumericId item) = numberOf (remoteNumericId next)))
             list of
        None \<Rightarrow> take 50 (next # list)
      | Some i \<Rightarrow>
          let current = list ! i
          in list[i := next\<lparr>remoteNumericId := overlaid (remoteNumericId current) (remoteNumericId next),
                            key := key current,
                            questions := (if questions next \<noteq> [] then questions next else questions current),
                            answers := spread (answers current) (answers next),
                            feedback := (case feedback next of Some f \<Rightarrow> Some f | None \<Rightarrow> feedback current)\<rparr>])"

subsection \<open>The page's state and messages\<close>

definition err_need_job :: jsstring where
  \<comment> \<open>src/unnamed/part_003 line 748\<close>
  "err_need_job =
     [0x8BF7, 0x5148, 0x586B, 0x5199, 0x5C97, 0x4F4D, 0x65B9, 0x5411, 0x6216, 0x5C97, 0x4F4D,
     0x63CF, 0x8FF0, 0x3002]"

definition notice_started :: jsstring where
  \<comment> \<open>src/unnamed/part_003 line 809\<close>
  "notice_started =
     [0x5DF2, 0x8FDB, 0x5165, 0x9762, 0x8BD5, 0x7EC3, 0x4E60, 0x9875, 0xFF0C, 0x53EF, 0x76F4,
     0x63A5, 0x5F00, 0x59CB, 0x4F5C, 0x7B54, 0x3002]"

definition notice_start_fallback :: jsstring where
  \<comment> \<open>src/unnamed/part_003 line 835\<close>
  "notice_start_fallback =
     [0x5728, 0x7EBF, 0x6062, 0x590D, 0x5931, 0x8D25, 0xFF0C, 0x5DF2, 0x81EA, 0x52A8, 0x964D,
     0x7EA7, 0x5230, 0x672C, 0x5730, 0x7EC3, 0x4E60, 0x6A21, 0x5F0F, 0x3002, 0x4F60, 0x73B0,
     0x5728, 0x53EF, 0x4EE5, 0x7EE7, 0x7EED, 0x5B8C, 0x6574, 0x6D41, 0x7A0B, 0x3002]"

definition err_paused_submit :: jsstring where
  \<comment> \<open>src/unnamed/part_003 line 845\<close>
  "err_paused_submit =
     [0x5F53, 0x524D, 0x7EC3, 0x4E60, 0x5DF2, 0x6682, 0x505C, 0xFF0C, 0x8BF7, 0x5148, 0x7EE7,
     0x7EED, 0x540E, 0x518D, 0x63D0, 0x4EA4, 0x56DE, 0x7B54, 0x3002]"

definition err_empty_answer :: jsstring where
  \<comment> \<open>src/unnamed/part_003 line 851\<close>
  "err_empty_answer =
     [0x8BF7, 0x5148, 0x8F93, 0x5165, 0x4F60, 0x7684, 0x56DE, 0x7B54, 0x3002]"

definition notice_answer_saved :: jsstring where
  \<comment> \<open>src/unnamed/part_003 line 867\<close>
  "notice_answer_saved =
     [0x56DE, 0x7B54, 0x5DF2, 0x4FDD, 0x5B58, 0xFF0C, 0x7EE7, 0x7EED, 0x4E0B, 0x4E00, 0x9898,
     0x5373, 0x53EF, 0x3002]"

definition notice_answer_sent :: jsstring where
  \<comment> \<open>src/unnamed/part_003 line 915\<close>
  "notice_answer_sent =
     [0x56DE, 0x7B54, 0x5DF2, 0x63D0, 0x4EA4, 0xFF0C, 0x7EE7, 0x7EED, 0x4FDD, 0x6301, 0x8FD9,
     0x4E2A, 0x8282, 0x594F, 0x3002]"

definition notice_answer_local :: jsstring where
  \<comment> \<open>src/unnamed/part_003 line 918\<close>
  "notice_answer_local =
     [0x7F51, 0x7EDC, 0x6CE2, 0x52A8, 0xFF0C, 0x5DF2, 0x5207, 0x6362, 0x672C, 0x5730, 0x6A21,
     0x5F0F, 0x7EE7, 0x7EED, 0x4FDD, 0x5B58, 0x4F60, 0x7684, 0x7EC3, 0x4E60, 0x3002]"

definition err_paused_next :: jsstring where
  \<comment> \<open>src/unnamed/part_003 line 926\<close>
  "err_paused_next =
     [0x5F53, 0x524D, 0x7EC3, 0x4E60, 0x5DF2, 0x6682, 0x505C, 0xFF0C, 0x8BF7, 0x5148, 0x7EE7,
     0x7EED, 0x540E, 0x518D, 0x5207, 0x9898, 0x3002]"

definition notice_next :: jsstring where
  \<comment> \<open>src/unnamed/part_003 lines 970 and 988\<close>
  "notice_next =
     [0x5DF2, 0x8FDB, 0x5165, 0x4E0B, 0x4E00, 0x9898, 0x3002]"

definition notice_next_local :: jsstring where
  \<comment> \<open>src/unnamed/part_003 line 974\<close>
  "notice_next_local =
     [0x7F51, 0x7EDC, 0x6CE2, 0x52A8, 0xFF0C, 0x5DF2, 0x5207, 0x6362, 0x672C, 0x5730, 0x6A21,
     0x5F0F, 0x7EE7, 0x7EED, 0x7EC3, 0x4E60, 0x3002]"

definition notice_last :: jsstring where
  \<comment> \<open>src/unnamed/part_003 line 986\<close>
  "notice_last =
     [0x5DF2, 0x662F, 0x6700, 0x540E, 0x4E00, 0x9898, 0xFF0C, 0x5B8C, 0x6210, 0x540E, 0x53EF,
     0x76F4, 0x63A5, 0x751F, 0x6210, 0x603B, 0x7ED3, 0x3002]"

definition notice_paused :: jsstring where
  \<comment> \<open>src/unnamed/part_003 line 1011\<close>
  "notice_paused =
     [0x7EC3, 0x4E60, 0x5DF2, 0x6682, 0x505C, 0xFF0C, 0x4F60, 0x53EF, 0x4EE5, 0x968F, 0x65F6,
     0x7EE7, 0x7EED, 0x3002]"

definition notice_resumed :: jsstring where
  \<comment> \<open>src/unnamed/part_003 line 1033\<close>
  "notice_resumed =
     [0x5DF2, 0x7EE7, 0x7EED, 0x7EC3, 0x4E60, 0xFF0C, 0x52A0, 0x6CB9, 0xFF01]"

definition notice_finished :: jsstring where
  \<comment> \<open>src/unnamed/part_003 lines 1061 and 1074\<close>
  "notice_finished =
     [0x7EC3, 0x4E60, 0x5B8C, 0x6210, 0xFF01, 0x5DF2, 0x751F, 0x6210, 0x603B, 0x7ED3, 0x3002]"

definition notice_finished_local_rules :: jsstring where
  \<comment> \<open>src/unnamed/part_003 line 1061\<close>
  "notice_finished_local_rules =
     [0x7EC3, 0x4E60, 0x5B8C, 0x6210, 0xFF01, 0x5DF2, 0x4F7F, 0x7528, 0x672C, 0x5730, 0x89C4,
     0x5219, 0x751F, 0x6210, 0x603B, 0x7ED3, 0x3002]"

definition notice_finish_fallback :: jsstring where
  \<comment> \<open>src/unnamed/part_003 line 1065\<close>
  "notice_finish_fallback =
     [0x7F51, 0x7EDC, 0x6CE2, 0x52A8, 0xFF0C, 0x5DF2, 0x6539, 0x7528, 0x672C, 0x5730, 0x89C4,
     0x5219, 0x751F, 0x6210, 0x603B, 0x7ED3, 0x3002]"

definition notice_history :: jsstring where
  \<comment> \<open>src/unnamed/part_003 line 680\<close>
  "notice_history =
     [0x5DF2, 0x66F4, 0x65B0, 0x7EC3, 0x4E60, 0x5386, 0x53F2, 0x3002]"

definition notice_loaded :: jsstring where
  \<comment> \<open>src/unnamed/part_003 line 1093\<close>
  "notice_loaded =
     [0x5DF2, 0x8F7D, 0x5165, 0x8BE5, 0x7EC3, 0x4E60, 0x8BB0, 0x5F55, 0x3002]"

definition err_load :: jsstring where
  \<comment> \<open>src/unnamed/part_003 line 1095\<close>
  "err_load =
     [0x52A0, 0x8F7D, 0x8BB0, 0x5F55, 0x5931, 0x8D25, 0xFF0C, 0x8BF7, 0x7A0D, 0x540E, 0x91CD,
     0x8BD5, 0x3002]"

text \<open>
  The state of the page component: its React state, the page's context key (from the
  query), and the auth hook it owns. \<open>records\<close> is the session store, which the page
  writes to local storage whenever it changes.
\<close>

record page =
  currentSession :: "InterviewSessionRecord option"
  records :: "InterviewSessionRecord list"
  selectedRecordKey :: jsstring
  form_position :: jsstring
  form_jdText :: jsstring
  form_resumeText :: jsstring
  answerInput :: jsstring
  loading :: bool
  error :: jsstring
  notice :: jsstring
  pageContextKey :: jsstring
  auth :: client

subsection \<open>Calling the remote authority\<close>

text \<open>
  The page's \<open>fetch\<close> (line 497) is \<open>apiFetch\<close> of the auth hook, which the page
  creates with \<open>autoRedirectOnUnauthorized: true\<close>.
\<close>

definition fetch :: "env \<Rightarrow> http_method \<Rightarrow> jsstring \<Rightarrow> page \<Rightarrow> response option \<times> page" where
  "fetch e m input p = (case apiFetch e True m input (auth p) of (r, c) \<Rightarrow> (r, p\<lparr>auth := c\<rparr>))"

datatype api_error = RequestFailed | NetworkTrouble | ServiceUnavailable

text \<open>
  The loop of \<open>callInterviewApi\<close> over the candidates, with \<open>lastError\<close> as it stands.
  The request body is not modelled.
\<close>

fun callCandidates ::
  "env \<Rightarrow> (jsstring \<times> http_method) list \<Rightarrow> api_error option \<Rightarrow> page \<Rightarrow> (api_error + jsval) \<times> page" where
  "callCandidates e [] lastError p =
     (Inl (case lastError of Some err \<Rightarrow> err | None \<Rightarrow> ServiceUnavailable), p)"
| "callCandidates e ((path, m) # rest) lastError p =
     (case fetch e m (API_BASE_URL @ path) p of
        (None, p1) \<Rightarrow> callCandidates e rest (Some NetworkTrouble) p1
      | (Some r, p1) \<Rightarrow>
          if ok r then (Inr (body r), p1)
          else if http_status r = 404 \<or> http_status r = 405 then callCandidates e rest lastError p1
          else callCandidates e rest (Some RequestFailed) p1)"

definition callInterviewApi ::
  "env \<Rightarrow> (jsstring \<times> http_method) list \<Rightarrow> page \<Rightarrow> (api_error + jsval) \<times> page" where
  "callInterviewApi e candidates p = callCandidates e candidates None p"

text \<open>
  Setting the current session also runs the effect that depends on it (lines 621 to 624):
  the record is upserted into the store.
\<close>

definition setCurrentSession :: "InterviewSessionRecord \<Rightarrow> page \<Rightarrow> page" where
  "setCurrentSession s p = p\<lparr>currentSession := Some s, records := upsertRecord (records p) s\<rparr>"

text \<open>
  What \<open>applySessionPatch\<close> (lines 626 to 637) lays over the updater's result: the time
  of the update and the two counts.
\<close>

definition stamped :: "env \<Rightarrow> InterviewSessionRecord \<Rightarrow> InterviewSessionRecord" where
  "stamped e next =
     next\<lparr>updatedAt := now_iso e,
          questionCount := max (questionCount next) (of_nat (length (questions next))),
          answeredCount := of_nat (length (answers next))\<rparr>"

definition applySessionPatch ::
  "env \<Rightarrow> (InterviewSessionRecord \<Rightarrow> InterviewSessionRecord) \<Rightarrow> page \<Rightarrow> page" where
  "applySessionPatch e updater p =
     (case currentSession p of
        None \<Rightarrow> p
      | Some prev \<Rightarrow> setCurrentSession (stamped e (updater prev)) p)"

text \<open>
  \<open>questions[currentIndex] ?? null\<close>: defined when the index is a whole number within
  the list.
\<close>

definition questionAt :: "InterviewQuestion list \<Rightarrow> rat \<Rightarrow> InterviewQuestion option" where
  "questionAt qs i =
     (if 0 \<le> i \<and> i < of_nat (length qs) \<and> of_int \<lfloor>i\<rfloor> = i then Some (qs ! nat \<lfloor>i\<rfloor>) else None)"

subsection \<open>start\<close>

record StartOptions =
  opt_position :: "jsstring option"
  opt_jdText :: "jsstring option"
  opt_resumeText :: "jsstring option"
  silent :: bool

text \<open>
  The body of the \<open>try\<close> of \<open>startSession\<close> after the call returned \<open>data\<close>:
  \<open>None\<close> is its \<open>throw\<close> when the reply names no session.
\<close>

definition remoteStartRecord ::
  "env \<Rightarrow> jsval \<Rightarrow> jsstring \<Rightarrow> jsstring \<Rightarrow> jsstring \<Rightarrow> jsstring \<Rightarrow> InterviewSessionRecord option" where
  "remoteStartRecord e data positionValue jd resumeValue contextKey =
     (let payload = (if isRecord data then data else JObj []);
          sessionPayload = (if isRecord (js_get payload ''session'') then js_get payload ''session'' else payload);
          remoteSessionId = (if extractSessionId payload \<noteq> [] then extractSessionId payload
                             else extractSessionId sessionPayload);
          role = (if positionValue \<noteq> [] then positionValue else inferPositionFromJd jd);
          questionList = (if toQuestionList payload \<noteq> [] then toQuestionList payload
                          else buildLocalQuestions role)
      in if remoteSessionId = [] then None
         else Some \<lparr>key = u16 ''remote-'' @ remoteSessionId @ u16 ''-'' @ decimal (now_ms e),
                    sessionId = remoteSessionId,
                    mode = Remote,
                    status = normalizeStatus (js_get sessionPayload ''status''),
                    position = role,
                    jdText = jd,
                    resumeText = resumeValue,
                    resumeContextKey = contextKey,
                    createdAt = now_iso e,
                    updatedAt = now_iso e,
                    questionCount =
                      (case toSafeNumber (js_get sessionPayload ''questionCount'') of
                         Some n \<Rightarrow> n
                       | None \<Rightarrow> of_nat (length questionList)),
                    answeredCount =
                      (case toSafeNumber (js_get sessionPayload ''answeredCount'') of
                         Some n \<Rightarrow> n
                       | None \<Rightarrow> 0),
                    currentIndex =
                      max 0 (case toSafeNumber (js_get sessionPayload ''currentIndex'') of
                               Some n \<Rightarrow> n
                             | None \<Rightarrow> 0),
                    questions = questionList,
                    answers = [],
                    feedback = None,
                    remoteNumericId = Holds (map_option of_int (parseInt10 remoteSessionId))\<rparr>)"

text \<open>The record of the \<open>catch\<close> of \<open>startSession\<close>.\<close>

definition fallbackRecord ::
  "env \<Rightarrow> jsstring \<Rightarrow> jsstring \<Rightarrow> jsstring \<Rightarrow> jsstring \<Rightarrow> InterviewSessionRecord" where
  "fallbackRecord e positionValue jd resumeValue contextKey =
     (let role = (if positionValue \<noteq> [] then positionValue else inferPositionFromJd jd);
          localQuestions = buildLocalQuestions role;
          localId = u16 ''local-'' @ decimal (now_ms e)
      in \<lparr>key = localId,
          sessionId = localId,
          mode = Local,
          status = Active,
          position = role,
          jdText = jd,
          resumeText = resumeValue,
          resumeContextKey = contextKey,
          createdAt = now_iso e,
          updatedAt = now_iso e,
          questionCount = of_nat (length localQuestions),
          answeredCount = 0,
          currentIndex = 0,
          questions = localQuestions,
          answers = [],
          feedback = None,
          remoteNumericId = NoProperty\<rparr>)"

text \<open>
  The three constants at the head of \<open>startSession\<close> (lines 741 to 745): the trimmed
  inputs, an option taking precedence over the form, and the job text, which is the job
  description or else the position.
\<close>

definition positionValueOf :: "StartOptions \<Rightarrow> page \<Rightarrow> jsstring" where
  "positionValueOf options p =
     trim (case opt_position options of Some x \<Rightarrow> x | None \<Rightarrow> form_position p)"

definition jdValueOf :: "StartOptions \<Rightarrow> page \<Rightarrow> jsstring" where
  "jdValueOf options p = trim (case opt_jdText options of Some x \<Rightarrow> x | None \<Rightarrow> form_jdText p)"

definition resumeValueOf :: "StartOptions \<Rightarrow> page \<Rightarrow> jsstring" where
  "resumeValueOf options p =
     trim (case opt_resumeText options of Some x \<Rightarrow> x | None \<Rightarrow> form_resumeText p)"

definition jobTextOf :: "StartOptions \<Rightarrow> page \<Rightarrow> jsstring" where
  "jobTextOf options p =
     (if jdValueOf options p \<noteq> [] then jdValueOf options p else positionValueOf options p)"

definition startSession :: "env \<Rightarrow> StartOptions \<Rightarrow> page \<Rightarrow> page" where
  "startSession e options p =
     (let p1 = p\<lparr>loading := True, error := [],
                 notice := (if silent options then notice p else []),
                 answerInput := []\<rparr>;
          positionValue = positionValueOf options p;
          jdValue = jdValueOf options p;
          resumeValue = resumeValueOf options p;
          jd = jobTextOf options p
      in if jd = [] then p1\<lparr>loading := False, error := err_need_job\<rparr>
         else
           let p2 = p1\<lparr>form_position :=
                         (case opt_position options of Some _ \<Rightarrow> positionValue | None \<Rightarrow> form_position p1),
                       form_jdText :=
                         (case opt_jdText options of Some _ \<Rightarrow> jdValue | None \<Rightarrow> form_jdText p1),
                       form_resumeText :=
                         (case opt_resumeText options of Some _ \<Rightarrow> resumeValue | None \<Rightarrow> form_resumeText p1)\<rparr>
           in case callInterviewApi e
                     [(u16 ''/api/interview/session/create'', POST),
                      (u16 ''/api/interview/session/start'', POST),
                      (u16 ''/api/interview/start'', POST),
                      (u16 ''/api/interview/session'', POST)]
                     p2 of
                (reply, p3) \<Rightarrow>
                  (case (case reply of
                           Inr data \<Rightarrow> remoteStartRecord e data positionValue jd resumeValue (pageContextKey p)
                         | Inl _ \<Rightarrow> None) of
                     Some nextRecord \<Rightarrow>
                       (setCurrentSession nextRecord p3)
                         \<lparr>selectedRecordKey := key nextRecord, notice := notice_started, loading := False\<rparr>
                   | None \<Rightarrow>
                       (setCurrentSession
                          (fallbackRecord e positionValue jd resumeValue (pageContextKey p))
                          p3)
                         \<lparr>selectedRecordKey := key (fallbackRecord e positionValue jd resumeValue (pageContextKey p)),
                          notice := notice_start_fallback,
                          loading := False\<rparr>))"

subsection \<open>submitAnswer and advance\<close>

text \<open>
  What the success patches of \<open>submitAnswer\<close> (lines 893 to 913) and of
  \<open>nextQuestion\<close> (lines 948 to 968) share: the new question is appended unless one with
  its id is there, and the index is the remote one, else the new question's, kept within
  the list.
\<close>

definition adoptRemoteProgress ::
  "InterviewQuestion option \<Rightarrow> rat option \<Rightarrow> InterviewSessionRecord \<Rightarrow> InterviewSessionRecord" where
  "adoptRemoteProgress maybeNext remoteIndex prev =
     (let qs = (case maybeNext of
                  Some q \<Rightarrow>
                    if list_ex (\<lambda>item. q_id item = q_id q) (questions prev) then questions prev
                    else questions prev @ [q]
                | None \<Rightarrow> questions prev);
          nextIndex =
            (case remoteIndex of
               Some r \<Rightarrow> max 0 r
             | None \<Rightarrow>
                 (case maybeNext of
                    Some q \<Rightarrow>
                      (case findIndex (\<lambda>item. q_id item = q_id q) qs of
                         Some idx \<Rightarrow> of_nat idx
                       | None \<Rightarrow> currentIndex prev)
                  | None \<Rightarrow> currentIndex prev))
      in prev\<lparr>currentIndex := min nextIndex (max (of_nat (length qs) - 1) 0), questions := qs\<rparr>)"

definition sessionPayloadOf :: "jsval \<Rightarrow> jsval" where
  \<comment> \<open>\<open>isRecord(body.session) ? body.session : {}\<close>, with \<open>body\<close> the reply or \<open>{}\<close>\<close>
  "sessionPayloadOf data = (if isRecord (js_get data ''session'') then js_get data ''session'' else JObj [])"

definition nextQuestionOf :: "env \<Rightarrow> jsval \<Rightarrow> InterviewQuestion option" where
  "nextQuestionOf e data =
     toInterviewQuestion
       (js_nullish (js_nullish (js_get data ''nextQuestion'') (js_get data ''question''))
          (js_get data ''currentQuestion''))
       (u16 ''q-'' @ decimal (now_ms e))"

definition submitAnswer :: "env \<Rightarrow> page \<Rightarrow> page" where
  "submitAnswer e p =
     (case currentSession p of
        None \<Rightarrow> p
      | Some cur \<Rightarrow>
          (case questionAt (questions cur) (currentIndex cur) of
             None \<Rightarrow> p
           | Some currentQuestion \<Rightarrow>
               if status cur \<noteq> Active then p\<lparr>error := err_paused_submit\<rparr>
               else if trim (answerInput p) = [] then p\<lparr>error := err_empty_answer\<rparr>
               else
                 let trimmed = trim (answerInput p);
                     p1 = applySessionPatch e
                            (\<lambda>prev. prev\<lparr>answers := AList.update (q_id currentQuestion) trimmed (answers prev)\<rparr>)
                            (p\<lparr>error := [], answerInput := []\<rparr>)
                 in if mode cur \<noteq> Remote then p1\<lparr>notice := notice_answer_saved\<rparr>
                    else
                      (case callInterviewApi e
                              [(u16 ''/api/interview/session/'' @ sessionId cur @ u16 ''/answer'', POST),
                               (u16 ''/api/interview/'' @ sessionId cur @ u16 ''/answer'', POST)]
                              p1 of
                         (Inr data, p2) \<Rightarrow>
                           (applySessionPatch e
                              (\<lambda>prev. (adoptRemoteProgress (nextQuestionOf e data)
                                          (toSafeNumber (js_get (sessionPayloadOf data) ''currentIndex'')) prev)
                                         \<lparr>status := normalizeStatus (js_get (sessionPayloadOf data) ''status'')\<rparr>)
                              p2)
                             \<lparr>notice := notice_answer_sent\<rparr>
                       | (Inl _, p2) \<Rightarrow>
                           (applySessionPatch e (\<lambda>prev. prev\<lparr>mode := Local\<rparr>) p2)
                             \<lparr>notice := notice_answer_local\<rparr>)))"

text \<open>
  The end of \<open>nextQuestion\<close> (lines 978 to 989), reached in local mode and after a failed
  remote call; \<open>cur\<close> is the session as the call found it.
\<close>

definition advanceLocally :: "env \<Rightarrow> InterviewSessionRecord \<Rightarrow> page \<Rightarrow> page" where
  "advanceLocally e cur p =
     (applySessionPatch e
        (\<lambda>prev. if currentIndex prev \<ge> of_nat (length (questions prev)) - 1 then prev
                 else prev\<lparr>currentIndex := js_add (currentIndex prev) 1\<rparr>)
        p)
       \<lparr>notice := (if currentIndex cur \<ge> of_nat (length (questions cur)) - 1 then notice_last
                   else notice_next)\<rparr>"

definition nextQuestion :: "env \<Rightarrow> page \<Rightarrow> page" where
  "nextQuestion e p =
     (case currentSession p of
        None \<Rightarrow> p
      | Some cur \<Rightarrow>
          if status cur \<noteq> Active then p\<lparr>error := err_paused_next\<rparr>
          else if mode cur = Remote
          then
            (case callInterviewApi e
                    [(u16 ''/api/interview/session/'' @ sessionId cur @ u16 ''/next'', POST),
                     (u16 ''/api/interview/'' @ sessionId cur @ u16 ''/next'', POST)]
                    (p\<lparr>error := []\<rparr>) of
               (Inr data, p1) \<Rightarrow>
                 (applySessionPatch e
                    (\<lambda>prev. (adoptRemoteProgress (nextQuestionOf e data)
                                (toSafeNumber (js_get (sessionPayloadOf data) ''currentIndex'')) prev)
                               \<lparr>status :=
                                  normalizeStatus
                                    (js_or (js_get (sessionPayloadOf data) ''status'') (statusText (status prev)))\<rparr>)
                    p1)
                   \<lparr>notice := notice_next\<rparr>
             | (Inl _, p1) \<Rightarrow>
                 advanceLocally e cur
                   ((applySessionPatch e (\<lambda>prev. prev\<lparr>mode := Local\<rparr>) p1)
                      \<lparr>notice := notice_next_local\<rparr>))
          else advanceLocally e cur (p\<lparr>error := []\<rparr>))"

subsection \<open>pause, resume and finish\<close>

definition pauseSession :: "env \<Rightarrow> page \<Rightarrow> page" where
  "pauseSession e p =
     (case currentSession p of
        None \<Rightarrow> p
      | Some cur \<Rightarrow>
          if status cur \<noteq> Active then p
          else
            let p1 = (if mode cur = Remote
                      then snd (callInterviewApi e
                                  [(u16 ''/api/interview/session/'' @ sessionId cur @ u16 ''/pause'', POST),
                                   (u16 ''/api/interview/'' @ sessionId cur @ u16 ''/pause'', POST)]
                                  p)
                      else p)
            in (applySessionPatch e (\<lambda>prev. prev\<lparr>status := Paused\<rparr>) p1)\<lparr>notice := notice_paused\<rparr>)"

definition resumeSession :: "env \<Rightarrow> page \<Rightarrow> page" where
  "resumeSession e p =
     (case currentSession p of
        None \<Rightarrow> p
      | Some cur \<Rightarrow>
          if status cur \<noteq> Paused then p
          else
            let p1 = (if mode cur = Remote
                      then snd (callInterviewApi e
                                  [(u16 ''/api/interview/session/'' @ sessionId cur @ u16 ''/resume'', POST),
                                   (u16 ''/api/interview/'' @ sessionId cur @ u16 ''/resume'', POST)]
                                  p)
                      else p)
            in (applySessionPatch e (\<lambda>prev. prev\<lparr>status := Active\<rparr>) p1)\<lparr>notice := notice_resumed\<rparr>)"

text \<open>The end of \<open>endSession\<close> (lines 1069 to 1074): the local review.\<close>

definition finishLocally :: "env \<Rightarrow> page \<Rightarrow> page" where
  "finishLocally e p =
     (applySessionPatch e
        (\<lambda>prev. prev\<lparr>status := Finished,
                       feedback := Some (buildLocalFeedback (answers prev) (length (questions prev))
                                           (position prev))\<rparr>)
        p)
       \<lparr>notice := notice_finished\<rparr>"

definition endSession :: "env \<Rightarrow> page \<Rightarrow> page" where
  "endSession e p =
     (case currentSession p of
        None \<Rightarrow> p
      | Some cur \<Rightarrow>
          if mode cur = Remote
          then
            (case callInterviewApi e
                    [(u16 ''/api/interview/session/'' @ sessionId cur @ u16 ''/finish'', POST),
                     (u16 ''/api/interview/'' @ sessionId cur @ u16 ''/end'', POST),
                     (u16 ''/api/interview/session/'' @ sessionId cur @ u16 ''/feedback'', GET)]
                    (p\<lparr>error := []\<rparr>) of
               (Inr data, p1) \<Rightarrow>
                 (applySessionPatch e
                    (\<lambda>prev. prev\<lparr>status := Finished,
                                   feedback :=
                                     (case toInterviewFeedback data of
                                        Some parsed \<Rightarrow> Some parsed
                                      | None \<Rightarrow>
                                          Some (buildLocalFeedback (answers prev) (length (questions prev))
                                                  (position prev)))\<rparr>)
                    p1)
                   \<lparr>notice := (case toInterviewFeedback data of
                                 Some _ \<Rightarrow> notice_finished
                               | None \<Rightarrow> notice_finished_local_rules)\<rparr>
             | (Inl _, p1) \<Rightarrow>
                 finishLocally e
                   ((applySessionPatch e (\<lambda>prev. prev\<lparr>mode := Local\<rparr>) p1)
                      \<lparr>notice := notice_finish_fallback\<rparr>))
          else finishLocally e (p\<lparr>error := []\<rparr>))"

subsection \<open>History: reconciling and loading stored records\<close>

fun remoteSessionsFrom :: "env \<Rightarrow> jsval list \<Rightarrow> InterviewSessionRecord list" where
  "remoteSessionsFrom e [] = []"
| "remoteSessionsFrom e (item # rest) =
     (case normalizeRemoteSession e item of
        None \<Rightarrow> remoteSessionsFrom e rest
      | Some r \<Rightarrow> r # remoteSessionsFrom e rest)"

text \<open>One turn of the \<open>forEach\<close> of \<open>syncRemoteSessions\<close> (lines 659 to 676).\<close>

definition mergeRemote ::
  "jsstring \<Rightarrow> InterviewSessionRecord list \<Rightarrow> InterviewSessionRecord \<Rightarrow> InterviewSessionRecord list" where
  "mergeRemote contextKey merged r =
     (case findIndex
             (\<lambda>item. numberOf (remoteNumericId item) = numberOf (remoteNumericId r)
                      \<or> sessionId item = sessionId r)
             merged of
        Some i \<Rightarrow>
          merged[i := r\<lparr>remoteNumericId := overlaid (remoteNumericId (merged ! i)) (remoteNumericId r),
                        key := key (merged ! i),
                        resumeContextKey :=
                          (if resumeContextKey (merged ! i) \<noteq> [] then resumeContextKey (merged ! i)
                           else if resumeContextKey r \<noteq> [] then resumeContextKey r
                           else contextKey),
                        questions :=
                          (if questions (merged ! i) \<noteq> [] then questions (merged ! i) else questions r),
                        feedback :=
                          (case feedback (merged ! i) of Some f \<Rightarrow> Some f | None \<Rightarrow> feedback r)\<rparr>]
      | None \<Rightarrow> merged @ [r])"

definition syncRemoteSessions :: "env \<Rightarrow> page \<Rightarrow> page" where
  "syncRemoteSessions e p =
     (case fetch e GET (API_BASE_URL @ u16 ''/api/interview/sessions?limit=20'') p of
        (None, p1) \<Rightarrow> p1
      | (Some r, p1) \<Rightarrow>
          if \<not> ok r then p1
          else
            let remoteItems =
                  (case js_get (body r) ''items'' of JArr items \<Rightarrow> remoteSessionsFrom e items | _ \<Rightarrow> []);
                scopedRemoteItems =
                  filter (\<lambda>item. if resumeContextKey item = [] then pageContextKey p = u16 ''manual''
                                  else resumeContextKey item = pageContextKey p)
                    remoteItems
            in if scopedRemoteItems = [] then p1
               else p1\<lparr>records := take 50 (foldl (mergeRemote (pageContextKey p)) (records p1) scopedRemoteItems),
                       notice := notice_history\<rparr>)"

text \<open>\<open>hydrateRemoteRecord\<close>: \<open>None\<close> is a rejected request.\<close>

definition hydrateRemoteRecord ::
  "env \<Rightarrow> InterviewSessionRecord \<Rightarrow> page \<Rightarrow> InterviewSessionRecord option \<times> page" where
  "hydrateRemoteRecord e r p =
     (case numberOf (remoteNumericId r) of
        None \<Rightarrow> (Some r, p)
      | Some numericId \<Rightarrow>
          if numericId = 0 then (Some r, p)
          else
            (case fetch e GET
                    (API_BASE_URL @ u16 ''/api/interview/sessions/'' @ number_text e numericId) p of
               (None, p1) \<Rightarrow> (None, p1)
             | (Some reply, p1) \<Rightarrow>
                 if \<not> ok reply then (Some r, p1)
                 else
                   let session = sessionPayloadOf (body reply);
                       upcoming = toInterviewQuestion (js_get (body reply) ''nextQuestion'')
                                    (u16 ''q-'' @ number_text e (js_add (currentIndex r) 1))
                   in (Some
                         (r\<lparr>status := normalizeStatus (js_or (js_get session ''status'') (statusText (status r))),
                            questionCount :=
                              (case toSafeNumber (js_get session ''questionCount'') of
                                 Some n \<Rightarrow> n
                               | None \<Rightarrow> questionCount r),
                            answeredCount :=
                              (case toSafeNumber (js_get session ''answeredCount'') of
                                 Some n \<Rightarrow> n
                               | None \<Rightarrow> answeredCount r),
                            currentIndex :=
                              max 0 (case toSafeNumber (js_get session ''currentIndex'') of
                                       Some n \<Rightarrow> n
                                     | None \<Rightarrow> currentIndex r),
                            updatedAt :=
                              (if toSafeString (js_get session ''updatedAt'') [] \<noteq> []
                               then toSafeString (js_get session ''updatedAt'') [] else updatedAt r),
                            createdAt :=
                              (if toSafeString (js_get session ''createdAt'') [] \<noteq> []
                               then toSafeString (js_get session ''createdAt'') [] else createdAt r),
                            questions :=
                              (case upcoming of
                                 Some q \<Rightarrow> if questions r = [] then [q] else questions r
                               | None \<Rightarrow> questions r),
                            feedback :=
                              (case toInterviewFeedback (js_get (body reply) ''feedbackDraft'') of
                                 Some f \<Rightarrow> Some f
                               | None \<Rightarrow> feedback r)\<rparr>),
                       p1)))"

definition onLoadRecord :: "env \<Rightarrow> InterviewSessionRecord \<Rightarrow> page \<Rightarrow> page" where
  "onLoadRecord e r p =
     (case (if mode r = Remote then hydrateRemoteRecord e r p else (Some r, p)) of
        (None, p1) \<Rightarrow> p1\<lparr>error := err_load\<rparr>
      | (Some hydrated, p1) \<Rightarrow>
          (setCurrentSession hydrated
             (p1\<lparr>records :=
                   (case findIndex (\<lambda>item. key item = key r) (records p1) of
                      Some i \<Rightarrow> (records p1)[i := hydrated]
                    | None \<Rightarrow> records p1)\<rparr>))
            \<lparr>selectedRecordKey := key r, answerInput := [], error := [], notice := notice_loaded\<rparr>)"

section \<open>Notions used to state the properties\<close>

text \<open>
  The number of question ids whose stored answer is not empty, and the well-formedness of
  an answers map: one entry per key (it stands for a JavaScript object) and no empty
  answer.
\<close>

definition nonEmptyAnswers :: "InterviewSessionRecord \<Rightarrow> nat" where
  "nonEmptyAnswers s = length (filter (\<lambda>(k, v). v \<noteq> []) (answers s))"

definition answersWellFormed :: "InterviewSessionRecord \<Rightarrow> bool" where
  "answersWellFormed s = (distinct (map fst (answers s)) \<and> list_all (\<lambda>(k, v). v \<noteq> []) (answers s))"

definition countInvariant :: "InterviewSessionRecord \<Rightarrow> bool" where
  "countInvariant s = (answeredCount s = of_nat (nonEmptyAnswers s))"

definition indexInvariant :: "InterviewSessionRecord \<Rightarrow> bool" where
  "indexInvariant s = (currentIndex s < max 1 (of_nat (length (questions s))))"

text \<open>
  The patches that the five operations on the current session apply through
  \<open>applySessionPatch\<close>, as a step relation on session records: storing an answer
  (never an empty one), the downgrade to local mode, adopting a remote reply, setting the
  status, and finishing with a review. The local advance, the one patch that computes
  with the index, is kept apart; a \<open>step\<close> is either.
\<close>

inductive patch :: "env \<Rightarrow> InterviewSessionRecord \<Rightarrow> InterviewSessionRecord \<Rightarrow> bool" for e where
  answered: "v \<noteq> [] \<Longrightarrow> patch e s (stamped e (s\<lparr>answers := AList.update k v (answers s)\<rparr>))"
| downgraded: "patch e s (stamped e (s\<lparr>mode := Local\<rparr>))"
| adopted: "patch e s (stamped e ((adoptRemoteProgress maybeNext remoteIndex s)\<lparr>status := st\<rparr>))"
| status_set: "patch e s (stamped e (s\<lparr>status := st\<rparr>))"
| finished: "patch e s (stamped e (s\<lparr>status := Finished, feedback := Some fb\<rparr>))"

definition advanced :: "env \<Rightarrow> InterviewSessionRecord \<Rightarrow> InterviewSessionRecord" where
  "advanced e s =
     stamped e (if currentIndex s \<ge> of_nat (length (questions s)) - 1 then s
                else s\<lparr>currentIndex := js_add (currentIndex s) 1\<rparr>)"

definition step :: "env \<Rightarrow> InterviewSessionRecord \<Rightarrow> InterviewSessionRecord \<Rightarrow> bool" where
  "step e s s' = (patch e s s' \<or> s' = advanced e s)"





text \<open>
  Every request fails: it is rejected, or answered with a status outside 200 to 299.
\<close>

definition everyRequestFails :: "env \<Rightarrow> bool" where
  "everyRequestFails e = (\<forall>n r. case net e n r of NetworkError \<Rightarrow> True | Reply reply \<Rightarrow> \<not> ok reply)"

text \<open>The three endpoints that finish tries (lines 1046 to 1048).\<close>

definition finishCandidates :: "InterviewSessionRecord \<Rightarrow> (jsstring \<times> http_method) list" where
  "finishCandidates cur =
     [(u16 ''/api/interview/session/'' @ sessionId cur @ u16 ''/finish'', POST),
      (u16 ''/api/interview/'' @ sessionId cur @ u16 ''/end'', POST),
      (u16 ''/api/interview/session/'' @ sessionId cur @ u16 ''/feedback'', GET)]"

text \<open>The two endpoints that advance tries (lines 937 and 938).\<close>

definition nextCandidates :: "InterviewSessionRecord \<Rightarrow> (jsstring \<times> http_method) list" where
  "nextCandidates cur =
     [(u16 ''/api/interview/session/'' @ sessionId cur @ u16 ''/next'', POST),
      (u16 ''/api/interview/'' @ sessionId cur @ u16 ''/next'', POST)]"

fun isRefresh :: "request \<Rightarrow> bool" where
  "isRefresh (Refresh _ _) = True"
| "isRefresh (Request _ _ _) = False"

text \<open>
  The invariant of the credential: the client holds a credential that is not an expired
  authenticated one without refresh credential, and what an operation leaves in storage
  is what was there, nothing, or such a credential.
\<close>

definition holdsCredential :: "env \<Rightarrow> client \<Rightarrow> bool" where
  "holdsCredential e c = (\<exists>s. authRef c = Some s \<and> \<not> expiredWithoutRefresh e s)"

definition storesNoExpired :: "env \<Rightarrow> client \<Rightarrow> client \<Rightarrow> bool" where
  "storesNoExpired e c c' =
     (storage_v3 c' = storage_v3 c \<or> storage_v3 c' = None
      \<or> (\<exists>s. storage_v3 c' = Some (Parsed (authJson s)) \<and> \<not> expiredWithoutRefresh e s))"

text \<open>The five operations on the current session, by name.\<close>

datatype operation = SubmitAnswer | Advance | Pause | Resume | Finish

fun run :: "operation \<Rightarrow> env \<Rightarrow> page \<Rightarrow> page" where
  "run SubmitAnswer e p = submitAnswer e p"
| "run Advance e p = nextQuestion e p"
| "run Pause e p = pauseSession e p"
| "run Resume e p = resumeSession e p"
| "run Finish e p = endSession e p"

section \<open>Concrete inputs\<close>

text \<open>
  The inputs at which the theorems below are instantiated and the code is evaluated: an
  empty page with a client that has no credential yet, an environment whose every request
  is answered with a given JSON reply, one whose every request fails, and the sessions and
  pages built from them.
\<close>

definition client0 :: client where
  "client0 = \<lparr>authRef = None, authState = None, tokenDraft = [], authFailureReason = None,
              storage_v3 = None, storage_v2 = None, sent = [], redirected = None\<rparr>"

definition page0 :: page where
  "page0 = \<lparr>currentSession = None, records = [], selectedRecordKey = [], form_position = [],
            form_jdText = [], form_resumeText = [], answerInput = [], loading = False, error = [],
            notice = [], pageContextKey = u16 ''manual'', auth = client0\<rparr>"

definition env_replying :: "jsval \<Rightarrow> env" where
  "env_replying reply =
     \<lparr>now_ms = 1700000000000,
      now_iso = u16 ''2023-11-14T22:13:20.000Z'',
      date_ms = (\<lambda>_. None),
      iso_of_ms = (\<lambda>_. None),
      number_text = (\<lambda>r. decimal (nat \<lfloor>r\<rfloor>)),
      new_session_id = u16 ''sess_guest'',
      new_access_token = u16 ''local_guest'',
      at_login_path = False,
      net = (\<lambda>_ _. Reply \<lparr>http_status = 200, body = reply, x_session_id = None\<rparr>)\<rparr>"

definition env_down :: env where
  "env_down = (env_replying JNull)\<lparr>net := (\<lambda>_ _. NetworkError)\<rparr>"

definition options_backend :: StartOptions where
  "options_backend =
     \<lparr>opt_position = None, opt_jdText = Some (u16 ''Backend Engineer, must know caching''),
      opt_resumeText = None, silent = False\<rparr>"

definition reply_created :: jsval where
  "reply_created =
     JObj [(u16 ''sessionId'', JStr (u16 ''7'')),
           (u16 ''questions'', JArr [JStr (u16 ''Tell me about caching''), JStr (u16 ''Describe an outage'')])]"

definition reply_history :: jsval where
  "reply_history =
     JObj [(u16 ''items'', JArr [JObj [(u16 ''id'', JNum 7), (u16 ''sessionToken'', JStr (u16 ''7''))]])]"

definition started_remote :: page where
  "started_remote = startSession (env_replying reply_created) options_backend page0"

definition downgraded :: page where
  "downgraded = submitAnswer env_down (started_remote\<lparr>answerInput := u16 ''I cache hot keys''\<rparr>)"

definition reconciled :: page where
  "reconciled = syncRemoteSessions (env_replying reply_history) downgraded"

definition reply_history_progress :: jsval where
  "reply_history_progress =
     JObj [(u16 ''items'',
            JArr [JObj [(u16 ''id'', JNum 7), (u16 ''sessionToken'', JStr (u16 ''abc'')),
                        (u16 ''status'', JStr (u16 ''paused'')),
                        (u16 ''answeredCount'', JNum 2), (u16 ''currentIndex'', JNum 5)]])]"

definition session_local :: InterviewSessionRecord where
  "session_local = fallbackRecord env_down [] (u16 ''Backend Engineer, must know caching'') [] (u16 ''manual'')"

definition page_answering :: page where
  "page_answering = page0\<lparr>currentSession := Some session_local, answerInput := u16 ''I cache hot keys''\<rparr>"

definition session_history :: InterviewSessionRecord where
  "session_history =
     \<lparr>key = u16 ''remote-history-7'', sessionId = u16 ''abc'', mode = Remote, status = Paused,
      position = [], jdText = [], resumeText = [], resumeContextKey = [],
      createdAt = u16 ''2023-11-14T22:13:20.000Z'', updatedAt = u16 ''2023-11-14T22:13:20.000Z'',
      questionCount = 0, answeredCount = 2, currentIndex = 5, questions = [], answers = [],
      feedback = None, remoteNumericId = Holds (Some 7)\<rparr>"

definition page_history :: page where
  "page_history = page0\<lparr>currentSession := Some session_history, answerInput := u16 ''I cache hot keys''\<rparr>"

definition reply_created_at_last :: jsval where
  "reply_created_at_last =
     JObj [(u16 ''sessionId'', JStr (u16 ''7'')),
           (u16 ''currentIndex'', JNum 1),
           (u16 ''questions'', JArr [JStr (u16 ''Tell me about caching''), JStr (u16 ''Describe an outage'')])]"

definition reply_index :: "rat \<Rightarrow> jsval" where
  "reply_index i = JObj [(u16 ''session'', JObj [(u16 ''currentIndex'', JNum i)])]"

definition started_at_last :: page where
  "started_at_last = startSession (env_replying reply_created_at_last) options_backend page0"

text \<open>
  Replies to advance and to finish: one that streams a new question and reports index 2,
  one that carries a review; a start reply that reports the index written
  \<open>0.9999999999999999\<close>; and a remote side that answers every request with status 500.
\<close>

definition reply_next :: jsval where
  "reply_next =
     JObj [(u16 ''nextQuestion'',
            JObj [(u16 ''id'', JStr (u16 ''q-9'')), (u16 ''text'', JStr (u16 ''Why this team?''))]),
           (u16 ''session'', JObj [(u16 ''currentIndex'', JNum 2)])]"

definition reply_review :: jsval where
  "reply_review = JObj [(u16 ''summary'', JStr (u16 ''Solid answers'')), (u16 ''score'', JNum 88)]"

definition reply_created_fraction :: jsval where
  "reply_created_fraction =
     JObj [(u16 ''sessionId'', JStr (u16 ''7'')),
           (u16 ''currentIndex'', JNum (9007199254740991 / 9007199254740992)),
           (u16 ''questions'', JArr [JStr (u16 ''Tell me about caching''), JStr (u16 ''Describe an outage'')])]"

definition started_at_fraction :: page where
  "started_at_fraction = startSession (env_replying reply_created_fraction) options_backend page0"

definition env_failing :: env where
  "env_failing =
     env_down\<lparr>net := (\<lambda>_ _. Reply \<lparr>http_status = 500, body = JNull, x_session_id = None\<rparr>)\<rparr>"

definition cred_custom :: ClientAuthState where
  "cred_custom =
     \<lparr>auth_sessionId = u16 ''sess_1'', accessToken = u16 ''token_1'',
      refreshToken = Some (u16 ''refresh_1''), auth_mode = AuthCustom,
      auth_updatedAt = u16 ''2023-11-14T22:13:20.000Z'', userName = Some (u16 ''demo''),
      expiresAt = None\<rparr>"

definition cred_expired :: ClientAuthState where
  "cred_expired = cred_custom\<lparr>refreshToken := None, expiresAt := Some (u16 ''2020-01-01T00:00:00.000Z'')\<rparr>"

definition client_custom :: client where
  "client_custom = client0\<lparr>authRef := Some cred_custom, authState := Some cred_custom\<rparr>"

definition client_expired :: client where
  "client_expired = client0\<lparr>authRef := Some cred_expired, authState := Some cred_expired\<rparr>"

text \<open>An environment in which every date read is the first instant of 2020, long past.\<close>

definition env_clock :: env where
  "env_clock = env_down\<lparr>date_ms := (\<lambda>_. Some 1577836800000)\<rparr>"

text \<open>
  The remote side rejects the credential: every application request is answered 401.
  Refresh requests are answered 500, or, in the second environment, with a new access
  token, after which a request carrying that token is answered 200.
\<close>

definition reply_status :: "nat \<Rightarrow> jsval \<Rightarrow> outcome" where
  "reply_status code v = Reply \<lparr>http_status = code, body = v, x_session_id = None\<rparr>"

definition env_unauthorized :: env where
  "env_unauthorized =
     env_down\<lparr>net := (\<lambda>_ req. case req of
                               Request _ _ _ \<Rightarrow> reply_status 401 JNull
                             | Refresh _ _ \<Rightarrow> reply_status 500 JNull)\<rparr>"

definition env_refreshing :: env where
  "env_refreshing =
     env_down\<lparr>net := (\<lambda>_ req. case req of
                               Request _ _ cred \<Rightarrow>
                                 if accessToken cred = u16 ''token_2'' then reply_status 200 JNull
                                 else reply_status 401 JNull
                             | Refresh _ _ \<Rightarrow>
                                 reply_status 200 (JObj [(u16 ''accessToken'', JStr (u16 ''token_2''))]))\<rparr>"

text \<open>A credential in authenticated mode without refresh credential, and one request.\<close>

definition cred_no_refresh :: ClientAuthState where
  "cred_no_refresh = cred_custom\<lparr>refreshToken := None\<rparr>"

definition client_no_refresh :: client where
  "client_no_refresh = client0\<lparr>authRef := Some cred_no_refresh, authState := Some cred_no_refresh\<rparr>"

definition reply_401 :: response where
  "reply_401 = \<lparr>http_status = 401, body = JNull, x_session_id = None\<rparr>"

definition start_url :: jsstring where
  "start_url = u16 ''/api/interview/start''"

section \<open>Properties\<close>

subsection \<open>Numbers\<close>

text \<open>Whole numbers of magnitude up to \<open>2 ^ 53\<close> are doubles, so adding 1 to a safe integer is exact.\<close>

lemma bitLength_le: "n < 2 ^ k \<Longrightarrow> bitLength n \<le> k"
proof (induction k arbitrary: n)
  case 0
  then show ?case by (simp add: bitLength.simps)
next
  case (Suc k)
  show ?case
  proof (cases "n = 0")
    case True
    then show ?thesis by (simp add: bitLength.simps)
  next
    case False
    have "n div 2 < 2 ^ k" using Suc.prems by auto
    then have "bitLength (n div 2) \<le> k" by (rule Suc.IH)
    then show ?thesis using False by (subst bitLength.simps) simp
  qed
qed

lemma roundHalfEven_of_int: "roundHalfEven (of_int i) = i"
  by (simp add: roundHalfEven_def)

lemma pow2_scale:
  assumes "e \<le> 0"
  shows "of_int j / pow2 e = of_int (j * 2 ^ nat (- e))"
    and "of_int (j * 2 ^ nat (- e)) * pow2 e = of_int j"
  using assms by (simp_all add: pow2_def)

lemma toDouble_small_int:
  assumes "\<bar>j\<bar> < 2 ^ 53"
  shows "toDouble (of_int j) = of_int j"
proof (cases "j = 0")
  case True
  then show ?thesis by (simp add: toDouble_def)
next
  case False
  then have one: "(1::rat) \<le> \<bar>of_int j\<bar>"
    by (metis abs_ge_zero of_int_1_le_iff of_int_abs zero_less_abs_iff int_one_le_iff_zero_less)
  have "nat \<bar>j\<bar> < 2 ^ 53" using assms by (simp add: nat_less_iff)
  then have "bitLength (nat \<bar>j\<bar>) \<le> 53" by (rule bitLength_le)
  moreover have "\<lfloor>\<bar>of_int j :: rat\<bar>\<rfloor> = \<bar>j\<bar>" by (metis floor_of_int of_int_abs)
  ultimately have b: "binade (of_int j) \<le> 52" using one by (simp add: binade_def)
  define e where "e = max (binade (of_int j) - 52) (- 1074)"
  have e: "e \<le> 0" unfolding e_def using b by simp
  have "toDouble (of_int j) = of_int (roundHalfEven (of_int j / pow2 e)) * pow2 e"
    using False by (simp add: toDouble_def Let_def e_def)
  also have "\<dots> = of_int j"
    unfolding pow2_scale(1) [OF e] roundHalfEven_of_int by (rule pow2_scale(2) [OF e])
  finally show ?thesis .
qed

lemma bitLength_54: "bitLength 9007199254740992 = 54"
  by (simp add: bitLength.simps)

lemma toDouble_2_53: "toDouble 9007199254740992 = 9007199254740992"
  "toDouble (- 9007199254740992) = - 9007199254740992"
  by (simp_all add: toDouble_def binade_def bitLength_54 pow2_def roundHalfEven_def Let_def)

lemma js_add_safe:
  assumes "isSafeInteger x"
  shows "js_add x 1 = x + 1"
proof -
  define j where "j = \<lfloor>x\<rfloor>"
  have j: "x = of_int j" using assms unfolding isSafeInteger_def j_def by (elim conjE) (rule sym)
  have "\<bar>of_int j :: rat\<bar> \<le> 2 ^ 53 - 1" using assms unfolding isSafeInteger_def j by (elim conjE)
  then have "(of_int \<bar>j\<bar> :: rat) \<le> of_int (2 ^ 53 - 1)" by simp
  then have b: "\<bar>j\<bar> \<le> 2 ^ 53 - 1" by (simp only: of_int_le_iff)
  have s: "x + 1 = of_int (j + 1)" using j by simp
  show ?thesis
  proof (cases "j + 1 = 2 ^ 53")
    case True
    then show ?thesis unfolding js_add_def s using toDouble_2_53(1) by simp
  next
    case False
    then have "\<bar>j + 1\<bar> < 2 ^ 53" using b by simp
    then show ?thesis unfolding js_add_def s by (rule toDouble_small_int)
  qed
qed

text \<open>Evaluating the rounding at numerals.\<close>

lemma bitLength_1: "bitLength (Suc 0) = 1" "bitLength 1 = 1" "bitLength 2 = 2" "bitLength 0 = 0"
  by (simp_all add: bitLength.simps)

lemma floor_rat_numeral:
  "\<lfloor>numeral a / numeral b :: rat\<rfloor> = numeral a div numeral b"
  using floor_divide_of_int_eq [of "numeral a" "numeral b", where ?'a = rat] by simp

lemma ceiling_rat_numeral:
  "\<lceil>numeral a / numeral b :: rat\<rceil> = - (- numeral a div numeral b)"
  using floor_divide_of_int_eq [of "- numeral a" "numeral b", where ?'a = rat]
  by (simp add: ceiling_def)

lemmas double_eval =
  js_add_def toDouble_def binade_def bitLength_1 pow2_def roundHalfEven_def Let_def
  floor_rat_numeral ceiling_rat_numeral


text \<open>
  The double written \<open>0.9999999999999999\<close> is \<open>1 - 2 ^ -53\<close>. Adding 1 gives a value
  halfway between two doubles, and the tie goes to 2.
\<close>

lemma js_add_rounds_up: "js_add (9007199254740991 / 9007199254740992) 1 = 2"
  by (simp add: double_eval)

subsection \<open>Trimming\<close>




subsection \<open>What a request leaves alone\<close>

lemma fetch_frame:
  "currentSession (snd (fetch e m i p)) = currentSession p \<and> records (snd (fetch e m i p)) = records p"
  by (simp add: fetch_def split: prod.splits)

lemma callCandidates_frame:
  "currentSession (snd (callCandidates e cs le p)) = currentSession p
   \<and> records (snd (callCandidates e cs le p)) = records p"
proof (induction cs arbitrary: le p)
  case Nil
  then show ?case by simp
next
  case (Cons a cs)
  obtain path m where a: "a = (path, m)" by (cases a)
  obtain r p1 where f: "fetch e m (API_BASE_URL @ path) p = (r, p1)" by (cases "fetch e m (API_BASE_URL @ path) p")
  from fetch_frame [of e m "API_BASE_URL @ path" p] f
  have fr: "currentSession p1 = currentSession p" "records p1 = records p" by simp_all
  show ?case using Cons.IH fr by (simp add: a f split: option.splits)
qed

lemma callInterviewApi_frame:
  "callInterviewApi e cs p = (res, p') \<Longrightarrow> currentSession p' = currentSession p \<and> records p' = records p"
  using callCandidates_frame [of e cs None p] by (simp add: callInterviewApi_def)

subsection \<open>The current session after each operation\<close>

lemma current_applySessionPatch:
  "currentSession p = Some prev \<Longrightarrow>
   currentSession (applySessionPatch e f p) = Some (stamped e (f prev))"
  by (simp add: applySessionPatch_def setCurrentSession_def)

lemma submitAnswer_accepted:
  assumes "currentSession p = Some cur"
      and "questionAt (questions cur) (currentIndex cur) = Some q"
      and "status cur = Active"
      and "trim (answerInput p) \<noteq> []"
  shows "submitAnswer e p =
    (let p1 = applySessionPatch e
                (\<lambda>prev. prev\<lparr>answers := AList.update (q_id q) (trim (answerInput p)) (answers prev)\<rparr>)
                (p\<lparr>error := [], answerInput := []\<rparr>)
     in if mode cur \<noteq> Remote then p1\<lparr>notice := notice_answer_saved\<rparr>
        else
          (case callInterviewApi e
                  [(u16 ''/api/interview/session/'' @ sessionId cur @ u16 ''/answer'', POST),
                   (u16 ''/api/interview/'' @ sessionId cur @ u16 ''/answer'', POST)]
                  p1 of
             (Inr data, p2) \<Rightarrow>
               (applySessionPatch e
                  (\<lambda>prev. (adoptRemoteProgress (nextQuestionOf e data)
                              (toSafeNumber (js_get (sessionPayloadOf data) ''currentIndex'')) prev)
                             \<lparr>status := normalizeStatus (js_get (sessionPayloadOf data) ''status'')\<rparr>)
                  p2)
                 \<lparr>notice := notice_answer_sent\<rparr>
           | (Inl _, p2) \<Rightarrow>
               (applySessionPatch e (\<lambda>prev. prev\<lparr>mode := Local\<rparr>) p2)
                 \<lparr>notice := notice_answer_local\<rparr>))"
  unfolding submitAnswer_def using assms by (simp only: option.case if_False if_True simp_thms Let_def)

lemma submitAnswer_rejected:
  assumes "currentSession p = Some cur"
      and "status cur \<noteq> Active \<or> trim (answerInput p) = []"
  shows "currentSession (submitAnswer e p) = Some cur"
  using assms by (auto simp add: submitAnswer_def split: option.splits)

lemma submitAnswer_no_question:
  assumes "currentSession p = Some cur"
      and "questionAt (questions cur) (currentIndex cur) = None"
  shows "submitAnswer e p = p"
  using assms by (simp add: submitAnswer_def)

lemma submitAnswer_patches:
  assumes cur: "currentSession p = Some cur"
  shows "currentSession (submitAnswer e p) = Some cur
         \<or> (\<exists>s'. currentSession (submitAnswer e p) = Some s' \<and> (patch e)\<^sup>+\<^sup>+ cur s')"
proof (cases "questionAt (questions cur) (currentIndex cur)")
  case None
  then show ?thesis using cur submitAnswer_no_question [OF cur None] by simp
next
  case (Some q)
  show ?thesis
  proof (cases "status cur \<noteq> Active \<or> trim (answerInput p) = []")
    case True
    then show ?thesis using submitAnswer_rejected [OF cur True] by simp
  next
    case False
    then have act: "status cur = Active" and ne: "trim (answerInput p) \<noteq> []" by simp_all
    define s1 where "s1 = stamped e (cur\<lparr>answers := AList.update (q_id q) (trim (answerInput p)) (answers cur)\<rparr>)"
    define p1 where "p1 = applySessionPatch e
        (\<lambda>prev. prev\<lparr>answers := AList.update (q_id q) (trim (answerInput p)) (answers prev)\<rparr>)
        (p\<lparr>error := [], answerInput := []\<rparr>)"
    define cands where "cands = [(u16 ''/api/interview/session/'' @ sessionId cur @ u16 ''/answer'', POST),
                               (u16 ''/api/interview/'' @ sessionId cur @ u16 ''/answer'', POST)]"
    have c1: "currentSession p1 = Some s1"
      unfolding p1_def s1_def using cur by (simp add: current_applySessionPatch)
    have st1: "patch e cur s1" unfolding s1_def using ne by (rule patch.answered)
    note eq = submitAnswer_accepted [OF cur Some act ne, of e, folded p1_def cands_def]
    show ?thesis
    proof (cases "mode cur \<noteq> Remote")
      case True
      then have "currentSession (submitAnswer e p) = Some s1"
        using c1 by (simp add: eq Let_def)
      then show ?thesis using st1 by blast
    next
      case remote: False
      obtain res p2 where call: "callInterviewApi e cands p1 = (res, p2)"
        by (cases "callInterviewApi e cands p1")
      have c2: "currentSession p2 = Some s1" using callInterviewApi_frame [OF call] c1 by simp
      show ?thesis
      proof (cases res)
        case (Inl err)
        have "currentSession (submitAnswer e p) = Some (stamped e (s1\<lparr>mode := Local\<rparr>))"
          using remote call Inl c2 by (simp add: eq Let_def current_applySessionPatch)
        moreover have "patch e s1 (stamped e (s1\<lparr>mode := Local\<rparr>))" by (rule patch.downgraded)
        ultimately show ?thesis using st1 by (meson tranclp.r_into_trancl tranclp.trancl_into_trancl)
      next
        case (Inr data)
        have "currentSession (submitAnswer e p) =
                Some (stamped e ((adoptRemoteProgress (nextQuestionOf e data)
                        (toSafeNumber (js_get (sessionPayloadOf data) ''currentIndex'')) s1)
                         \<lparr>status := normalizeStatus (js_get (sessionPayloadOf data) ''status'')\<rparr>))"
          using remote call Inr c2 by (simp add: eq Let_def current_applySessionPatch)
        moreover have "patch e s1 (stamped e ((adoptRemoteProgress (nextQuestionOf e data)
                        (toSafeNumber (js_get (sessionPayloadOf data) ''currentIndex'')) s1)
                         \<lparr>status := normalizeStatus (js_get (sessionPayloadOf data) ''status'')\<rparr>))"
          by (rule patch.adopted)
        ultimately show ?thesis using st1 by (meson tranclp.r_into_trancl tranclp.trancl_into_trancl)
      qed
    qed
  qed
qed

lemma advanceLocally_current:
  assumes "currentSession p = Some s"
  shows "currentSession (advanceLocally e cur p) = Some (advanced e s)"
  using assms by (simp add: advanceLocally_def current_applySessionPatch advanced_def)

lemma nextQuestion_rejected:
  assumes "currentSession p = Some cur" and "status cur \<noteq> Active"
  shows "nextQuestion e p = p\<lparr>error := err_paused_next\<rparr>"
  using assms by (simp add: nextQuestion_def)

lemma nextQuestion_local:
  assumes "currentSession p = Some cur" and "status cur = Active" and "mode cur \<noteq> Remote"
  shows "nextQuestion e p = advanceLocally e cur (p\<lparr>error := []\<rparr>)"
  using assms by (simp add: nextQuestion_def)

lemma nextQuestion_remote:
  assumes "currentSession p = Some cur" and "status cur = Active" and "mode cur = Remote"
  shows "nextQuestion e p =
          (case callInterviewApi e
                    [(u16 ''/api/interview/session/'' @ sessionId cur @ u16 ''/next'', POST),
                     (u16 ''/api/interview/'' @ sessionId cur @ u16 ''/next'', POST)]
                    (p\<lparr>error := []\<rparr>) of
               (Inr data, p1) \<Rightarrow>
                 (applySessionPatch e
                    (\<lambda>prev. (adoptRemoteProgress (nextQuestionOf e data)
                                (toSafeNumber (js_get (sessionPayloadOf data) ''currentIndex'')) prev)
                               \<lparr>status :=
                                  normalizeStatus
                                    (js_or (js_get (sessionPayloadOf data) ''status'') (statusText (status prev)))\<rparr>)
                    p1)
                   \<lparr>notice := notice_next\<rparr>
             | (Inl _, p1) \<Rightarrow>
                 advanceLocally e cur
                   ((applySessionPatch e (\<lambda>prev. prev\<lparr>mode := Local\<rparr>) p1)
                      \<lparr>notice := notice_next_local\<rparr>))"
  unfolding nextQuestion_def using assms by (simp only: option.case if_False if_True simp_thms Let_def)

text \<open>The current session after advance, in each of its four courses.\<close>

lemma nextQuestion_current:
  assumes cur: "currentSession p = Some cur"
  shows "(status cur \<noteq> Active \<and> currentSession (nextQuestion e p) = Some cur)
       \<or> (status cur = Active \<and> mode cur \<noteq> Remote
          \<and> currentSession (nextQuestion e p) = Some (advanced e cur))
       \<or> (status cur = Active \<and> mode cur = Remote
          \<and> (\<exists>err. fst (callInterviewApi e
                            [(u16 ''/api/interview/session/'' @ sessionId cur @ u16 ''/next'', POST),
                             (u16 ''/api/interview/'' @ sessionId cur @ u16 ''/next'', POST)]
                            (p\<lparr>error := []\<rparr>)) = Inl err)
          \<and> currentSession (nextQuestion e p) = Some (advanced e (stamped e (cur\<lparr>mode := Local\<rparr>))))
       \<or> (status cur = Active \<and> mode cur = Remote
          \<and> (\<exists>data. fst (callInterviewApi e
                            [(u16 ''/api/interview/session/'' @ sessionId cur @ u16 ''/next'', POST),
                             (u16 ''/api/interview/'' @ sessionId cur @ u16 ''/next'', POST)]
                            (p\<lparr>error := []\<rparr>)) = Inr data
                \<and> currentSession (nextQuestion e p)
                    = Some (stamped e ((adoptRemoteProgress (nextQuestionOf e data)
                                (toSafeNumber (js_get (sessionPayloadOf data) ''currentIndex'')) cur)
                               \<lparr>status :=
                                  normalizeStatus
                                    (js_or (js_get (sessionPayloadOf data) ''status'') (statusText (status cur)))\<rparr>))))"
proof (cases "status cur = Active")
  case False
  then show ?thesis using cur by (simp add: nextQuestion_rejected [OF cur])
next
  case act: True
  show ?thesis
  proof (cases "mode cur = Remote")
    case False
    have "currentSession (nextQuestion e p) = Some (advanced e cur)"
      using cur by (simp add: nextQuestion_local [OF cur act False] advanceLocally_current)
    then show ?thesis using act False by simp
  next
    case remote: True
    define cands where "cands = [(u16 ''/api/interview/session/'' @ sessionId cur @ u16 ''/next'', POST),
                     (u16 ''/api/interview/'' @ sessionId cur @ u16 ''/next'', POST)]"
    note eq = nextQuestion_remote [OF cur act remote, of e, folded cands_def]
    obtain res p1 where call: "callInterviewApi e cands (p\<lparr>error := []\<rparr>) = (res, p1)"
      by (cases "callInterviewApi e cands (p\<lparr>error := []\<rparr>)")
    have c1: "currentSession p1 = Some cur" using callInterviewApi_frame [OF call] cur by simp
    show ?thesis
    proof (cases res)
      case (Inl err)
      have "currentSession (nextQuestion e p) = Some (advanced e (stamped e (cur\<lparr>mode := Local\<rparr>)))"
        using call Inl c1 by (simp add: eq advanceLocally_current current_applySessionPatch)
      then show ?thesis using act remote call Inl unfolding cands_def [symmetric] by simp
    next
      case (Inr data)
      have "currentSession (nextQuestion e p) =
              Some (stamped e ((adoptRemoteProgress (nextQuestionOf e data)
                                (toSafeNumber (js_get (sessionPayloadOf data) ''currentIndex'')) cur)
                               \<lparr>status :=
                                  normalizeStatus
                                    (js_or (js_get (sessionPayloadOf data) ''status'') (statusText (status cur)))\<rparr>))"
        using call Inr c1 by (simp add: eq current_applySessionPatch)
      then show ?thesis using act remote call Inr unfolding cands_def [symmetric] by simp
    qed
  qed
qed

lemma nextQuestion_patches:
  assumes cur: "currentSession p = Some cur"
  shows "currentSession (nextQuestion e p) = Some cur
         \<or> (\<exists>s'. currentSession (nextQuestion e p) = Some s' \<and> (step e)\<^sup>+\<^sup>+ cur s')"
proof -
  have one: "(step e)\<^sup>+\<^sup>+ cur (advanced e cur)"
    by (rule tranclp.r_into_trancl) (simp add: step_def)
  have two: "(step e)\<^sup>+\<^sup>+ cur (advanced e (stamped e (cur\<lparr>mode := Local\<rparr>)))"
  proof -
    have "step e cur (stamped e (cur\<lparr>mode := Local\<rparr>))"
      unfolding step_def by (rule disjI1) (rule patch.downgraded)
    then have "(step e)\<^sup>+\<^sup>+ cur (stamped e (cur\<lparr>mode := Local\<rparr>))" by (rule tranclp.r_into_trancl)
    moreover have "step e (stamped e (cur\<lparr>mode := Local\<rparr>)) (advanced e (stamped e (cur\<lparr>mode := Local\<rparr>)))"
      by (simp add: step_def)
    ultimately show ?thesis by (rule tranclp.trancl_into_trancl)
  qed
  have three: "(step e)\<^sup>+\<^sup>+ cur (stamped e ((adoptRemoteProgress mq ri cur)\<lparr>status := st\<rparr>))" for mq ri st
  proof (rule tranclp.r_into_trancl)
    show "step e cur (stamped e ((adoptRemoteProgress mq ri cur)\<lparr>status := st\<rparr>))"
      unfolding step_def by (rule disjI1) (rule patch.adopted)
  qed
  from nextQuestion_current [OF cur, of e] show ?thesis
  proof (elim disjE conjE exE)
    assume "currentSession (nextQuestion e p) = Some cur"
    then show ?thesis by simp
  next
    assume "currentSession (nextQuestion e p) = Some (advanced e cur)"
    then show ?thesis using one by simp
  next
    assume "currentSession (nextQuestion e p) = Some (advanced e (stamped e (cur\<lparr>mode := Local\<rparr>)))"
    then show ?thesis using two by simp
  next
    fix data
    assume "currentSession (nextQuestion e p)
                    = Some (stamped e ((adoptRemoteProgress (nextQuestionOf e data)
                                (toSafeNumber (js_get (sessionPayloadOf data) ''currentIndex'')) cur)
                               \<lparr>status :=
                                  normalizeStatus
                                    (js_or (js_get (sessionPayloadOf data) ''status'') (statusText (status cur)))\<rparr>))"
    then show ?thesis using three by simp
  qed
qed

lemma callInterviewApi_frame_snd:
  "currentSession (snd (callInterviewApi e cs p)) = currentSession p"
  using callCandidates_frame [of e cs None p] by (simp add: callInterviewApi_def)

lemma pauseSession_patches:
  assumes cur: "currentSession p = Some cur"
  shows "currentSession (pauseSession e p) = Some cur
         \<or> (\<exists>s'. currentSession (pauseSession e p) = Some s' \<and> (patch e)\<^sup>+\<^sup>+ cur s')"
proof (cases "status cur = Active")
  case False
  then show ?thesis using cur by (simp add: pauseSession_def)
next
  case True
  define p1 where "p1 = (if mode cur = Remote
                      then snd (callInterviewApi e
                                  [(u16 ''/api/interview/session/'' @ sessionId cur @ u16 ''/pause'', POST),
                                   (u16 ''/api/interview/'' @ sessionId cur @ u16 ''/pause'', POST)]
                                  p)
                      else p)"
  have c1: "currentSession p1 = Some cur"
    unfolding p1_def using cur by (simp add: callInterviewApi_frame_snd)
  have "pauseSession e p = (applySessionPatch e (\<lambda>prev. prev\<lparr>status := Paused\<rparr>) p1)\<lparr>notice := notice_paused\<rparr>"
    unfolding pauseSession_def p1_def using cur True by (simp only: option.case if_False if_True simp_thms Let_def)
  then have "currentSession (pauseSession e p) = Some (stamped e (cur\<lparr>status := Paused\<rparr>))"
    using c1 by (simp add: current_applySessionPatch)
  then show ?thesis using patch.status_set [where e = e and s = cur and st = Paused] by (metis tranclp.r_into_trancl)
qed

lemma resumeSession_patches:
  assumes cur: "currentSession p = Some cur"
  shows "currentSession (resumeSession e p) = Some cur
         \<or> (\<exists>s'. currentSession (resumeSession e p) = Some s' \<and> (patch e)\<^sup>+\<^sup>+ cur s')"
proof (cases "status cur = Paused")
  case False
  then show ?thesis using cur by (simp add: resumeSession_def)
next
  case True
  define p1 where "p1 = (if mode cur = Remote
                      then snd (callInterviewApi e
                                  [(u16 ''/api/interview/session/'' @ sessionId cur @ u16 ''/resume'', POST),
                                   (u16 ''/api/interview/'' @ sessionId cur @ u16 ''/resume'', POST)]
                                  p)
                      else p)"
  have c1: "currentSession p1 = Some cur"
    unfolding p1_def using cur by (simp add: callInterviewApi_frame_snd)
  have "resumeSession e p = (applySessionPatch e (\<lambda>prev. prev\<lparr>status := Active\<rparr>) p1)\<lparr>notice := notice_resumed\<rparr>"
    unfolding resumeSession_def p1_def using cur True by (simp only: option.case if_False if_True simp_thms Let_def)
  then have "currentSession (resumeSession e p) = Some (stamped e (cur\<lparr>status := Active\<rparr>))"
    using c1 by (simp add: current_applySessionPatch)
  then show ?thesis using patch.status_set [where e = e and s = cur and st = Active] by (metis tranclp.r_into_trancl)
qed

lemma finishLocally_current:
  assumes "currentSession p = Some s"
  shows "currentSession (finishLocally e p)
         = Some (stamped e (s\<lparr>status := Finished,
                       feedback := Some (buildLocalFeedback (answers s) (length (questions s)) (position s))\<rparr>))"
  using assms by (simp add: finishLocally_def current_applySessionPatch)

lemma endSession_local:
  assumes "currentSession p = Some cur" and "mode cur \<noteq> Remote"
  shows "endSession e p = finishLocally e (p\<lparr>error := []\<rparr>)"
  using assms by (simp add: endSession_def)

lemma endSession_remote:
  assumes "currentSession p = Some cur" and "mode cur = Remote"
  shows "endSession e p =
            (case callInterviewApi e
                    [(u16 ''/api/interview/session/'' @ sessionId cur @ u16 ''/finish'', POST),
                     (u16 ''/api/interview/'' @ sessionId cur @ u16 ''/end'', POST),
                     (u16 ''/api/interview/session/'' @ sessionId cur @ u16 ''/feedback'', GET)]
                    (p\<lparr>error := []\<rparr>) of
               (Inr data, p1) \<Rightarrow>
                 (applySessionPatch e
                    (\<lambda>prev. prev\<lparr>status := Finished,
                                   feedback :=
                                     (case toInterviewFeedback data of
                                        Some parsed \<Rightarrow> Some parsed
                                      | None \<Rightarrow>
                                          Some (buildLocalFeedback (answers prev) (length (questions prev))
                                                  (position prev)))\<rparr>)
                    p1)
                   \<lparr>notice := (case toInterviewFeedback data of
                                 Some _ \<Rightarrow> notice_finished
                               | None \<Rightarrow> notice_finished_local_rules)\<rparr>
             | (Inl _, p1) \<Rightarrow>
                 finishLocally e
                   ((applySessionPatch e (\<lambda>prev. prev\<lparr>mode := Local\<rparr>) p1)
                      \<lparr>notice := notice_finish_fallback\<rparr>))"
  unfolding endSession_def using assms by (simp only: option.case if_False if_True simp_thms Let_def)

text \<open>The current session after finish, in each of its three courses.\<close>

lemma endSession_current:
  assumes cur: "currentSession p = Some cur"
  shows "(mode cur \<noteq> Remote \<and>
          currentSession (endSession e p)
            = Some (stamped e (cur\<lparr>status := Finished,
                       feedback := Some (buildLocalFeedback (answers cur) (length (questions cur)) (position cur))\<rparr>)))
       \<or> (mode cur = Remote \<and>
          (\<exists>err. fst (callInterviewApi e
                    [(u16 ''/api/interview/session/'' @ sessionId cur @ u16 ''/finish'', POST),
                     (u16 ''/api/interview/'' @ sessionId cur @ u16 ''/end'', POST),
                     (u16 ''/api/interview/session/'' @ sessionId cur @ u16 ''/feedback'', GET)]
                    (p\<lparr>error := []\<rparr>)) = Inl err) \<and>
          currentSession (endSession e p)
            = Some (stamped e ((stamped e (cur\<lparr>mode := Local\<rparr>))\<lparr>status := Finished,
                       feedback := Some (buildLocalFeedback (answers cur) (length (questions cur)) (position cur))\<rparr>)))
       \<or> (mode cur = Remote \<and>
          (\<exists>data. fst (callInterviewApi e
                    [(u16 ''/api/interview/session/'' @ sessionId cur @ u16 ''/finish'', POST),
                     (u16 ''/api/interview/'' @ sessionId cur @ u16 ''/end'', POST),
                     (u16 ''/api/interview/session/'' @ sessionId cur @ u16 ''/feedback'', GET)]
                    (p\<lparr>error := []\<rparr>)) = Inr data \<and>
          currentSession (endSession e p)
            = Some (stamped e (cur\<lparr>status := Finished,
                       feedback := (case toInterviewFeedback data of
                                        Some parsed \<Rightarrow> Some parsed
                                      | None \<Rightarrow>
                                          Some (buildLocalFeedback (answers cur) (length (questions cur))
                                                  (position cur)))\<rparr>))))"
proof (cases "mode cur = Remote")
  case False
  then show ?thesis using cur by (simp add: endSession_local [OF cur False] finishLocally_current)
next
  case remote: True
  define cands where "cands = [(u16 ''/api/interview/session/'' @ sessionId cur @ u16 ''/finish'', POST),
                     (u16 ''/api/interview/'' @ sessionId cur @ u16 ''/end'', POST),
                     (u16 ''/api/interview/session/'' @ sessionId cur @ u16 ''/feedback'', GET)]"
  note eq = endSession_remote [OF cur remote, of e, folded cands_def]
  obtain res p1 where call: "callInterviewApi e cands (p\<lparr>error := []\<rparr>) = (res, p1)"
    by (cases "callInterviewApi e cands (p\<lparr>error := []\<rparr>)")
  have c1: "currentSession p1 = Some cur" using callInterviewApi_frame [OF call] cur by simp
  show ?thesis
  proof (cases res)
    case (Inl err)
    have "currentSession (endSession e p)
            = Some (stamped e ((stamped e (cur\<lparr>mode := Local\<rparr>))\<lparr>status := Finished,
                       feedback := Some (buildLocalFeedback (answers cur) (length (questions cur)) (position cur))\<rparr>))"
      using call Inl c1 by (simp add: eq finishLocally_current current_applySessionPatch stamped_def)
    then show ?thesis using remote call Inl unfolding cands_def [symmetric] by simp
  next
    case (Inr data)
    have "currentSession (endSession e p)
            = Some (stamped e (cur\<lparr>status := Finished,
                       feedback := (case toInterviewFeedback data of
                                        Some parsed \<Rightarrow> Some parsed
                                      | None \<Rightarrow>
                                          Some (buildLocalFeedback (answers cur) (length (questions cur))
                                                  (position cur)))\<rparr>))"
      using call Inr c1 by (simp add: eq current_applySessionPatch)
    then show ?thesis using remote call Inr unfolding cands_def [symmetric] by simp
  qed
qed

lemma endSession_patches:
  assumes cur: "currentSession p = Some cur"
  shows "\<exists>s'. currentSession (endSession e p) = Some s' \<and> (patch e)\<^sup>+\<^sup>+ cur s'"
proof -
  have one: "\<And>fb. (patch e)\<^sup>+\<^sup>+ cur (stamped e (cur\<lparr>status := Finished, feedback := Some fb\<rparr>))"
    by (rule tranclp.r_into_trancl) (rule patch.finished)
  have two: "\<And>fb. (patch e)\<^sup>+\<^sup>+ cur
               (stamped e ((stamped e (cur\<lparr>mode := Local\<rparr>))\<lparr>status := Finished, feedback := Some fb\<rparr>))"
  proof -
    fix fb
    have "patch e cur (stamped e (cur\<lparr>mode := Local\<rparr>))" by (rule patch.downgraded)
    then have "(patch e)\<^sup>+\<^sup>+ cur (stamped e (cur\<lparr>mode := Local\<rparr>))" by (rule tranclp.r_into_trancl)
    moreover have "patch e (stamped e (cur\<lparr>mode := Local\<rparr>))
               (stamped e ((stamped e (cur\<lparr>mode := Local\<rparr>))\<lparr>status := Finished, feedback := Some fb\<rparr>))"
      by (rule patch.finished)
    ultimately show "(patch e)\<^sup>+\<^sup>+ cur
               (stamped e ((stamped e (cur\<lparr>mode := Local\<rparr>))\<lparr>status := Finished, feedback := Some fb\<rparr>))"
      by (rule tranclp.trancl_into_trancl)
  qed
  from endSession_current [OF cur, of e] show ?thesis
  proof (elim disjE conjE exE)
    assume "currentSession (endSession e p) =
      Some (stamped e (cur\<lparr>status := Finished,
             feedback := Some (buildLocalFeedback (answers cur) (length (questions cur)) (position cur))\<rparr>))"
    then show ?thesis using one by simp
  next
    assume "currentSession (endSession e p) =
      Some (stamped e ((stamped e (cur\<lparr>mode := Local\<rparr>))\<lparr>status := Finished,
             feedback := Some (buildLocalFeedback (answers cur) (length (questions cur)) (position cur))\<rparr>))"
    then show ?thesis using two by simp
  next
    fix data
    assume "currentSession (endSession e p) =
      Some (stamped e (cur\<lparr>status := Finished,
                       feedback := (case toInterviewFeedback data of
                                        Some parsed \<Rightarrow> Some parsed
                                      | None \<Rightarrow>
                                          Some (buildLocalFeedback (answers cur) (length (questions cur))
                                                  (position cur)))\<rparr>))"
    then show ?thesis using one by (cases "toInterviewFeedback data") simp_all
  qed
qed

subsection \<open>What the patches preserve\<close>

lemma stamped_simps [simp]:
  "answers (stamped e s) = answers s"
  "questions (stamped e s) = questions s"
  "currentIndex (stamped e s) = currentIndex s"
  "mode (stamped e s) = mode s"
  "status (stamped e s) = status s"
  "feedback (stamped e s) = feedback s"
  "position (stamped e s) = position s"
  "sessionId (stamped e s) = sessionId s"
  "key (stamped e s) = key s"
  "remoteNumericId (stamped e s) = remoteNumericId s"
  "answeredCount (stamped e s) = of_nat (length (answers s))"
  "questionCount (stamped e s) = max (questionCount s) (of_nat (length (questions s)))"
  "updatedAt (stamped e s) = now_iso e"
  by (simp_all add: stamped_def)

lemma adoptRemoteProgress_simps [simp]:
  "answers (adoptRemoteProgress mq ri s) = answers s"
  "mode (adoptRemoteProgress mq ri s) = mode s"
  "status (adoptRemoteProgress mq ri s) = status s"
  by (simp_all add: adoptRemoteProgress_def Let_def)

lemma adoptRemoteProgress_index:
  "currentIndex (adoptRemoteProgress mq ri s)
     \<le> max (of_nat (length (questions (adoptRemoteProgress mq ri s))) - 1) 0"
  by (simp add: adoptRemoteProgress_def Let_def)

lemma wellFormed_count:
  "answersWellFormed s \<Longrightarrow> answers s' = answers s \<Longrightarrow> answeredCount s' = of_nat (length (answers s))
   \<Longrightarrow> answersWellFormed s' \<and> countInvariant s'"
proof -
  assume wf: "answersWellFormed s" and a: "answers s' = answers s" and c: "answeredCount s' = of_nat (length (answers s))"
  from wf have "filter (\<lambda>(k, v). v \<noteq> []) (answers s) = answers s"
    by (simp add: answersWellFormed_def list_all_iff)
  then show ?thesis using wf a c
    by (simp add: answersWellFormed_def countInvariant_def nonEmptyAnswers_def)
qed

lemma wellFormed_update:
  assumes "answersWellFormed s" and "v \<noteq> []"
  shows "answersWellFormed (s\<lparr>answers := AList.update k v (answers s)\<rparr>)"
proof -
  have "set (AList.update k v al) \<subseteq> insert (k, v) (set al)" for al :: "(jsstring \<times> jsstring) list"
    by (induction al) auto
  then have "list_all (\<lambda>(k, v). v \<noteq> []) (AList.update k v (answers s))"
    using assms by (fastforce simp add: answersWellFormed_def list_all_iff)
  then show ?thesis using assms by (simp add: answersWellFormed_def distinct_update)
qed

lemma patch_count:
  assumes "patch e s s'" and "answersWellFormed s"
  shows "answersWellFormed s' \<and> countInvariant s'"
  using assms
proof (cases rule: patch.cases)
  case (answered v k)
  have "answersWellFormed (s\<lparr>answers := AList.update k v (answers s)\<rparr>)"
    using assms(2) answered(2) by (rule wellFormed_update)
  then show ?thesis unfolding answered(1) by (rule wellFormed_count) simp_all
next
  case downgraded
  show ?thesis unfolding downgraded using assms(2) by (rule wellFormed_count) simp_all
next
  case (adopted st maybeNext remoteIndex)
  show ?thesis unfolding adopted using assms(2) by (rule wellFormed_count) simp_all
next
  case (status_set st)
  show ?thesis unfolding status_set using assms(2) by (rule wellFormed_count) simp_all
next
  case (finished fb)
  show ?thesis unfolding finished using assms(2) by (rule wellFormed_count) simp_all
qed

lemma advanced_simps [simp]:
  "answers (advanced e s) = answers s"
  "questions (advanced e s) = questions s"
  "mode (advanced e s) = mode s"
  "status (advanced e s) = status s"
  "answeredCount (advanced e s) = of_nat (length (answers s))"
  "currentIndex (advanced e s)
     = (if currentIndex s \<ge> of_nat (length (questions s)) - 1 then currentIndex s
        else js_add (currentIndex s) 1)"
  by (simp_all add: advanced_def)

lemma step_count:
  assumes "step e s s'" and "answersWellFormed s"
  shows "answersWellFormed s' \<and> countInvariant s'"
proof (cases "patch e s s'")
  case True
  then show ?thesis using assms(2) by (rule patch_count)
next
  case False
  then have "s' = advanced e s" using assms(1) by (simp add: step_def)
  then show ?thesis using wellFormed_count [OF assms(2), of "advanced e s"] by simp
qed

lemma patches_count:
  assumes "(step e)\<^sup>+\<^sup>+ s s'" and "answersWellFormed s"
  shows "answersWellFormed s' \<and> countInvariant s'"
  using assms by (induction rule: tranclp_induct) (auto dest: step_count)

lemma patch_index:
  assumes "patch e s s'" and "indexInvariant s"
  shows "indexInvariant s'"
  using assms
proof (cases rule: patch.cases)
  case (adopted st maybeNext remoteIndex)
  have "currentIndex (adoptRemoteProgress maybeNext remoteIndex s)
     \<le> max (of_nat (length (questions (adoptRemoteProgress maybeNext remoteIndex s))) - 1) 0"
    by (rule adoptRemoteProgress_index)
  then show ?thesis unfolding adopted by (simp add: indexInvariant_def max_def split: if_splits)
qed (use assms(2) in \<open>simp_all add: indexInvariant_def\<close>)

lemma patches_index:
  assumes "(patch e)\<^sup>+\<^sup>+ s s'" and "indexInvariant s"
  shows "indexInvariant s'"
  using assms by (induction rule: tranclp_induct) (auto dest: patch_index)

lemma patch_local:
  assumes "patch e s s'" and "mode s = Local"
  shows "mode s' = Local"
  using assms by (cases rule: patch.cases) simp_all

lemma step_local:
  assumes "step e s s'" and "mode s = Local"
  shows "mode s' = Local"
  using assms patch_local [of e s s'] by (auto simp add: step_def)

lemma patches_local:
  assumes "(step e)\<^sup>+\<^sup>+ s s'" and "mode s = Local"
  shows "mode s' = Local"
  using assms by (induction rule: tranclp_induct) (auto dest: step_local)

lemma patches_steps: "(patch e)\<^sup>+\<^sup>+ s s' \<Longrightarrow> (step e)\<^sup>+\<^sup>+ s s'"
proof (induction rule: tranclp_induct)
  case (base y)
  then show ?case by (simp add: step_def tranclp.r_into_trancl)
next
  case (step y z)
  have "step e y z" using step.hyps(2) by (simp add: step_def)
  with step.IH show ?case by (rule tranclp.trancl_into_trancl)
qed

text \<open>Every operation but advance applies patches only; advance may take the local step.\<close>

lemma run_patches_other:
  assumes "currentSession p = Some cur" and "oper \<noteq> Advance"
  shows "currentSession (run oper e p) = Some cur
         \<or> (\<exists>s'. currentSession (run oper e p) = Some s' \<and> (patch e)\<^sup>+\<^sup>+ cur s')"
proof (cases oper)
  case SubmitAnswer
  then show ?thesis using submitAnswer_patches [OF assms(1), of e] by simp
next
  case Advance
  then show ?thesis using assms(2) by simp
next
  case Pause
  then show ?thesis using pauseSession_patches [OF assms(1), of e] by simp
next
  case Resume
  then show ?thesis using resumeSession_patches [OF assms(1), of e] by simp
next
  case Finish
  then show ?thesis using endSession_patches [OF assms(1), of e] by simp
qed

lemma run_patches:
  assumes "currentSession p = Some cur"
  shows "currentSession (run oper e p) = Some cur
         \<or> (\<exists>s'. currentSession (run oper e p) = Some s' \<and> (step e)\<^sup>+\<^sup>+ cur s')"
proof (cases "oper = Advance")
  case True
  then show ?thesis using nextQuestion_patches [OF assms, of e] by simp
next
  case False
  from run_patches_other [OF assms False, of e] show ?thesis
    by (auto dest: patches_steps)
qed

subsection \<open>When every request fails\<close>

lemma apiFetch_down:
  assumes "\<And>n r. net e n r = NetworkError"
  shows "fst (apiFetch e redirect m i c) = None"
  by (simp add: apiFetch_def authFetch_def assms Let_def split: prod.splits)

lemma fetch_down:
  assumes "\<And>n r. net e n r = NetworkError"
  shows "fst (fetch e m i p) = None"
  using apiFetch_down [OF assms, of True m i "auth p"]
  by (cases "apiFetch e True m i (auth p)") (simp add: fetch_def)

lemma callCandidates_down:
  assumes "\<And>n r. net e n r = NetworkError"
  shows "\<exists>err. fst (callCandidates e cs le p) = Inl err"
proof (induction cs arbitrary: le p)
  case Nil
  then show ?case by simp
next
  case (Cons a cs)
  obtain path m where a: "a = (path, m)" by (cases a)
  obtain r p1 where f: "fetch e m (API_BASE_URL @ path) p = (r, p1)" by (cases "fetch e m (API_BASE_URL @ path) p")
  have "r = None" using fetch_down [OF assms, of m "API_BASE_URL @ path" p] f by simp
  then show ?case using Cons.IH by (simp add: a f)
qed

lemma callInterviewApi_down:
  assumes "\<And>n r. net e n r = NetworkError"
  shows "\<exists>err. fst (callInterviewApi e cs p) = Inl err"
  using callCandidates_down [OF assms] by (simp add: callInterviewApi_def)

subsection \<open>The session that start creates\<close>

lemma startSession_current:
  assumes "jobTextOf options p \<noteq> []"
  shows "currentSession (startSession e options p)
         = Some (fallbackRecord e (positionValueOf options p) (jobTextOf options p) (resumeValueOf options p)
                   (pageContextKey p))
       \<or> (\<exists>data. fst (callInterviewApi e
                     [(u16 ''/api/interview/session/create'', POST),
                      (u16 ''/api/interview/session/start'', POST),
                      (u16 ''/api/interview/start'', POST),
                      (u16 ''/api/interview/session'', POST)]
                     (p\<lparr>loading := True, error := [],
                        notice := (if silent options then notice p else []),
                        answerInput := [],
                        form_position :=
                         (case opt_position options of Some _ \<Rightarrow> positionValueOf options p | None \<Rightarrow> form_position p),
                        form_jdText :=
                         (case opt_jdText options of Some _ \<Rightarrow> jdValueOf options p | None \<Rightarrow> form_jdText p),
                        form_resumeText :=
                         (case opt_resumeText options of Some _ \<Rightarrow> resumeValueOf options p | None \<Rightarrow> form_resumeText p)\<rparr>))
                   = Inr data
            \<and> currentSession (startSession e options p)
                = remoteStartRecord e data (positionValueOf options p) (jobTextOf options p)
                    (resumeValueOf options p) (pageContextKey p)
            \<and> remoteStartRecord e data (positionValueOf options p) (jobTextOf options p)
                    (resumeValueOf options p) (pageContextKey p) \<noteq> None)"
  using assms
  by (auto simp add: startSession_def Let_def setCurrentSession_def split: prod.splits sum.splits option.splits)

lemma fallbackRecord_invariants:
  "mode (fallbackRecord e pv jd rv ck) = Local"
  "answersWellFormed (fallbackRecord e pv jd rv ck)"
  "countInvariant (fallbackRecord e pv jd rv ck)"
  "indexInvariant (fallbackRecord e pv jd rv ck)"
  "length (questions (fallbackRecord e pv jd rv ck)) = 3"
  "map q_id (questions (fallbackRecord e pv jd rv ck)) = [u16 ''q-1'', u16 ''q-2'', u16 ''q-3'']"
  "status (fallbackRecord e pv jd rv ck) = Active"
  "currentIndex (fallbackRecord e pv jd rv ck) = 0"
  "answers (fallbackRecord e pv jd rv ck) = []"
  by (simp_all add: fallbackRecord_def buildLocalQuestions_def Let_def answersWellFormed_def
        countInvariant_def nonEmptyAnswers_def indexInvariant_def)

lemma remoteStartRecord_mode:
  "remoteStartRecord e data pv jd rv ck = Some s \<Longrightarrow> mode s = Remote"
  by (auto simp add: remoteStartRecord_def Let_def split: if_splits)

lemma applySessionPatch_auth [simp]: "auth (applySessionPatch e f p) = auth p"
  by (simp add: applySessionPatch_def setCurrentSession_def split: option.splits)

lemma run_local_auth:
  assumes cur: "currentSession p = Some cur" and loc: "mode cur = Local"
  shows "auth (run oper e p) = auth p"
proof (cases oper)
  case SubmitAnswer
  show ?thesis
  proof (cases "questionAt (questions cur) (currentIndex cur)")
    case None
    then show ?thesis using cur SubmitAnswer by (simp add: submitAnswer_no_question)
  next
    case (Some q)
    show ?thesis
    proof (cases "status cur = Active \<and> trim (answerInput p) \<noteq> []")
      case True
      then show ?thesis using SubmitAnswer loc
        by (simp add: submitAnswer_accepted [OF cur Some] Let_def)
    next
      case False
      then show ?thesis using SubmitAnswer cur Some by (auto simp add: submitAnswer_def)
    qed
  qed
next
  case Advance
  show ?thesis
  proof (cases "status cur = Active")
    case True
    then show ?thesis using Advance loc
      by (simp add: nextQuestion_local [OF cur] advanceLocally_def)
  next
    case False
    then show ?thesis using Advance by (simp add: nextQuestion_rejected [OF cur])
  qed
next
  case Pause
  then show ?thesis using cur loc by (simp add: pauseSession_def Let_def)
next
  case Resume
  then show ?thesis using cur loc by (simp add: resumeSession_def Let_def)
next
  case Finish
  then show ?thesis using loc by (simp add: endSession_local [OF cur] finishLocally_def)
qed

subsection \<open>The local course of the operations\<close>



lemma startSession_down:
  assumes down: "\<And>n r. net e n r = NetworkError" and jd: "jobTextOf options p \<noteq> []"
  shows "currentSession (startSession e options p)
         = Some (fallbackRecord e (positionValueOf options p) (jobTextOf options p) (resumeValueOf options p)
                   (pageContextKey p))"
  using startSession_current [OF jd, of e] callInterviewApi_down [OF down]
  by (metis sum.distinct(1))









lemma env_down_fails: "net env_down n r = NetworkError"
  by (simp add: env_down_def)

lemma jobText_backend: "jobTextOf options_backend p = u16 ''Backend Engineer, must know caching''"
  by (simp add: jobTextOf_def jdValueOf_def options_backend_def trim_def isWhiteSpace_def u16_def)

lemma adopt_index:
  "currentIndex (adoptRemoteProgress mq (Some r) s)
     = min (max 0 r) (max (of_nat (length (questions (adoptRemoteProgress mq (Some r) s))) - 1) 0)"
  by (simp add: adoptRemoteProgress_def Let_def)

subsection \<open>The credential\<close>

lemma guest_not_expired: "\<not> expiredWithoutRefresh e (createGuestAuthState e)"
  by (simp add: expiredWithoutRefresh_def createGuestAuthState_def)

lemma normalize_not_expired:
  "normalizeClientAuthState e v = Some s \<Longrightarrow> \<not> expiredWithoutRefresh e s"
  by (auto simp add: normalizeClientAuthState_def Let_def split: if_splits)

lemma load_not_expired:
  "loadClientAuthState e c = (Some s, c') \<Longrightarrow> \<not> expiredWithoutRefresh e s"
  by (auto simp add: loadClientAuthState_def dest: normalize_not_expired
           split: option.splits stored.splits)

lemma persistState_result:
  "persistState e next c
     = ((if expiredWithoutRefresh e next then createGuestAuthState e else next),
        c\<lparr>storage_v3 := Some (Parsed (authJson (if expiredWithoutRefresh e next then createGuestAuthState e else next))),
          authRef := Some (if expiredWithoutRefresh e next then createGuestAuthState e else next),
          authState := Some (if expiredWithoutRefresh e next then createGuestAuthState e else next),
          tokenDraft := accessToken (if expiredWithoutRefresh e next then createGuestAuthState e else next)\<rparr>)"
  by (simp add: persistState_def saveClientAuthState_def Let_def)

lemma persistState_not_expired:
  "\<not> expiredWithoutRefresh e (fst (persistState e next c))"
  by (simp add: persistState_result guest_not_expired)

lemma getOrCreate_not_expired:
  "\<not> expiredWithoutRefresh e (fst (getOrCreateClientAuthState e c))"
proof (cases "loadClientAuthState e c")
  case (Pair loaded c1)
  then show ?thesis
    by (cases loaded)
       (auto simp add: getOrCreateClientAuthState_def saveClientAuthState_def guest_not_expired
             dest: load_not_expired)
qed

lemma ensureAuthState_not_expired:
  "\<not> expiredWithoutRefresh e (fst (ensureAuthState e c))"
proof (cases "authRef c")
  case None
  then show ?thesis
    using getOrCreate_not_expired [of e c]
    by (cases "getOrCreateClientAuthState e c") (simp add: ensureAuthState_def)
next
  case (Some current)
  then show ?thesis
    by (simp add: ensureAuthState_def persistState_result guest_not_expired)
qed

lemma ensureAuthState_authRef:
  "authRef (snd (ensureAuthState e c)) = Some (fst (ensureAuthState e c))"
  by (cases "authRef c"; cases "getOrCreateClientAuthState e c")
     (simp_all add: ensureAuthState_def persistState_result)

lemma ensureAuthState_replaces:
  assumes "authRef c = Some current" and "expiredWithoutRefresh e current"
  shows "ensureAuthState e c = persistState e (createGuestAuthState e) c"
    and "fst (ensureAuthState e c) = createGuestAuthState e"
    and "storage_v3 (snd (ensureAuthState e c)) = Some (Parsed (authJson (createGuestAuthState e)))"
  using assms by (simp_all add: ensureAuthState_def persistState_result guest_not_expired)

lemma initAuth_not_expired:
  "\<exists>s. authRef (initAuth e reasonParam c) = Some s
       \<and> storage_v3 (initAuth e reasonParam c) = Some (Parsed (authJson s))
       \<and> \<not> expiredWithoutRefresh e s"
proof (cases "loadClientAuthState e c")
  case (Pair loaded c1)
  then show ?thesis
    by (cases loaded)
       (auto simp add: initAuth_def saveClientAuthState_def guest_not_expired dest: load_not_expired)
qed

text \<open>What one step of \<open>apiFetch\<close> does to the client.\<close>

lemma sync_facts:
  assumes "syncAuthStateFromResponse e current r c = (next, c')"
  shows "expiredWithoutRefresh e next = expiredWithoutRefresh e current"
    and "c' = c \<or> c' = c\<lparr>storage_v3 := Some (Parsed (authJson next))\<rparr>"
    and "auth_mode next = auth_mode current"
  using assms
  by (auto simp add: syncAuthStateFromResponse_def saveClientAuthState_def Let_def
        expiredWithoutRefresh_def hasRefreshToken_def split: if_splits)

lemma authFetch_facts:
  assumes "authFetch e m url current c = (res, c')"
  shows "sent c' = sent c @ [Request m url current]
       \<and> authRef c' = authRef c
       \<and> authFailureReason c' = authFailureReason c
       \<and> redirected c' = redirected c
       \<and> (storage_v3 c' = storage_v3 c
          \<or> (\<exists>s. storage_v3 c' = Some (Parsed (authJson s))
                 \<and> expiredWithoutRefresh e s = expiredWithoutRefresh e current))
       \<and> (\<forall>r st. res = Some (r, st) \<longrightarrow>
             expiredWithoutRefresh e st = expiredWithoutRefresh e current
             \<and> net e (length (sent c)) (Request m url current) = Reply r)"
proof (cases "net e (length (sent c)) (Request m url current)")
  case NetworkError
  then show ?thesis using assms by (auto simp add: authFetch_def Let_def)
next
  case (Reply r)
  let ?c1 = "c\<lparr>sent := sent c @ [Request m url current]\<rparr>"
  obtain nxt c2 where sy: "syncAuthStateFromResponse e current r ?c1 = (nxt, c2)"
    by (cases "syncAuthStateFromResponse e current r ?c1")
  have res: "res = Some (r, nxt)" "c' = c2"
    using assms Reply sy by (simp_all add: authFetch_def Let_def)
  from sync_facts(1,2) [OF sy] show ?thesis
    unfolding res using Reply by auto
qed

lemma refreshPayloads_facts:
  "\<exists>attempts. snd (refreshPayloads e current endpoint ps c) = c\<lparr>sent := sent c @ attempts\<rparr>
        \<and> list_all isRefresh attempts \<and> length attempts \<le> length ps
        \<and> (ps \<noteq> [] \<longrightarrow> attempts \<noteq> [])"
proof (induction ps arbitrary: c)
  case Nil
  then show ?case by simp
next
  case (Cons payload rest)
  let ?req = "Refresh (API_BASE_URL @ u16 endpoint) payload"
  let ?c1 = "c\<lparr>sent := sent c @ [?req]\<rparr>"
  from Cons.IH [of ?c1] obtain attempts
    where a: "snd (refreshPayloads e current endpoint rest ?c1) = ?c1\<lparr>sent := sent ?c1 @ attempts\<rparr>"
      and r: "list_all isRefresh attempts" and l: "length attempts \<le> length rest" by blast
  have 1: "?c1\<lparr>sent := sent ?c1 @ attempts\<rparr> = c\<lparr>sent := sent c @ (?req # attempts)\<rparr>" by simp
  have 2: "?c1 = c\<lparr>sent := sent c @ [?req]\<rparr>" by simp
  have "snd (refreshPayloads e current endpoint (payload # rest) c) = c\<lparr>sent := sent c @ (?req # attempts)\<rparr>
        \<or> snd (refreshPayloads e current endpoint (payload # rest) c) = c\<lparr>sent := sent c @ [?req]\<rparr>"
    using a unfolding 1
    by (simp add: Let_def split: outcome.splits option.splits sum.splits js_error.splits)
  then show ?case
  proof
    assume "snd (refreshPayloads e current endpoint (payload # rest) c) = c\<lparr>sent := sent c @ (?req # attempts)\<rparr>"
    then show ?thesis using r l by (intro exI [of _ "?req # attempts"]) simp
  next
    assume "snd (refreshPayloads e current endpoint (payload # rest) c) = c\<lparr>sent := sent c @ [?req]\<rparr>"
    then show ?thesis by (intro exI [of _ "[?req]"]) simp
  qed
qed

lemma refreshEndpoints_facts:
  "\<exists>attempts. snd (refreshEndpoints e current endpoints c) = c\<lparr>sent := sent c @ attempts\<rparr>
        \<and> list_all isRefresh attempts \<and> length attempts \<le> 3 * length endpoints"
proof (induction endpoints arbitrary: c)
  case Nil
  then show ?case by simp
next
  case (Cons endpoint rest)
  from refreshPayloads_facts [of e current endpoint "[0, 1, 2]" c] obtain a1
    where a1: "snd (refreshPayloads e current endpoint [0, 1, 2] c) = c\<lparr>sent := sent c @ a1\<rparr>"
      and r1: "list_all isRefresh a1" and l1: "length a1 \<le> 3" by auto
  let ?c1 = "c\<lparr>sent := sent c @ a1\<rparr>"
  from Cons.IH [of ?c1] obtain a2
    where a2: "snd (refreshEndpoints e current rest ?c1) = ?c1\<lparr>sent := sent ?c1 @ a2\<rparr>"
      and r2: "list_all isRefresh a2" and l2: "length a2 \<le> 3 * length rest" by blast
  have 1: "?c1\<lparr>sent := sent ?c1 @ a2\<rparr> = c\<lparr>sent := sent c @ (a1 @ a2)\<rparr>" by simp
  obtain res c1 where rp: "refreshPayloads e current endpoint [0, 1, 2] c = (res, c1)"
    by (cases "refreshPayloads e current endpoint [0, 1, 2] c")
  have c1: "c1 = ?c1" using a1 rp by simp
  show ?case
  proof (cases res)
    case None
    then have "snd (refreshEndpoints e current (endpoint # rest) c) = c\<lparr>sent := sent c @ (a1 @ a2)\<rparr>"
      using rp c1 a2 1 by simp
    then show ?thesis using r1 r2 l1 l2 by (intro exI [of _ "a1 @ a2"]) simp
  next
    case (Some refreshed)
    then have "snd (refreshEndpoints e current (endpoint # rest) c) = c\<lparr>sent := sent c @ a1\<rparr>"
      using rp c1 by simp
    then show ?thesis using r1 l1 by (intro exI [of _ a1]) simp
  qed
qed

lemma tryAutoRefreshAuth_facts:
  "\<exists>attempts. snd (tryAutoRefreshAuth e current c) = c\<lparr>sent := sent c @ attempts\<rparr>
        \<and> list_all isRefresh attempts \<and> length attempts \<le> 12"
proof (cases "hasRefreshToken current")
  case False
  then show ?thesis by (intro exI [of _ "[]"]) (simp add: tryAutoRefreshAuth_def)
next
  case True
  from refreshEndpoints_facts [of e current
         "[''/api/auth/refresh'', ''/api/auth/token/refresh'', ''/api/auth/session/refresh'',
              ''/api/auth/login/refresh'']" c]
  show ?thesis using True by (simp add: tryAutoRefreshAuth_def)
qed

lemma storesNoExpired_refl: "storesNoExpired e c c"
  by (simp add: storesNoExpired_def)

lemma storesNoExpired_trans:
  "storesNoExpired e c c1 \<Longrightarrow> storesNoExpired e c1 c2 \<Longrightarrow> storesNoExpired e c c2"
  by (auto simp add: storesNoExpired_def)

lemma storesNoExpired_same:
  "storage_v3 c' = storage_v3 c \<Longrightarrow> storesNoExpired e c c'"
  by (simp add: storesNoExpired_def)

lemma persistState_stores: "storesNoExpired e c (snd (persistState e nxt c))"
  unfolding storesNoExpired_def
  by (rule disjI2, rule disjI2,
      rule exI [of _ "if expiredWithoutRefresh e nxt then createGuestAuthState e else nxt"])
     (simp add: persistState_result guest_not_expired)

lemma persistState_holds: "holdsCredential e (snd (persistState e nxt c))"
  unfolding holdsCredential_def
  by (rule exI [of _ "if expiredWithoutRefresh e nxt then createGuestAuthState e else nxt"])
     (simp add: persistState_result guest_not_expired)

lemma load_stores: "storesNoExpired e c (snd (loadClientAuthState e c))"
  by (auto simp add: loadClientAuthState_def clearClientAuthState_def storesNoExpired_def
        split: option.splits stored.splits)

lemma getOrCreate_stores: "storesNoExpired e c (snd (getOrCreateClientAuthState e c))"
proof (cases "loadClientAuthState e c")
  case (Pair loaded c1)
  have 1: "storesNoExpired e c c1" using load_stores [of e c] Pair by simp
  show ?thesis
  proof (cases loaded)
    case None
    have "storesNoExpired e c1 (c1\<lparr>storage_v3 := Some (Parsed (authJson (createGuestAuthState e)))\<rparr>)"
      unfolding storesNoExpired_def
      by (rule disjI2, rule disjI2, rule exI [of _ "createGuestAuthState e"]) (simp add: guest_not_expired)
    then show ?thesis using Pair None 1
      by (simp add: getOrCreateClientAuthState_def saveClientAuthState_def storesNoExpired_trans)
  next
    case (Some s)
    then show ?thesis using Pair 1 by (simp add: getOrCreateClientAuthState_def)
  qed
qed

lemma ensureAuthState_stores: "storesNoExpired e c (snd (ensureAuthState e c))"
proof (cases "authRef c")
  case None
  obtain f c1 where g: "getOrCreateClientAuthState e c = (f, c1)"
    by (cases "getOrCreateClientAuthState e c")
  have "storesNoExpired e c c1" using getOrCreate_stores [of e c] g by simp
  then show ?thesis using None g by (simp add: ensureAuthState_def storesNoExpired_def)
next
  case (Some current)
  then show ?thesis
    using persistState_stores [of e c "createGuestAuthState e"]
    by (simp add: ensureAuthState_def storesNoExpired_refl)
qed

lemma ensureAuthState_holds: "holdsCredential e (snd (ensureAuthState e c))"
  unfolding holdsCredential_def
  using ensureAuthState_authRef [of e c] ensureAuthState_not_expired [of e c] by blast

lemma authFetch_stores:
  assumes "authFetch e m url current c = (res, c')" and "\<not> expiredWithoutRefresh e current"
  shows "storesNoExpired e c c'"
  using authFetch_facts [OF assms(1)] assms(2) by (auto simp add: storesNoExpired_def)

lemma authFetch_holds:
  assumes "authFetch e m url current c = (res, c')" and "holdsCredential e c"
  shows "holdsCredential e c'"
  using authFetch_facts [OF assms(1)] assms(2) by (simp add: holdsCredential_def)

lemma tryAutoRefreshAuth_keeps:
  "storage_v3 (snd (tryAutoRefreshAuth e current c)) = storage_v3 c"
  "authRef (snd (tryAutoRefreshAuth e current c)) = authRef c"
  "authFailureReason (snd (tryAutoRefreshAuth e current c)) = authFailureReason c"
  using tryAutoRefreshAuth_facts [of e current c] by auto

lemma authFailed_result:
  "authFailed e redirect current had result c
     = (Some result,
        c\<lparr>authFailureReason :=
             Some (if had then RefreshFailed
                   else if isAuthExpired e (expiresAt current) then Expired else Unauthorized),
          storage_v3 := Some (Parsed (authJson (createGuestAuthState e))),
          authRef := Some (createGuestAuthState e),
          authState := Some (createGuestAuthState e),
          tokenDraft := accessToken (createGuestAuthState e),
          redirected :=
            (if redirect \<and> \<not> at_login_path e
             then Some (if had then RefreshFailed
                        else if isAuthExpired e (expiresAt current) then Expired else Unauthorized)
             else redirected c)\<rparr>)"
  by (simp add: authFailed_def Let_def persistState_result guest_not_expired)

lemma authFailed_stores: "storesNoExpired e c (snd (authFailed e redirect current had result c))"
  unfolding storesNoExpired_def
  by (rule disjI2, rule disjI2, rule exI [of _ "createGuestAuthState e"])
     (simp add: authFailed_result guest_not_expired)

lemma authFailed_holds: "holdsCredential e (snd (authFailed e redirect current had result c))"
  unfolding holdsCredential_def
  by (rule exI [of _ "createGuestAuthState e"]) (simp add: authFailed_result guest_not_expired)

text \<open>The courses of \<open>apiFetch\<close>, by the steps it takes.\<close>

lemma apiFetch_rejected:
  assumes "ensureAuthState e c = (current, c1)"
      and "authFetch e m (toAbsoluteInput API_BASE_URL input) current c1 = (None, c2)"
  shows "apiFetch e redirect m input c = (None, c2)"
  using assms by (simp add: apiFetch_def Let_def)

lemma apiFetch_passed:
  assumes "ensureAuthState e c = (current, c1)"
      and "authFetch e m (toAbsoluteInput API_BASE_URL input) current c1 = (Some (r, st), c2)"
      and "http_status r \<noteq> 401 \<or> auth_mode current \<noteq> AuthCustom"
  shows "apiFetch e redirect m input c
           = (Some r, if credentialChanged st current then snd (persistState e st c2) else c2)"
  using assms by (auto simp add: apiFetch_def Let_def)

lemma apiFetch_no_candidate:
  assumes "ensureAuthState e c = (current, c1)"
      and "authFetch e m (toAbsoluteInput API_BASE_URL input) current c1 = (Some (r, st), c2)"
      and "http_status r = 401" and "auth_mode current = AuthCustom"
      and "c3 = (if credentialChanged st current then snd (persistState e st c2) else c2)"
      and "tryAutoRefreshAuth e current c3 = (None, c4)"
  shows "apiFetch e redirect m input c = authFailed e redirect current (hasRefreshToken current) r c4"
proof (cases "hasRefreshToken current")
  case True
  then show ?thesis using assms by (simp add: apiFetch_def Let_def)
next
  case False
  then have "c4 = c3" using assms(6) by (simp add: tryAutoRefreshAuth_def)
  then show ?thesis using assms False by (simp add: apiFetch_def Let_def)
qed

lemma tryAutoRefreshAuth_needs_token:
  "tryAutoRefreshAuth e current c = (Some rc, c4) \<Longrightarrow> hasRefreshToken current"
  by (cases "hasRefreshToken current") (simp_all add: tryAutoRefreshAuth_def)

lemma apiFetch_candidate:
  assumes "ensureAuthState e c = (current, c1)"
      and "authFetch e m (toAbsoluteInput API_BASE_URL input) current c1 = (Some (r, st), c2)"
      and "http_status r = 401" and "auth_mode current = AuthCustom"
      and "c3 = (if credentialChanged st current then snd (persistState e st c2) else c2)"
      and "tryAutoRefreshAuth e current c3 = (Some rc, c4)"
  shows "apiFetch e redirect m input c
           = (case authFetch e m (toAbsoluteInput API_BASE_URL input) (fst (persistState e rc c4))
                     ((snd (persistState e rc c4))\<lparr>authFailureReason := None\<rparr>) of
                (None, c6) \<Rightarrow> (None, c6)
              | (Some (retry, st2), c6) \<Rightarrow>
                  if ok retry \<or> http_status retry \<noteq> 401
                  then (Some retry, snd (persistState e st2 c6))
                  else authFailed e redirect current True retry c6)"
proof -
  have h: "hasRefreshToken current" using assms(6) by (rule tryAutoRefreshAuth_needs_token)
  obtain refreshed c5 where ps: "persistState e rc c4 = (refreshed, c5)"
    by (cases "persistState e rc c4")
  show ?thesis using assms h ps by (simp add: apiFetch_def Let_def)
qed

lemma apiFetch_invariant:
  "holdsCredential e (snd (apiFetch e redirect m input c))
   \<and> storesNoExpired e c (snd (apiFetch e redirect m input c))"
proof -
  let ?url = "toAbsoluteInput API_BASE_URL input"
  obtain current c1 where en: "ensureAuthState e c = (current, c1)"
    by (cases "ensureAuthState e c")
  have good: "\<not> expiredWithoutRefresh e current"
    using ensureAuthState_not_expired [of e c] en by simp
  have h1: "holdsCredential e c1" using ensureAuthState_holds [of e c] en by simp
  have s1: "storesNoExpired e c c1" using ensureAuthState_stores [of e c] en by simp
  obtain res c2 where af: "authFetch e m ?url current c1 = (res, c2)"
    by (cases "authFetch e m ?url current c1")
  have h2: "holdsCredential e c2" using af h1 by (rule authFetch_holds)
  have s2: "storesNoExpired e c c2"
    using s1 authFetch_stores [OF af good] by (rule storesNoExpired_trans)
  show ?thesis
  proof (cases res)
    case None
    then show ?thesis using apiFetch_rejected [OF en, of m input c2 redirect] af h2 s2 by simp
  next
    case (Some a)
    obtain r st where a: "a = (r, st)" by (cases a)
    note af' = af [unfolded Some a]
    define c3 where "c3 = (if credentialChanged st current then snd (persistState e st c2) else c2)"
    have h3: "holdsCredential e c3" unfolding c3_def using h2 by (simp add: persistState_holds)
    have s3: "storesNoExpired e c c3"
      unfolding c3_def using s2 persistState_stores [of e c2 st]
      by (auto intro: storesNoExpired_trans)
    show ?thesis
    proof (cases "http_status r \<noteq> 401 \<or> auth_mode current \<noteq> AuthCustom")
      case True
      show ?thesis using apiFetch_passed [OF en af' True, of redirect] h3 s3
        by (simp add: c3_def)
    next
      case False
      then have st: "http_status r = 401" and cu: "auth_mode current = AuthCustom" by simp_all
      obtain cand c4 where tr: "tryAutoRefreshAuth e current c3 = (cand, c4)"
        by (cases "tryAutoRefreshAuth e current c3")
      have k4: "storage_v3 c4 = storage_v3 c3" "authRef c4 = authRef c3"
        using tryAutoRefreshAuth_keeps [of e current c3] tr by simp_all
      have s4: "storesNoExpired e c c4"
        using s3 k4 by (auto simp add: storesNoExpired_def)
      show ?thesis
      proof (cases cand)
        case None
        show ?thesis
          using apiFetch_no_candidate [OF en af' st cu c3_def tr [unfolded None], of redirect]
                authFailed_holds [of e redirect current "hasRefreshToken current" r c4]
                authFailed_stores [of e c4 redirect current "hasRefreshToken current" r] s4
          by (auto intro: storesNoExpired_trans)
      next
        case (Some rc)
        let ?refreshed = "fst (persistState e rc c4)"
        let ?c5 = "(snd (persistState e rc c4))\<lparr>authFailureReason := None\<rparr>"
        have g5: "\<not> expiredWithoutRefresh e ?refreshed" by (rule persistState_not_expired)
        have h5: "holdsCredential e ?c5"
          using persistState_holds [of e rc c4] by (simp add: holdsCredential_def)
        have s5: "storesNoExpired e c ?c5"
          using s4 persistState_stores [of e c4 rc]
          by (auto simp add: storesNoExpired_def)
        obtain res2 c6 where af2: "authFetch e m ?url ?refreshed ?c5 = (res2, c6)"
          by (cases "authFetch e m ?url ?refreshed ?c5")
        have h6: "holdsCredential e c6" using af2 h5 by (rule authFetch_holds)
        have s6: "storesNoExpired e c c6"
          using s5 authFetch_stores [OF af2 g5] by (rule storesNoExpired_trans)
        note eq = apiFetch_candidate [OF en af' st cu c3_def tr [unfolded Some], of redirect, unfolded af2]
        show ?thesis
        proof (cases res2)
          case None
          then show ?thesis using eq h6 s6 by simp
        next
          case (Some b)
          obtain retry st2 where b: "b = (retry, st2)" by (cases b)
          show ?thesis
          proof (cases "ok retry \<or> http_status retry \<noteq> 401")
            case True
            then show ?thesis
              using eq Some b persistState_holds [of e st2 c6] persistState_stores [of e c6 st2] s6
              by (auto intro: storesNoExpired_trans)
          next
            case False
            then show ?thesis
              using eq Some b authFailed_holds [of e redirect current True retry c6]
                    authFailed_stores [of e c6 redirect current True retry] s6
              by (auto intro: storesNoExpired_trans)
          qed
        qed
      qed
    qed
  qed
qed

subsection \<open>Evaluating the code at the concrete inputs\<close>

subsection \<open>The requests of one call\<close>

lemma load_sent: "sent (snd (loadClientAuthState e c)) = sent c"
  by (simp add: loadClientAuthState_def clearClientAuthState_def split: option.splits stored.splits)

lemma ensureAuthState_sent: "sent (snd (ensureAuthState e c)) = sent c"
proof (cases "authRef c")
  case None
  obtain loaded c1 where l: "loadClientAuthState e c = (loaded, c1)"
    by (cases "loadClientAuthState e c")
  have "sent c1 = sent c" using load_sent [of e c] l by simp
  then show ?thesis using None l
    by (simp add: ensureAuthState_def getOrCreateClientAuthState_def saveClientAuthState_def
          split: option.splits prod.splits)
next
  case (Some current)
  then show ?thesis by (simp add: ensureAuthState_def persistState_result)
qed

lemma refreshPayloads_sends:
  "sent (snd (refreshPayloads e current endpoint (p # ps) c)) \<noteq> sent c"
  using refreshPayloads_facts [of e current endpoint "p # ps" c] by auto

lemma tryAutoRefreshAuth_sends:
  assumes "hasRefreshToken current"
  shows "sent (snd (tryAutoRefreshAuth e current c)) \<noteq> sent c"
proof -
  let ?rest = "[''/api/auth/token/refresh'', ''/api/auth/session/refresh'', ''/api/auth/login/refresh'']"
  obtain res c1 where rp: "refreshPayloads e current ''/api/auth/refresh'' [0, 1, 2] c = (res, c1)"
    by (cases "refreshPayloads e current ''/api/auth/refresh'' [0, 1, 2] c")
  from refreshPayloads_facts [of e current "''/api/auth/refresh''" "[0, 1, 2]" c] obtain a1
    where a1: "c1 = c\<lparr>sent := sent c @ a1\<rparr>" using rp by auto
  have n1: "a1 \<noteq> []"
    using refreshPayloads_sends [of e current "''/api/auth/refresh''" 0 "[1, 2]" c] rp a1 by auto
  from refreshEndpoints_facts [of e current ?rest c1] obtain a2
    where a2: "snd (refreshEndpoints e current ?rest c1) = c1\<lparr>sent := sent c1 @ a2\<rparr>" by blast
  show ?thesis
  proof (cases res)
    case None
    then have "snd (tryAutoRefreshAuth e current c) = snd (refreshEndpoints e current ?rest c1)"
      using assms rp by (simp add: tryAutoRefreshAuth_def)
    then show ?thesis using a2 a1 n1 by simp
  next
    case (Some s)
    then have "snd (tryAutoRefreshAuth e current c) = c1"
      using assms rp by (simp add: tryAutoRefreshAuth_def)
    then show ?thesis using a1 n1 by simp
  qed
qed

lemma authFetch_outcome:
  assumes "authFetch e m url current c = (res, c')"
  shows "case net e (length (sent c)) (Request m url current) of
           NetworkError \<Rightarrow> res = None
         | Reply r \<Rightarrow> (\<exists>st. res = Some (r, st))"
  using assms by (auto simp add: authFetch_def Let_def split: outcome.splits prod.splits)

subsection \<open>The operations of the hook\<close>

lemma login_not_expired:
  "login e payload c = (Inr saved, c') \<Longrightarrow> \<not> expiredWithoutRefresh e saved \<and> holdsCredential e c'"
  using persistState_not_expired persistState_holds
  by (auto simp add: login_def split: sum.splits prod.splits)
     (metis fst_conv snd_conv)+

lemma logout_not_expired:
  "\<not> expiredWithoutRefresh e (fst (logout e c)) \<and> holdsCredential e (snd (logout e c))"
  by (simp add: logout_def persistState_not_expired persistState_holds)

lemma applyAccessToken_not_expired:
  "\<not> expiredWithoutRefresh e (fst (applyAccessToken e token c))
   \<and> holdsCredential e (snd (applyAccessToken e token c))"
  by (cases "ensureAuthState e c")
     (simp add: applyAccessToken_def Let_def logout_not_expired persistState_not_expired persistState_holds)

lemma rotateSession_not_expired:
  "\<not> expiredWithoutRefresh e (fst (rotateSession e c)) \<and> holdsCredential e (snd (rotateSession e c))"
  by (cases "ensureAuthState e c")
     (simp add: rotateSession_def persistState_not_expired persistState_holds)

lemma cred_expired_is: "expiredWithoutRefresh env_clock cred_expired"
  by (simp add: expiredWithoutRefresh_def cred_expired_def cred_custom_def isAuthExpired_def
        env_clock_def env_down_def env_replying_def hasRefreshToken_def u16_def)

subsection \<open>Evaluation\<close>

lemmas eval_defs = 
      fetch_def apiFetch_def ensureAuthState_def env_replying_def env_down_def page0_def client0_def
      getOrCreateClientAuthState_def loadClientAuthState_def saveClientAuthState_def createGuestAuthState_def
      authFetch_def syncAuthStateFromResponse_def ok_def toAbsoluteInput_def API_BASE_URL_def u16_def toLowerCase_def
      js_get_def isRecord_def toSafeNumber_def toSafeString_def js_or_def js_nullish_def truthy_def trim_def
      isWhiteSpace_def normalizeStatus_def Let_def authJson_def callInterviewApi_def
      expiredWithoutRefresh_def persistState_def credentialChanged_def numberOf_def overlaid_def

lemmas start_defs = startSession_def jobTextOf_def jdValueOf_def positionValueOf_def
     resumeValueOf_def options_backend_def reply_created_def
     remoteStartRecord_def extractSessionId_def toQuestionList_def toInterviewQuestion_def decimal.simps parseInt10_def isDigit_def
     setCurrentSession_def upsertRecord_def

lemmas chain_defs = reconciled_def downgraded_def started_remote_def submitAnswer_def eval_defs start_defs questionAt_def
       applySessionPatch_def stamped_def spread_def syncRemoteSessions_def reply_history_def normalizeRemoteSession_def mergeRemote_def

subsection \<open>A remote side that answers\<close>

lemma fetch_replying:
  "fst (fetch (env_replying reply) m i p) = Some \<lparr>http_status = 200, body = reply, x_session_id = None\<rparr>"
proof -
  obtain current c1 where en: "ensureAuthState (env_replying reply) (auth p) = (current, c1)"
    by (cases "ensureAuthState (env_replying reply) (auth p)")
  show ?thesis
    using en
    by (simp add: fetch_def apiFetch_def authFetch_def syncAuthStateFromResponse_def Let_def
          env_replying_def split: prod.splits)
qed

lemma callInterviewApi_replying:
  "fst (callInterviewApi (env_replying reply) (c # cs) p) = Inr reply"
proof -
  obtain path m where c: "c = (path, m)" by (cases c)
  obtain res p1 where f: "fetch (env_replying reply) m (API_BASE_URL @ path) p = (res, p1)"
    by (cases "fetch (env_replying reply) m (API_BASE_URL @ path) p")
  have "res = Some \<lparr>http_status = 200, body = reply, x_session_id = None\<rparr>"
    using fetch_replying [of reply m "API_BASE_URL @ path" p] f by simp
  then show ?thesis using c f by (simp add: callInterviewApi_def ok_def)
qed

subsection \<open>A start while the remote side is down\<close>

lemma started_down_local:
  "\<exists>s. currentSession (startSession env_down options_backend page_answering) = Some s \<and> mode s = Local"
proof -
  have jd: "jobTextOf options_backend page_answering \<noteq> []" by (simp add: jobText_backend u16_def)
  show ?thesis
    using startSession_down [of env_down options_backend page_answering, OF env_down_fails jd]
    by (simp add: fallbackRecord_invariants)
qed

text \<open>
  When the current session is local, submitAnswer, advance, pause, resume and finish leave
  the auth client as it was, so no request is sent, and the current session stays local.
\<close>

lemma local_operations_send_nothing:
  "currentSession p = Some cur \<and> mode cur = Local \<longrightarrow>
     auth (run oper e p) = auth p
     \<and> sent (auth (run oper e p)) = sent (auth p)
     \<and> (\<exists>s'. currentSession (run oper e p) = Some s' \<and> mode s' = Local)"
proof
  assume a: "currentSession p = Some cur \<and> mode cur = Local"
  then have cur: "currentSession p = Some cur" and loc: "mode cur = Local" by simp_all
  have au: "auth (run oper e p) = auth p" using cur loc by (rule run_local_auth)
  have "\<exists>s'. currentSession (run oper e p) = Some s' \<and> mode s' = Local"
    using run_patches [OF cur, of oper e]
  proof
    assume "currentSession (run oper e p) = Some cur"
    then show ?thesis using loc by simp
  next
    assume "\<exists>s'. currentSession (run oper e p) = Some s' \<and> (step e)\<^sup>+\<^sup>+ cur s'"
    then obtain s' where s': "currentSession (run oper e p) = Some s'" and tr: "(step e)\<^sup>+\<^sup>+ cur s'"
      by blast
    from patches_local [OF tr loc] s' show ?thesis by simp
  qed
  then show "auth (run oper e p) = auth p
     \<and> sent (auth (run oper e p)) = sent (auth p)
     \<and> (\<exists>s'. currentSession (run oper e p) = Some s' \<and> mode s' = Local)"
    using au by simp
qed

subsection \<open>When every request fails, whatever the failure\<close>

lemma apiFetch_reply:
  assumes ap: "fst (apiFetch e redirect m input c) = Some r"
  shows "\<exists>n req. net e n req = Reply r"
proof -
  let ?url = "toAbsoluteInput API_BASE_URL input"
  obtain current c1 where en: "ensureAuthState e c = (current, c1)"
    by (cases "ensureAuthState e c")
  obtain res c2 where af: "authFetch e m ?url current c1 = (res, c2)"
    by (cases "authFetch e m ?url current c1")
  show ?thesis
  proof (cases res)
    case None
    then show ?thesis using apiFetch_rejected [OF en, of m input c2 redirect] af ap by simp
  next
    case (Some a)
    obtain r0 st where a: "a = (r0, st)" by (cases a)
    note af' = af [unfolded Some a]
    have n0: "net e (length (sent c1)) (Request m ?url current) = Reply r0"
      using authFetch_facts [OF af'] by simp
    define c3 where "c3 = (if credentialChanged st current then snd (persistState e st c2) else c2)"
    show ?thesis
    proof (cases "http_status r0 \<noteq> 401 \<or> auth_mode current \<noteq> AuthCustom")
      case True
      have "r = r0" using apiFetch_passed [OF en af' True, of redirect] ap by simp
      then show ?thesis using n0 by blast
    next
      case False
      then have un: "http_status r0 = 401" and cu: "auth_mode current = AuthCustom" by simp_all
      obtain cand c4 where tr: "tryAutoRefreshAuth e current c3 = (cand, c4)"
        by (cases "tryAutoRefreshAuth e current c3")
      show ?thesis
      proof (cases cand)
        case None
        have "r = r0"
          using apiFetch_no_candidate [OF en af' un cu c3_def tr [unfolded None], of redirect] ap
          by (simp add: authFailed_result)
        then show ?thesis using n0 by blast
      next
        case (Some rc)
        let ?saved = "fst (persistState e rc c4)"
        let ?c5 = "(snd (persistState e rc c4))\<lparr>authFailureReason := None\<rparr>"
        obtain res2 c6 where af2: "authFetch e m ?url ?saved ?c5 = (res2, c6)"
          by (cases "authFetch e m ?url ?saved ?c5")
        note eq = apiFetch_candidate [OF en af' un cu c3_def tr [unfolded Some], of redirect, unfolded af2]
        show ?thesis
        proof (cases res2)
          case None
          then show ?thesis using eq ap by simp
        next
          case inner: (Some b)
          obtain retry st2 where b: "b = (retry, st2)" by (cases b)
          have n2: "net e (length (sent ?c5)) (Request m ?url ?saved) = Reply retry"
            using authFetch_facts [OF af2 [unfolded inner b]] by simp
          have "r = retry" using eq ap inner b by (simp add: authFailed_result split: if_splits)
          then show ?thesis using n2 by blast
        qed
      qed
    qed
  qed
qed

lemma callCandidates_failing:
  assumes "everyRequestFails e"
  shows "\<exists>err. fst (callCandidates e cs le p) = Inl err"
proof (induction cs arbitrary: le p)
  case Nil
  then show ?case by simp
next
  case (Cons a cs)
  obtain path m where a: "a = (path, m)" by (cases a)
  obtain r p1 where f: "fetch e m (API_BASE_URL @ path) p = (r, p1)"
    by (cases "fetch e m (API_BASE_URL @ path) p")
  show ?case
  proof (cases r)
    case None
    then show ?thesis using Cons.IH by (simp add: a f)
  next
    case (Some reply)
    have "fst (apiFetch e True m (API_BASE_URL @ path) (auth p)) = Some reply"
      using f Some by (simp add: fetch_def split: prod.splits)
    then obtain n req where "net e n req = Reply reply" using apiFetch_reply by blast
    then have "\<not> ok reply" using assms unfolding everyRequestFails_def
      by (metis outcome.simps(5))
    then show ?thesis using Cons.IH Some by (simp add: a f)
  qed
qed

lemma callInterviewApi_failing:
  assumes "everyRequestFails e"
  shows "\<exists>err. fst (callInterviewApi e cs p) = Inl err"
  using callCandidates_failing [OF assms] by (simp add: callInterviewApi_def)

lemma env_failing_fails: "everyRequestFails env_failing"
  by (simp add: everyRequestFails_def env_failing_def ok_def)

subsection \<open>The local advance and the index\<close>

lemma advance_index:
  assumes "indexInvariant s" and "isSafeInteger (currentIndex s)"
  shows "indexInvariant (advanced e s)"
proof (cases "currentIndex s \<ge> of_nat (length (questions s)) - 1")
  case True
  then show ?thesis using assms(1) by (simp add: indexInvariant_def)
next
  case False
  then have "currentIndex s + 1 < of_nat (length (questions s))" by simp
  then show ?thesis using False js_add_safe [OF assms(2)] by (simp add: indexInvariant_def)
qed

lemma started_remote_current:
  "\<exists>cur. currentSession started_remote = Some cur \<and> mode cur = Remote \<and> status cur = Active
         \<and> sessionId cur = u16 ''7'' \<and> answers cur = [] \<and> length (questions cur) = 2"
  by (simp add: started_remote_def eval_defs start_defs spread_def)

lemma started_at_last_questions:
  "\<exists>cur. currentSession started_at_last = Some cur \<and> mode cur = Remote \<and> status cur = Active
         \<and> map q_id (questions cur) = [u16 ''q-1'', u16 ''q-2'']"
  by (simp add: started_at_last_def eval_defs start_defs reply_created_at_last_def spread_def)

text \<open>
  A start accepts any index the remote side reports. With the index written
  \<open>0.9999999999999999\<close> and two questions, the local advance (here after a failed
  request) leaves index 2, which is the number of questions.
\<close>

lemma advance_from_fraction:
  "map_option (\<lambda>s. (mode s, length (questions s), currentIndex s, indexInvariant s))
     (currentSession started_at_fraction)
     = Some (Remote, 2, 9007199254740991 / 9007199254740992, True)
   \<and> map_option (\<lambda>s. (mode s, length (questions s), currentIndex s, indexInvariant s))
       (currentSession (nextQuestion env_down started_at_fraction))
     = Some (Local, 2, 2, False)"
  by (simp add: started_at_fraction_def reply_created_fraction_def eval_defs start_defs spread_def
        nextQuestion_def advanceLocally_def applySessionPatch_def stamped_def indexInvariant_def
        js_add_rounds_up)

lemmas auth_eval_defs =
  ensureAuthState_def authFetch_def syncAuthStateFromResponse_def expiredWithoutRefresh_def
  hasRefreshToken_def isAuthExpired_def cred_custom_def client_custom_def client0_def
  cred_no_refresh_def client_no_refresh_def reply_401_def reply_status_def
  env_unauthorized_def env_refreshing_def env_down_def env_replying_def
  credentialChanged_def tryAutoRefreshAuth_def Let_def ok_def
  extractExpiresAtFromPayload_def isRecord_def js_get_def trimmedString_def u16_def
  trim_def isWhiteSpace_def createGuestAuthState_def js_nullish_def js_or_def truthy_def

section \<open>The claims\<close>




text \<open>
  C2, as amended. Take a session whose answers map is well formed (no empty answer). After
  submitAnswer, advance, pause, resume or finish, the current session is either the same
  record or one whose \<open>answeredCount\<close> equals the number of ids with a non-empty answer,
  and its answers are again well formed. A start that yields a local session yields one
  with no answers and \<open>answeredCount\<close> 0. (A start that adopts a remote reply, and the
  records read from storage or from the remote history, carry the reported count.)
\<close>

theorem C2_answered_count_after_patching:
  "(currentSession p = Some cur \<and> answersWellFormed cur \<longrightarrow>
      currentSession (run oper e p) = Some cur
      \<or> (\<exists>s'. currentSession (run oper e p) = Some s' \<and> answersWellFormed s' \<and> countInvariant s'))
   \<and> (jobTextOf options p \<noteq> [] \<longrightarrow>
      (\<exists>s. currentSession (startSession e options p) = Some s
           \<and> (mode s = Local \<longrightarrow> answersWellFormed s \<and> countInvariant s)))"
proof (intro conjI impI)
  assume a: "currentSession p = Some cur \<and> answersWellFormed cur"
  then have cur: "currentSession p = Some cur" and wf: "answersWellFormed cur" by simp_all
  from run_patches [OF cur, of oper e]
  show "currentSession (run oper e p) = Some cur
      \<or> (\<exists>s'. currentSession (run oper e p) = Some s' \<and> answersWellFormed s' \<and> countInvariant s')"
  proof
    assume "currentSession (run oper e p) = Some cur"
    then show ?thesis by simp
  next
    assume "\<exists>s'. currentSession (run oper e p) = Some s' \<and> (step e)\<^sup>+\<^sup>+ cur s'"
    then obtain s' where s': "currentSession (run oper e p) = Some s'" and tr: "(step e)\<^sup>+\<^sup>+ cur s'"
      by blast
    from patches_count [OF tr wf] s' show ?thesis by simp
  qed
next
  assume jd: "jobTextOf options p \<noteq> []"
  from startSession_current [OF jd, of e]
  show "\<exists>s. currentSession (startSession e options p) = Some s
           \<and> (mode s = Local \<longrightarrow> answersWellFormed s \<and> countInvariant s)"
  proof (elim disjE exE conjE)
    assume "currentSession (startSession e options p)
         = Some (fallbackRecord e (positionValueOf options p) (jobTextOf options p) (resumeValueOf options p)
                   (pageContextKey p))"
    then show ?thesis by (simp add: fallbackRecord_invariants)
  next
    fix data
    assume c: "currentSession (startSession e options p)
                = remoteStartRecord e data (positionValueOf options p) (jobTextOf options p)
                    (resumeValueOf options p) (pageContextKey p)"
       and n: "remoteStartRecord e data (positionValueOf options p) (jobTextOf options p)
                    (resumeValueOf options p) (pageContextKey p) \<noteq> None"
    from n obtain s where s: "remoteStartRecord e data (positionValueOf options p) (jobTextOf options p)
                    (resumeValueOf options p) (pageContextKey p) = Some s" by blast
    from remoteStartRecord_mode [OF s] c s show ?thesis by simp
  qed
qed

theorem C2_witness:
  "currentSession page_answering = Some session_local
   \<and> answersWellFormed session_local
   \<and> jobTextOf options_backend page_answering \<noteq> []
   \<and> (currentSession (run SubmitAnswer env_down page_answering) = Some session_local
      \<or> (\<exists>s'. currentSession (run SubmitAnswer env_down page_answering) = Some s'
               \<and> answersWellFormed s' \<and> countInvariant s'))
   \<and> (\<exists>s. currentSession (startSession env_down options_backend page_answering) = Some s
           \<and> mode s = Local \<and> answersWellFormed s \<and> countInvariant s)"
proof -
  have h1: "currentSession page_answering = Some session_local"
    by (simp add: page_answering_def)
  have h2: "answersWellFormed session_local"
    by (simp add: session_local_def fallbackRecord_invariants)
  have h3: "jobTextOf options_backend page_answering \<noteq> []"
    by (simp add: jobTextOf_def jdValueOf_def options_backend_def trim_def isWhiteSpace_def u16_def)
  show ?thesis
    using C2_answered_count_after_patching
            [of page_answering session_local SubmitAnswer env_down options_backend] h1 h2 h3
          started_down_local
    by auto
qed

text \<open>
  C2 as stated fails for the reconciliation of remote history: the record stored for a
  history item that reports \<open>answeredCount\<close> 2 has no answers at all.
\<close>

theorem C2_history_count_counterexample:
  "map (\<lambda>r. (sessionId r, answers r, nonEmptyAnswers r, answeredCount r, countInvariant r))
     (records (syncRemoteSessions (env_replying reply_history_progress) page0))
   = [(u16 ''abc'', [], 0, 2, False)]"
  by (simp add: eval_defs syncRemoteSessions_def reply_history_progress_def normalizeRemoteSession_def
      mergeRemote_def countInvariant_def nonEmptyAnswers_def)

text \<open>
  C3. Whatever the status of the current session (in progress or paused in particular),
  finish ends with the session completed and a review present. When the session is
  local, or every request fails (rejected or answered with an error status), or the
  finish call fails for any reason, the session is local and the review is the local
  fallback computed from its answers, its number of questions and its position. When the
  session is remote and the finish call succeeds, the session stays remote and the review
  is the one in the reply, or the local fallback when the reply carries none.
\<close>

theorem C3_finish_always_completes:
  "currentSession p = Some cur \<longrightarrow>
     (\<exists>s fb. currentSession (endSession e p) = Some s \<and> status s = Finished \<and> feedback s = Some fb
        \<and> ((mode cur = Local \<or> everyRequestFails e
             \<or> (\<exists>err. fst (callInterviewApi e (finishCandidates cur) (p\<lparr>error := []\<rparr>)) = Inl err)) \<longrightarrow>
             mode s = Local
             \<and> fb = buildLocalFeedback (answers cur) (length (questions cur)) (position cur))
        \<and> (\<forall>data. mode cur = Remote
                  \<and> fst (callInterviewApi e (finishCandidates cur) (p\<lparr>error := []\<rparr>)) = Inr data \<longrightarrow>
             mode s = Remote
             \<and> fb = (case toInterviewFeedback data of
                       Some parsed \<Rightarrow> parsed
                     | None \<Rightarrow> buildLocalFeedback (answers cur) (length (questions cur)) (position cur))))"
proof
  assume cur: "currentSession p = Some cur"
  let ?call = "fst (callInterviewApi e (finishCandidates cur) (p\<lparr>error := []\<rparr>))"
  let ?local = "buildLocalFeedback (answers cur) (length (questions cur)) (position cur)"
  let ?goal = "\<exists>s fb. currentSession (endSession e p) = Some s \<and> status s = Finished \<and> feedback s = Some fb
        \<and> ((mode cur = Local \<or> everyRequestFails e \<or> (\<exists>err. ?call = Inl err)) \<longrightarrow>
             mode s = Local \<and> fb = ?local)
        \<and> (\<forall>data. mode cur = Remote \<and> ?call = Inr data \<longrightarrow>
             mode s = Remote
             \<and> fb = (case toInterviewFeedback data of Some parsed \<Rightarrow> parsed | None \<Rightarrow> ?local))"
  from endSession_current [OF cur, of e, folded finishCandidates_def] show ?goal
  proof (elim disjE conjE exE)
    assume m: "mode cur \<noteq> Remote"
       and c: "currentSession (endSession e p) = Some (stamped e (cur\<lparr>status := Finished, feedback := Some ?local\<rparr>))"
    from m have "mode cur = Local" by (cases "mode cur") simp_all
    then show ?goal using c by simp
  next
    fix err
    assume r: "?call = Inl err"
       and c: "currentSession (endSession e p)
            = Some (stamped e ((stamped e (cur\<lparr>mode := Local\<rparr>))\<lparr>status := Finished, feedback := Some ?local\<rparr>))"
    then show ?goal by simp
  next
    fix data
    assume m: "mode cur = Remote"
       and r: "?call = Inr data"
       and c: "currentSession (endSession e p)
            = Some (stamped e (cur\<lparr>status := Finished,
                       feedback := (case toInterviewFeedback data of
                                        Some parsed \<Rightarrow> Some parsed
                                      | None \<Rightarrow> Some ?local)\<rparr>))"
    have up: "\<not> everyRequestFails e"
    proof
      assume "everyRequestFails e"
      then have "\<exists>err. ?call = Inl err" by (rule callInterviewApi_failing)
      with r show False by simp
    qed
    show ?goal using c m r up by (cases "toInterviewFeedback data") simp_all
  qed
qed

theorem C3_witness:
  "currentSession page_answering = Some session_local \<and> mode session_local = Local
   \<and> (\<exists>s. currentSession (endSession env_down page_answering) = Some s \<and> status s = Finished
          \<and> mode s = Local
          \<and> feedback s = Some (buildLocalFeedback (answers session_local) (length (questions session_local))
                                 (position session_local)))
   \<and> everyRequestFails env_failing
   \<and> (\<exists>cur s. currentSession started_remote = Some cur \<and> mode cur = Remote
          \<and> currentSession (endSession env_failing started_remote) = Some s \<and> status s = Finished
          \<and> mode s = Local
          \<and> feedback s = Some (buildLocalFeedback (answers cur) (length (questions cur)) (position cur)))
   \<and> (\<exists>cur s fb. currentSession started_remote = Some cur \<and> mode cur = Remote
          \<and> fst (callInterviewApi (env_replying reply_review) (finishCandidates cur)
                    (started_remote\<lparr>error := []\<rparr>)) = Inr reply_review
          \<and> currentSession (endSession (env_replying reply_review) started_remote) = Some s
          \<and> status s = Finished \<and> mode s = Remote \<and> feedback s = Some fb
          \<and> summary fb = u16 ''Solid answers'' \<and> score fb = Some 88)
   \<and> (\<exists>cur s. currentSession started_remote = Some cur
          \<and> toInterviewFeedback JNull = None
          \<and> currentSession (endSession (env_replying JNull) started_remote) = Some s
          \<and> status s = Finished \<and> mode s = Remote
          \<and> feedback s = Some (buildLocalFeedback (answers cur) (length (questions cur)) (position cur)))"
proof -
  have h1: "currentSession page_answering = Some session_local"
    by (simp add: page_answering_def)
  have h2: "mode session_local = Local"
    by (simp add: session_local_def fallbackRecord_invariants)
  obtain cur where k1: "currentSession started_remote = Some cur" and k2: "mode cur = Remote"
    using started_remote_current by blast
  have k3: "fst (callInterviewApi (env_replying reply) (finishCandidates cur) (started_remote\<lparr>error := []\<rparr>))
              = Inr reply" for reply
    unfolding finishCandidates_def by (rule callInterviewApi_replying)
  have k4: "toInterviewFeedback reply_review
              = Some \<lparr>summary = u16 ''Solid answers'', strengths = [], improvements = [], score = Some 88\<rparr>"
           "toInterviewFeedback JNull = None"
    by (simp_all add: toInterviewFeedback_def reply_review_def isRecord_def js_get_def js_or_def
          js_nullish_def truthy_def toSafeString_def toSafeNumber_def toStringArray_def u16_def trim_def
          isWhiteSpace_def Let_def)
  have a: "\<exists>s. currentSession (endSession env_down page_answering) = Some s \<and> status s = Finished
          \<and> mode s = Local
          \<and> feedback s = Some (buildLocalFeedback (answers session_local) (length (questions session_local))
                                 (position session_local))"
    using C3_finish_always_completes [of page_answering session_local env_down] h1 h2 by auto
  have b: "\<exists>s. currentSession (endSession env_failing started_remote) = Some s \<and> status s = Finished
          \<and> mode s = Local
          \<and> feedback s = Some (buildLocalFeedback (answers cur) (length (questions cur)) (position cur))"
    using C3_finish_always_completes [of started_remote cur env_failing] k1 env_failing_fails by auto
  have c: "\<exists>s fb. currentSession (endSession (env_replying reply_review) started_remote) = Some s
          \<and> status s = Finished \<and> mode s = Remote \<and> feedback s = Some fb
          \<and> summary fb = u16 ''Solid answers'' \<and> score fb = Some 88"
    using C3_finish_always_completes [of started_remote cur "env_replying reply_review"] k1 k2 k3 k4(1)
    by auto
  have d: "\<exists>s. currentSession (endSession (env_replying JNull) started_remote) = Some s
          \<and> status s = Finished \<and> mode s = Remote
          \<and> feedback s = Some (buildLocalFeedback (answers cur) (length (questions cur)) (position cur))"
    using C3_finish_always_completes [of started_remote cur "env_replying JNull"] k1 k2 k3 k4(2)
    by auto
  show ?thesis using h1 h2 a b c d k1 k2 k3 k4(2) env_failing_fails by blast
qed

text \<open>
  C4. The claim holds of the five operations on the current session (lemma
  \<open>local_operations_send_nothing\<close>) and breaks at history reconciliation. A session is
  started remotely and is downgraded to local when submitting an answer fails; the store
  holds it as local with its answer. Reconciliation then finds the session in the remote
  history and lays the history row over the stored record: the stored record's mode is
  remote again and its answers are gone, while the same merge keeps its questions and its
  review, and the store's own \<open>upsertRecord\<close> merges the answers.
\<close>

theorem C4_reconciliation_resets_local_mode:
  "map (\<lambda>s. (sessionId s, mode s, map snd (answers s))) (records downgraded)
     = [(u16 ''7'', Local, [u16 ''I cache hot keys''])]
   \<and> map_option mode (currentSession downgraded) = Some Local
   \<and> map (\<lambda>s. (sessionId s, mode s, map snd (answers s))) (records reconciled)
     = [(u16 ''7'', Remote, [])]
   \<and> length (sent (auth reconciled)) = length (sent (auth downgraded)) + 1"
  by (simp add: chain_defs)

text \<open>
  C5, as amended. If \<open>currentIndex < max(1, number of questions)\<close> holds of the current
  session, it holds after submitAnswer, pause, resume and finish, and after advance when
  the index is a whole number (a safe integer); it holds of the session of a start that
  yields a local session; and the patch that adopts a remote reply establishes it,
  whatever the reply's index. (Nothing is said of advance on an index that is not a whole
  number, of a start that adopts a remote index, nor of records read from storage or from
  the remote history.)
\<close>

theorem C5_index_within_questions_after_patching:
  "(currentSession p = Some cur \<and> indexInvariant cur
      \<and> (oper = Advance \<longrightarrow> isSafeInteger (currentIndex cur)) \<longrightarrow>
      (\<exists>s'. currentSession (run oper e p) = Some s' \<and> indexInvariant s'))
   \<and> (jobTextOf options p \<noteq> [] \<longrightarrow>
      (\<exists>s. currentSession (startSession e options p) = Some s \<and> (mode s = Local \<longrightarrow> indexInvariant s)))
   \<and> indexInvariant (stamped e ((adoptRemoteProgress maybeNext remoteIndex s0)\<lparr>status := st\<rparr>))"
proof (intro conjI impI)
  have adopt: "indexInvariant (stamped e ((adoptRemoteProgress mq ri s)\<lparr>status := st'\<rparr>))" for mq ri s st'
  proof -
    have "currentIndex (adoptRemoteProgress mq ri s)
       \<le> max (of_nat (length (questions (adoptRemoteProgress mq ri s))) - 1) 0"
      by (rule adoptRemoteProgress_index)
    then show ?thesis by (simp add: indexInvariant_def max_def split: if_splits)
  qed
  show "indexInvariant (stamped e ((adoptRemoteProgress maybeNext remoteIndex s0)\<lparr>status := st\<rparr>))"
    by (rule adopt)
  assume a: "currentSession p = Some cur \<and> indexInvariant cur
      \<and> (oper = Advance \<longrightarrow> isSafeInteger (currentIndex cur))"
  then have cur: "currentSession p = Some cur" and inv: "indexInvariant cur"
    and safe: "oper = Advance \<Longrightarrow> isSafeInteger (currentIndex cur)" by simp_all
  show "\<exists>s'. currentSession (run oper e p) = Some s' \<and> indexInvariant s'"
  proof (cases "oper = Advance")
    case True
    note whole = safe [OF True]
    have local: "indexInvariant (advanced e cur)" using inv whole by (rule advance_index)
    have "indexInvariant (stamped e (cur\<lparr>mode := Local\<rparr>))" using inv by (simp add: indexInvariant_def)
    moreover have "isSafeInteger (currentIndex (stamped e (cur\<lparr>mode := Local\<rparr>)))" using whole by simp
    ultimately have failed: "indexInvariant (advanced e (stamped e (cur\<lparr>mode := Local\<rparr>)))"
      by (rule advance_index)
    from nextQuestion_current [OF cur, of e] have "\<exists>s'. currentSession (nextQuestion e p) = Some s' \<and> indexInvariant s'"
    proof (elim disjE conjE exE)
      assume "currentSession (nextQuestion e p) = Some cur"
      then show ?thesis using inv by simp
    next
      assume "currentSession (nextQuestion e p) = Some (advanced e cur)"
      then show ?thesis using local by simp
    next
      assume "currentSession (nextQuestion e p) = Some (advanced e (stamped e (cur\<lparr>mode := Local\<rparr>)))"
      then show ?thesis using failed by simp
    next
      fix data
      assume "currentSession (nextQuestion e p)
                    = Some (stamped e ((adoptRemoteProgress (nextQuestionOf e data)
                                (toSafeNumber (js_get (sessionPayloadOf data) ''currentIndex'')) cur)
                               \<lparr>status :=
                                  normalizeStatus
                                    (js_or (js_get (sessionPayloadOf data) ''status'') (statusText (status cur)))\<rparr>))"
      then show ?thesis using adopt by simp
    qed
    then show ?thesis using True by simp
  next
    case False
    from run_patches_other [OF cur False, of e] show ?thesis
    proof
      assume "currentSession (run oper e p) = Some cur"
      then show ?thesis using inv by simp
    next
      assume "\<exists>s'. currentSession (run oper e p) = Some s' \<and> (patch e)\<^sup>+\<^sup>+ cur s'"
      then obtain s' where s': "currentSession (run oper e p) = Some s'" and tr: "(patch e)\<^sup>+\<^sup>+ cur s'"
        by blast
      from patches_index [OF tr inv] s' show ?thesis by simp
    qed
  qed
next
  assume jd: "jobTextOf options p \<noteq> []"
  from startSession_current [OF jd, of e]
  show "\<exists>s. currentSession (startSession e options p) = Some s \<and> (mode s = Local \<longrightarrow> indexInvariant s)"
  proof (elim disjE exE conjE)
    assume "currentSession (startSession e options p)
         = Some (fallbackRecord e (positionValueOf options p) (jobTextOf options p) (resumeValueOf options p)
                   (pageContextKey p))"
    then show ?thesis by (simp add: fallbackRecord_invariants)
  next
    fix data
    assume c: "currentSession (startSession e options p)
                = remoteStartRecord e data (positionValueOf options p) (jobTextOf options p)
                    (resumeValueOf options p) (pageContextKey p)"
       and n: "remoteStartRecord e data (positionValueOf options p) (jobTextOf options p)
                    (resumeValueOf options p) (pageContextKey p) \<noteq> None"
    from n obtain s where s: "remoteStartRecord e data (positionValueOf options p) (jobTextOf options p)
                    (resumeValueOf options p) (pageContextKey p) = Some s" by blast
    from remoteStartRecord_mode [OF s] c s show ?thesis by simp
  qed
qed

theorem C5_witness:
  "currentSession page_answering = Some session_local
   \<and> indexInvariant session_local
   \<and> isSafeInteger (currentIndex session_local)
   \<and> jobTextOf options_backend page_answering \<noteq> []
   \<and> (\<exists>s'. currentSession (run Advance env_down page_answering) = Some s' \<and> indexInvariant s')
   \<and> (\<exists>s'. currentSession (run Finish env_down page_answering) = Some s' \<and> indexInvariant s')
   \<and> (\<exists>s. currentSession (startSession env_down options_backend page_answering) = Some s
           \<and> mode s = Local \<and> indexInvariant s)
   \<and> indexInvariant (stamped env_down ((adoptRemoteProgress None (Some 9) session_local)\<lparr>status := Active\<rparr>))"
proof -
  have h1: "currentSession page_answering = Some session_local"
    by (simp add: page_answering_def)
  have h2: "indexInvariant session_local"
    by (simp add: session_local_def fallbackRecord_invariants)
  have h3: "jobTextOf options_backend page_answering \<noteq> []"
    by (simp add: jobTextOf_def jdValueOf_def options_backend_def trim_def isWhiteSpace_def u16_def)
  have h4: "isSafeInteger (currentIndex session_local)"
    by (simp add: session_local_def fallbackRecord_invariants isSafeInteger_def)
  note th = C5_index_within_questions_after_patching
            [where p = page_answering and cur = session_local and e = env_down
               and options = options_backend and maybeNext = None and remoteIndex = "Some 9"
               and ?s0.0 = session_local and st = Active]
  show ?thesis
    using th [where oper = Advance] th [where oper = Finish] h1 h2 h3 h4 started_down_local
    by auto
qed

text \<open>
  C5 as stated fails for the reconciliation of remote history: the record stored for a
  history item that reports index 5 has no question and index 5.
\<close>

theorem C5_history_index_counterexample:
  "map (\<lambda>r. (sessionId r, length (questions r), currentIndex r, indexInvariant r))
     (records (syncRemoteSessions (env_replying reply_history_progress) page0))
   = [(u16 ''abc'', 0, 5, False)]"
  by (simp add: eval_defs syncRemoteSessions_def reply_history_progress_def normalizeRemoteSession_def
      mergeRemote_def indexInvariant_def)

text \<open>
  C6, as amended. submitAnswer on a session that is not in progress, or with blank answer
  text, leaves the current session, the store and the auth client (hence the network)
  untouched. When the session has a current question the page is the same but for the
  validation message (one for the status, one for the blank text, neither empty); when it
  has none the page is returned as it is, with no message.
\<close>

theorem C6_rejected_submitAnswer_changes_nothing:
  "currentSession p = Some cur \<and> (status cur \<noteq> Active \<or> trim (answerInput p) = []) \<longrightarrow>
     currentSession (submitAnswer e p) = Some cur
     \<and> records (submitAnswer e p) = records p
     \<and> auth (submitAnswer e p) = auth p
     \<and> (case questionAt (questions cur) (currentIndex cur) of
          Some q \<Rightarrow>
            submitAnswer e p
              = p\<lparr>error := (if status cur \<noteq> Active then err_paused_submit else err_empty_answer)\<rparr>
            \<and> error (submitAnswer e p) \<noteq> []
        | None \<Rightarrow> submitAnswer e p = p)"
  by (auto simp add: submitAnswer_def err_paused_submit_def err_empty_answer_def split: option.splits)

theorem C6_witness:
  "currentSession (page_answering\<lparr>answerInput := u16 ''  ''\<rparr>) = Some session_local
   \<and> trim (answerInput (page_answering\<lparr>answerInput := u16 ''  ''\<rparr>)) = []
   \<and> currentSession (submitAnswer env_down (page_answering\<lparr>answerInput := u16 ''  ''\<rparr>)) = Some session_local
   \<and> records (submitAnswer env_down (page_answering\<lparr>answerInput := u16 ''  ''\<rparr>))
       = records (page_answering\<lparr>answerInput := u16 ''  ''\<rparr>)
   \<and> auth (submitAnswer env_down (page_answering\<lparr>answerInput := u16 ''  ''\<rparr>))
       = auth (page_answering\<lparr>answerInput := u16 ''  ''\<rparr>)
   \<and> submitAnswer env_down (page_answering\<lparr>answerInput := u16 ''  ''\<rparr>)
       = page_answering\<lparr>answerInput := u16 ''  '', error := err_empty_answer\<rparr>"
proof -
  let ?p = "page_answering\<lparr>answerInput := u16 ''  ''\<rparr>"
  have h1: "currentSession ?p = Some session_local"
    by (simp add: page_answering_def)
  have h2: "trim (answerInput ?p) = []"
    by (simp add: trim_def isWhiteSpace_def u16_def)
  have h3: "status session_local = Active"
    by (simp add: session_local_def fallbackRecord_invariants)
  have h4: "questionAt (questions session_local) (currentIndex session_local)
              = Some (hd (questions session_local))"
    by (simp add: session_local_def fallbackRecord_def buildLocalQuestions_def questionAt_def Let_def)
  show ?thesis
    using C6_rejected_submitAnswer_changes_nothing [of ?p session_local env_down] h1 h2 h3 h4
    by simp
qed

text \<open>
  C6 as stated fails for a session without a current question: a paused record as the
  remote history gives it (no question yet, index 5) is left unchanged, but no validation
  error is set either.
\<close>

theorem C6_silent_return_counterexample:
  "normalizeRemoteSession env_down
     (JObj [(u16 ''id'', JNum 7), (u16 ''sessionToken'', JStr (u16 ''abc'')),
            (u16 ''status'', JStr (u16 ''paused'')),
            (u16 ''answeredCount'', JNum 2), (u16 ''currentIndex'', JNum 5)]) = Some session_history
   \<and> currentSession page_history = Some session_history
   \<and> status session_history = Paused
   \<and> submitAnswer env_down page_history = page_history
   \<and> error (submitAnswer env_down page_history) = []"
  by (simp add: normalizeRemoteSession_def session_history_def page_history_def eval_defs
        submitAnswer_def questionAt_def decimal.simps)

text \<open>
  C7. A request under an authenticated credential is answered 401. The requests sent are
  the request, then the refresh attempts of one refresh cycle (none without refresh
  credential, at least one and at most twelve with one), then at most one replay of the
  request, under the refreshed credential and only when the refresh gave one. When the
  refresh gives no credential, or when there is no refresh credential, the 401 reply is
  returned, the credential held and stored is a fresh guest one, and the reason surfaced
  is \<open>refresh_failed\<close> when a refresh credential was present, otherwise \<open>expired\<close> or
  \<open>unauthorized\<close>. A replay answered 401 again ends the same way, with \<open>refresh_failed\<close>.
  The call leaves the current session and the session records of the page as they were.
\<close>

theorem C7_one_refresh_and_retry_cycle:
  assumes en: "ensureAuthState e c = (current, c1)"
      and cu: "auth_mode current = AuthCustom"
      and af: "authFetch e m (toAbsoluteInput API_BASE_URL input) current c1 = (Some (r, st), c2)"
      and un: "http_status r = 401"
      and c3: "c3 = (if credentialChanged st current then snd (persistState e st c2) else c2)"
      and tr: "tryAutoRefreshAuth e current c3 = (candidate, c4)"
      and ap: "apiFetch e redirect m input c = (result, c')"
  shows "(\<exists>attempts.
            sent c4 = sent c @ [Request m (toAbsoluteInput API_BASE_URL input) current] @ attempts
            \<and> list_all isRefresh attempts \<and> length attempts \<le> 12
            \<and> (attempts \<noteq> [] \<longleftrightarrow> hasRefreshToken current))
       \<and> (\<not> hasRefreshToken current \<longrightarrow> candidate = None)
       \<and> (candidate = None \<longrightarrow>
            result = Some r
            \<and> sent c' = sent c4
            \<and> authRef c' = Some (createGuestAuthState e)
            \<and> authState c' = Some (createGuestAuthState e)
            \<and> storage_v3 c' = Some (Parsed (authJson (createGuestAuthState e)))
            \<and> authFailureReason c'
                = Some (if hasRefreshToken current then RefreshFailed
                        else if isAuthExpired e (expiresAt current) then Expired else Unauthorized))
       \<and> (\<forall>refreshed. candidate = Some refreshed \<longrightarrow>
            sent c' = sent c4 @ [Request m (toAbsoluteInput API_BASE_URL input)
                                   (fst (persistState e refreshed c4))]
            \<and> (case net e (length (sent c4))
                         (Request m (toAbsoluteInput API_BASE_URL input)
                            (fst (persistState e refreshed c4))) of
                  NetworkError \<Rightarrow> result = None
                | Reply retry \<Rightarrow>
                    result = Some retry
                    \<and> (if http_status retry = 401
                        then authRef c' = Some (createGuestAuthState e)
                             \<and> storage_v3 c' = Some (Parsed (authJson (createGuestAuthState e)))
                             \<and> authFailureReason c' = Some RefreshFailed
                        else authFailureReason c' = None)))
       \<and> currentSession (snd (fetch e m input p)) = currentSession p
       \<and> records (snd (fetch e m input p)) = records p"
proof -
  let ?url = "toAbsoluteInput API_BASE_URL input"
  have s1: "sent c1 = sent c" using ensureAuthState_sent [of e c] en by simp
  have s2: "sent c2 = sent c @ [Request m ?url current]"
    using authFetch_facts [OF af] s1 by simp
  have s3: "sent c3 = sent c2" unfolding c3 by (simp add: persistState_result)
  from tryAutoRefreshAuth_facts [of e current c3] obtain attempts
    where a: "c4 = c3\<lparr>sent := sent c3 @ attempts\<rparr>"
      and ar: "list_all isRefresh attempts" and al: "length attempts \<le> 12"
    using tr by auto
  have s4: "sent c4 = sent c @ [Request m ?url current] @ attempts" using a s3 s2 by simp
  have ne: "attempts \<noteq> [] \<longleftrightarrow> hasRefreshToken current"
  proof (cases "hasRefreshToken current")
    case True
    then show ?thesis using tryAutoRefreshAuth_sends [of current e c3] tr a by auto
  next
    case False
    then have "c4 = c3" using tr by (simp add: tryAutoRefreshAuth_def)
    then show ?thesis using False a s4 s3 s2 by simp
  qed
  have part1: "\<exists>attempts.
            sent c4 = sent c @ [Request m ?url current] @ attempts
            \<and> list_all isRefresh attempts \<and> length attempts \<le> 12
            \<and> (attempts \<noteq> [] \<longleftrightarrow> hasRefreshToken current)"
    using s4 ar al ne by blast
  have part2: "\<not> hasRefreshToken current \<longrightarrow> candidate = None"
    using tr by (auto simp add: tryAutoRefreshAuth_def)
  have part3: "candidate = None \<longrightarrow>
            result = Some r
            \<and> sent c' = sent c4
            \<and> authRef c' = Some (createGuestAuthState e)
            \<and> authState c' = Some (createGuestAuthState e)
            \<and> storage_v3 c' = Some (Parsed (authJson (createGuestAuthState e)))
            \<and> authFailureReason c'
                = Some (if hasRefreshToken current then RefreshFailed
                        else if isAuthExpired e (expiresAt current) then Expired else Unauthorized)"
  proof
    assume none: "candidate = None"
    have "apiFetch e redirect m input c = authFailed e redirect current (hasRefreshToken current) r c4"
      using en af un cu c3 tr [unfolded none] by (rule apiFetch_no_candidate)
    then have "(result, c') = authFailed e redirect current (hasRefreshToken current) r c4"
      using ap by simp
    then show "result = Some r
            \<and> sent c' = sent c4
            \<and> authRef c' = Some (createGuestAuthState e)
            \<and> authState c' = Some (createGuestAuthState e)
            \<and> storage_v3 c' = Some (Parsed (authJson (createGuestAuthState e)))
            \<and> authFailureReason c'
                = Some (if hasRefreshToken current then RefreshFailed
                        else if isAuthExpired e (expiresAt current) then Expired else Unauthorized)"
      unfolding authFailed_result by simp
  qed
  have part4: "\<forall>refreshed. candidate = Some refreshed \<longrightarrow>
            sent c' = sent c4 @ [Request m ?url (fst (persistState e refreshed c4))]
            \<and> (case net e (length (sent c4)) (Request m ?url (fst (persistState e refreshed c4))) of
                  NetworkError \<Rightarrow> result = None
                | Reply retry \<Rightarrow>
                    result = Some retry
                    \<and> (if http_status retry = 401
                        then authRef c' = Some (createGuestAuthState e)
                             \<and> storage_v3 c' = Some (Parsed (authJson (createGuestAuthState e)))
                             \<and> authFailureReason c' = Some RefreshFailed
                        else authFailureReason c' = None))"
  proof (intro allI impI)
    fix refreshed
    assume some: "candidate = Some refreshed"
    let ?saved = "fst (persistState e refreshed c4)"
    let ?c5 = "(snd (persistState e refreshed c4))\<lparr>authFailureReason := None\<rparr>"
    have s5: "sent ?c5 = sent c4" by (simp add: persistState_result)
    have r5: "authFailureReason ?c5 = None" by simp
    obtain res2 c6 where af2: "authFetch e m ?url ?saved ?c5 = (res2, c6)"
      by (cases "authFetch e m ?url ?saved ?c5")
    note f2 = authFetch_facts [OF af2]
    note o2 = authFetch_outcome [OF af2, unfolded s5]
    have s6: "sent c6 = sent c4 @ [Request m ?url ?saved]" using f2 s5 by simp
    have r6: "authFailureReason c6 = None" using f2 r5 by simp
    have eq: "(result, c')
           = (case (res2, c6) of
                (None, c6) \<Rightarrow> (None, c6)
              | (Some (retry, st2), c6) \<Rightarrow>
                  if ok retry \<or> http_status retry \<noteq> 401
                  then (Some retry, snd (persistState e st2 c6))
                  else authFailed e redirect current True retry c6)"
      using apiFetch_candidate [OF en af un cu c3 tr [unfolded some], of redirect] ap af2 by simp
    show "sent c' = sent c4 @ [Request m ?url ?saved]
            \<and> (case net e (length (sent c4)) (Request m ?url ?saved) of
                  NetworkError \<Rightarrow> result = None
                | Reply retry \<Rightarrow>
                    result = Some retry
                    \<and> (if http_status retry = 401
                        then authRef c' = Some (createGuestAuthState e)
                             \<and> storage_v3 c' = Some (Parsed (authJson (createGuestAuthState e)))
                             \<and> authFailureReason c' = Some RefreshFailed
                        else authFailureReason c' = None))"
    proof (cases "net e (length (sent c4)) (Request m ?url ?saved)")
      case NetworkError
      then have "res2 = None" using o2 by simp
      then show ?thesis using eq s6 NetworkError by simp
    next
      case (Reply retry)
      then obtain st2 where a: "res2 = Some (retry, st2)" using o2 by auto
      show ?thesis
      proof (cases "http_status retry = 401")
        case True
        then have "\<not> (ok retry \<or> http_status retry \<noteq> 401)" by (simp add: ok_def)
        then have "(result, c') = authFailed e redirect current True retry c6"
          using eq a by simp
        then show ?thesis using True s6 Reply unfolding authFailed_result by simp
      next
        case False
        then have "(result, c') = (Some retry, snd (persistState e st2 c6))"
          using eq a by simp
        then show ?thesis using False s6 r6 Reply by (simp add: persistState_result)
      qed
    qed
  qed
  have part5: "currentSession (snd (fetch e m input p)) = currentSession p
       \<and> records (snd (fetch e m input p)) = records p"
    using fetch_frame [of e m input p] by simp
  show ?thesis using part1 part2 part3 part4 part5 by blast
qed

theorem C7_witness:
  "fst (apiFetch env_unauthorized True POST start_url client_custom) = Some reply_401
   \<and> authRef (snd (apiFetch env_unauthorized True POST start_url client_custom))
       = Some (createGuestAuthState env_unauthorized)
   \<and> authFailureReason (snd (apiFetch env_unauthorized True POST start_url client_custom))
       = Some RefreshFailed
   \<and> length (sent (snd (apiFetch env_unauthorized True POST start_url client_custom))) = 13
   \<and> fst (apiFetch env_unauthorized True POST start_url client_no_refresh) = Some reply_401
   \<and> authRef (snd (apiFetch env_unauthorized True POST start_url client_no_refresh))
       = Some (createGuestAuthState env_unauthorized)
   \<and> authFailureReason (snd (apiFetch env_unauthorized True POST start_url client_no_refresh))
       = Some Unauthorized
   \<and> length (sent (snd (apiFetch env_unauthorized True POST start_url client_no_refresh))) = 1
   \<and> (\<exists>retry. fst (apiFetch env_refreshing True POST start_url client_custom) = Some retry
               \<and> http_status retry = 200)
   \<and> authFailureReason (snd (apiFetch env_refreshing True POST start_url client_custom)) = None
   \<and> length (sent (snd (apiFetch env_refreshing True POST start_url client_custom))) = 3"
proof -
  let ?url = "toAbsoluteInput API_BASE_URL start_url"
  let ?c2 = "client_custom\<lparr>sent := [Request POST ?url cred_custom]\<rparr>"
  let ?n2 = "client_no_refresh\<lparr>sent := [Request POST ?url cred_no_refresh]\<rparr>"
  have enU: "ensureAuthState env_unauthorized client_custom = (cred_custom, client_custom)"
    by (simp add: auth_eval_defs)
  have enR: "ensureAuthState env_refreshing client_custom = (cred_custom, client_custom)"
    by (simp add: auth_eval_defs)
  have enN: "ensureAuthState env_unauthorized client_no_refresh = (cred_no_refresh, client_no_refresh)"
    by (simp add: auth_eval_defs)
  have afU: "authFetch env_unauthorized POST ?url cred_custom client_custom = (Some (reply_401, cred_custom), ?c2)"
    by (simp add: auth_eval_defs)
  have afR: "authFetch env_refreshing POST ?url cred_custom client_custom = (Some (reply_401, cred_custom), ?c2)"
    by (simp add: auth_eval_defs)
  have afN: "authFetch env_unauthorized POST ?url cred_no_refresh client_no_refresh
               = (Some (reply_401, cred_no_refresh), ?n2)"
    by (simp add: auth_eval_defs)
  have cu: "auth_mode cred_custom = AuthCustom" "auth_mode cred_no_refresh = AuthCustom"
    by (simp_all add: cred_custom_def cred_no_refresh_def)
  have un: "http_status reply_401 = 401" by (simp add: reply_401_def)
  have ch: "?c2 = (if credentialChanged cred_custom cred_custom
                   then snd (persistState env_unauthorized cred_custom ?c2) else ?c2)"
           "?c2 = (if credentialChanged cred_custom cred_custom
                   then snd (persistState env_refreshing cred_custom ?c2) else ?c2)"
           "?n2 = (if credentialChanged cred_no_refresh cred_no_refresh
                   then snd (persistState env_unauthorized cred_no_refresh ?n2) else ?n2)"
    by (simp_all add: credentialChanged_def)
  have hr: "hasRefreshToken cred_custom" "\<not> hasRefreshToken cred_no_refresh"
           "\<not> isAuthExpired env_unauthorized (expiresAt cred_no_refresh)"
    by (simp_all add: auth_eval_defs)
  have trU: "fst (tryAutoRefreshAuth env_unauthorized cred_custom ?c2) = None"
            "length (sent (snd (tryAutoRefreshAuth env_unauthorized cred_custom ?c2))) = 13"
    by (simp_all add: auth_eval_defs)
  have trN: "tryAutoRefreshAuth env_unauthorized cred_no_refresh ?n2 = (None, ?n2)"
    by (simp add: auth_eval_defs)
  obtain refreshed where
    trR: "fst (tryAutoRefreshAuth env_refreshing cred_custom ?c2) = Some refreshed"
    and acc: "accessToken refreshed = u16 ''token_2''"
    and rt: "hasRefreshToken refreshed"
    by (simp add: auth_eval_defs)
  have lenR: "length (sent (snd (tryAutoRefreshAuth env_refreshing cred_custom ?c2))) = 2"
    by (simp add: auth_eval_defs)
  note U = C7_one_refresh_and_retry_cycle
             [where e = env_unauthorized and c = client_custom and current = cred_custom
                and ?c1.0 = client_custom and m = POST and input = start_url and r = reply_401
                and st = cred_custom and ?c2.0 = ?c2 and ?c3.0 = ?c2
                and candidate = "fst (tryAutoRefreshAuth env_unauthorized cred_custom ?c2)"
                and ?c4.0 = "snd (tryAutoRefreshAuth env_unauthorized cred_custom ?c2)"
                and redirect = True
                and result = "fst (apiFetch env_unauthorized True POST start_url client_custom)"
                and c' = "snd (apiFetch env_unauthorized True POST start_url client_custom)",
              OF enU cu(1) afU un ch(1) surjective_pairing surjective_pairing]
  note N = C7_one_refresh_and_retry_cycle
             [where e = env_unauthorized and c = client_no_refresh and current = cred_no_refresh
                and ?c1.0 = client_no_refresh and m = POST and input = start_url and r = reply_401
                and st = cred_no_refresh and ?c2.0 = ?n2 and ?c3.0 = ?n2
                and candidate = None and ?c4.0 = ?n2
                and redirect = True
                and result = "fst (apiFetch env_unauthorized True POST start_url client_no_refresh)"
                and c' = "snd (apiFetch env_unauthorized True POST start_url client_no_refresh)",
              OF enN cu(2) afN un ch(3) trN surjective_pairing]
  note R = C7_one_refresh_and_retry_cycle
             [where e = env_refreshing and c = client_custom and current = cred_custom
                and ?c1.0 = client_custom and m = POST and input = start_url and r = reply_401
                and st = cred_custom and ?c2.0 = ?c2 and ?c3.0 = ?c2
                and candidate = "fst (tryAutoRefreshAuth env_refreshing cred_custom ?c2)"
                and ?c4.0 = "snd (tryAutoRefreshAuth env_refreshing cred_custom ?c2)"
                and redirect = True
                and result = "fst (apiFetch env_refreshing True POST start_url client_custom)"
                and c' = "snd (apiFetch env_refreshing True POST start_url client_custom)",
              OF enR cu(1) afR un ch(2) surjective_pairing surjective_pairing]
  have a: "fst (apiFetch env_unauthorized True POST start_url client_custom) = Some reply_401
   \<and> authRef (snd (apiFetch env_unauthorized True POST start_url client_custom))
       = Some (createGuestAuthState env_unauthorized)
   \<and> authFailureReason (snd (apiFetch env_unauthorized True POST start_url client_custom))
       = Some RefreshFailed
   \<and> length (sent (snd (apiFetch env_unauthorized True POST start_url client_custom))) = 13"
    using U trU hr(1) by simp
  have b: "fst (apiFetch env_unauthorized True POST start_url client_no_refresh) = Some reply_401
   \<and> authRef (snd (apiFetch env_unauthorized True POST start_url client_no_refresh))
       = Some (createGuestAuthState env_unauthorized)
   \<and> authFailureReason (snd (apiFetch env_unauthorized True POST start_url client_no_refresh))
       = Some Unauthorized
   \<and> length (sent (snd (apiFetch env_unauthorized True POST start_url client_no_refresh))) = 1"
    using N hr(2,3) by simp
  have reply: "net env_refreshing n (Request POST ?url (fst (persistState env_refreshing refreshed c4)))
                 = Reply \<lparr>http_status = 200, body = JNull, x_session_id = None\<rparr>" for n c4
    using acc rt by (simp add: persistState_result expiredWithoutRefresh_def env_refreshing_def reply_status_def)
  have c: "(\<exists>retry. fst (apiFetch env_refreshing True POST start_url client_custom) = Some retry
               \<and> http_status retry = 200)
   \<and> authFailureReason (snd (apiFetch env_refreshing True POST start_url client_custom)) = None
   \<and> length (sent (snd (apiFetch env_refreshing True POST start_url client_custom))) = 3"
    using R trR lenR reply by simp
  show ?thesis using a b c by blast
qed

text \<open>
  C8, as amended. Advance on a session in progress: in local mode, or when the remote call
  fails (the session is then local), the questions are unchanged, the index is unchanged
  if it is at or past the last question, and otherwise, for an index that is a whole
  number (a safe integer), it is incremented by exactly 1. When the remote call succeeds,
  the status is the reply's (normalised; the session's own when the reply has none), the
  reply's question is appended exactly when no existing question has its id, and a
  reported index \<open>r\<close> is adopted as \<open>min(max(0, r), max(n - 1, 0))\<close> with \<open>n\<close> the new
  number of questions: verbatim when it lies within the list, also when the session was at
  its last question. Without a reported index the index is the position of the reply's
  question, or else the old index, kept within the list in the same way.
\<close>

theorem C8_advance:
  "currentSession p = Some cur \<and> status cur = Active \<longrightarrow>
     ((mode cur = Local \<or> (\<exists>err. fst (callInterviewApi e (nextCandidates cur) (p\<lparr>error := []\<rparr>)) = Inl err) \<longrightarrow>
        (\<exists>s'. currentSession (nextQuestion e p) = Some s' \<and> mode s' = Local \<and> status s' = Active
           \<and> questions s' = questions cur
           \<and> (currentIndex cur \<ge> of_nat (length (questions cur)) - 1 \<longrightarrow> currentIndex s' = currentIndex cur)
           \<and> (currentIndex cur < of_nat (length (questions cur)) - 1 \<and> isSafeInteger (currentIndex cur) \<longrightarrow>
                currentIndex s' = currentIndex cur + 1)))
      \<and> (\<forall>data. mode cur = Remote \<and> fst (callInterviewApi e (nextCandidates cur) (p\<lparr>error := []\<rparr>)) = Inr data \<longrightarrow>
           (\<exists>s'. currentSession (nextQuestion e p) = Some s' \<and> mode s' = Remote
              \<and> status s' = normalizeStatus (js_or (js_get (sessionPayloadOf data) ''status'') (statusText (status cur)))
              \<and> questions s'
                  = (case nextQuestionOf e data of
                       Some q \<Rightarrow>
                         if list_ex (\<lambda>item. q_id item = q_id q) (questions cur) then questions cur
                         else questions cur @ [q]
                     | None \<Rightarrow> questions cur)
              \<and> (\<forall>r. toSafeNumber (js_get (sessionPayloadOf data) ''currentIndex'') = Some r \<longrightarrow>
                     currentIndex s' = min (max 0 r) (max (of_nat (length (questions s')) - 1) 0)
                     \<and> (0 \<le> r \<and> r \<le> of_nat (length (questions s')) - 1 \<longrightarrow> currentIndex s' = r))
              \<and> (toSafeNumber (js_get (sessionPayloadOf data) ''currentIndex'') = None \<longrightarrow>
                     currentIndex s'
                       = min (case nextQuestionOf e data of
                                Some q \<Rightarrow>
                                  (case findIndex (\<lambda>item. q_id item = q_id q) (questions s') of
                                     Some idx \<Rightarrow> of_nat idx
                                   | None \<Rightarrow> currentIndex cur)
                              | None \<Rightarrow> currentIndex cur)
                           (max (of_nat (length (questions s')) - 1) 0)))))"
proof (intro impI conjI allI)
  assume a: "currentSession p = Some cur \<and> status cur = Active"
  then have cur: "currentSession p = Some cur" and act: "status cur = Active" by simp_all
  assume b: "mode cur = Local \<or> (\<exists>err. fst (callInterviewApi e (nextCandidates cur) (p\<lparr>error := []\<rparr>)) = Inl err)"
  let ?goal = "\<exists>s'. currentSession (nextQuestion e p) = Some s' \<and> mode s' = Local \<and> status s' = Active
           \<and> questions s' = questions cur
           \<and> (currentIndex cur \<ge> of_nat (length (questions cur)) - 1 \<longrightarrow> currentIndex s' = currentIndex cur)
           \<and> (currentIndex cur < of_nat (length (questions cur)) - 1 \<and> isSafeInteger (currentIndex cur) \<longrightarrow>
                currentIndex s' = currentIndex cur + 1)"
  from nextQuestion_current [OF cur, of e, folded nextCandidates_def] show ?goal
  proof (elim disjE conjE exE)
    assume "status cur \<noteq> Active"
    then show ?goal using act by simp
  next
    assume m: "mode cur \<noteq> Remote" and c: "currentSession (nextQuestion e p) = Some (advanced e cur)"
    from m have "mode cur = Local" by (cases "mode cur") simp_all
    then show ?goal using c act by (simp add: js_add_safe)
  next
    assume c: "currentSession (nextQuestion e p) = Some (advanced e (stamped e (cur\<lparr>mode := Local\<rparr>)))"
    then show ?goal using act by (simp add: js_add_safe)
  next
    fix data
    assume m: "mode cur = Remote"
       and r: "fst (callInterviewApi e (nextCandidates cur) (p\<lparr>error := []\<rparr>)) = Inr data"
    then show ?goal using b by simp
  qed
next
  fix data
  assume a: "currentSession p = Some cur \<and> status cur = Active"
  then have cur: "currentSession p = Some cur" and act: "status cur = Active" by simp_all
  assume b: "mode cur = Remote \<and> fst (callInterviewApi e (nextCandidates cur) (p\<lparr>error := []\<rparr>)) = Inr data"
  then have rem: "mode cur = Remote"
    and res: "fst (callInterviewApi e (nextCandidates cur) (p\<lparr>error := []\<rparr>)) = Inr data" by simp_all
  let ?ri = "toSafeNumber (js_get (sessionPayloadOf data) ''currentIndex'')"
  let ?ad = "adoptRemoteProgress (nextQuestionOf e data) ?ri cur"
  let ?st = "normalizeStatus (js_or (js_get (sessionPayloadOf data) ''status'') (statusText (status cur)))"
  have c: "currentSession (nextQuestion e p) = Some (stamped e (?ad\<lparr>status := ?st\<rparr>))"
    using nextQuestion_current [OF cur, of e, folded nextCandidates_def] act rem res by auto
  have q: "questions ?ad
             = (case nextQuestionOf e data of
                  Some q \<Rightarrow>
                    if list_ex (\<lambda>item. q_id item = q_id q) (questions cur) then questions cur
                    else questions cur @ [q]
                | None \<Rightarrow> questions cur)"
    by (simp add: adoptRemoteProgress_def Let_def)
  have i: "\<forall>r. ?ri = Some r \<longrightarrow>
                     currentIndex ?ad = min (max 0 r) (max (of_nat (length (questions ?ad)) - 1) 0)
                     \<and> (0 \<le> r \<and> r \<le> of_nat (length (questions ?ad)) - 1 \<longrightarrow> currentIndex ?ad = r)"
  proof (intro allI impI)
    fix r assume r: "?ri = Some r"
    have "currentIndex ?ad = min (max 0 r) (max (of_nat (length (questions ?ad)) - 1) 0)"
      unfolding r by (rule adopt_index)
    then show "currentIndex ?ad = min (max 0 r) (max (of_nat (length (questions ?ad)) - 1) 0)
                     \<and> (0 \<le> r \<and> r \<le> of_nat (length (questions ?ad)) - 1 \<longrightarrow> currentIndex ?ad = r)"
      by (auto simp add: min_def max_def)
  qed
  have n: "?ri = None \<longrightarrow>
             currentIndex ?ad
               = min (case nextQuestionOf e data of
                        Some q \<Rightarrow>
                          (case findIndex (\<lambda>item. q_id item = q_id q) (questions ?ad) of
                             Some idx \<Rightarrow> of_nat idx
                           | None \<Rightarrow> currentIndex cur)
                      | None \<Rightarrow> currentIndex cur)
                   (max (of_nat (length (questions ?ad)) - 1) 0)"
    by (cases "nextQuestionOf e data") (simp_all add: adoptRemoteProgress_def Let_def)
  show "\<exists>s'. currentSession (nextQuestion e p) = Some s' \<and> mode s' = Remote
              \<and> status s' = ?st
              \<and> questions s'
                  = (case nextQuestionOf e data of
                       Some q \<Rightarrow>
                         if list_ex (\<lambda>item. q_id item = q_id q) (questions cur) then questions cur
                         else questions cur @ [q]
                     | None \<Rightarrow> questions cur)
              \<and> (\<forall>r. ?ri = Some r \<longrightarrow>
                     currentIndex s' = min (max 0 r) (max (of_nat (length (questions s')) - 1) 0)
                     \<and> (0 \<le> r \<and> r \<le> of_nat (length (questions s')) - 1 \<longrightarrow> currentIndex s' = r))
              \<and> (?ri = None \<longrightarrow>
                     currentIndex s'
                       = min (case nextQuestionOf e data of
                                Some q \<Rightarrow>
                                  (case findIndex (\<lambda>item. q_id item = q_id q) (questions s') of
                                     Some idx \<Rightarrow> of_nat idx
                                   | None \<Rightarrow> currentIndex cur)
                              | None \<Rightarrow> currentIndex cur)
                           (max (of_nat (length (questions s')) - 1) 0))"
  proof (rule exI [of _ "stamped e (?ad\<lparr>status := ?st\<rparr>)"], intro conjI)
    show "currentSession (nextQuestion e p) = Some (stamped e (?ad\<lparr>status := ?st\<rparr>))" by (rule c)
    show "mode (stamped e (?ad\<lparr>status := ?st\<rparr>)) = Remote" using rem by simp
    show "status (stamped e (?ad\<lparr>status := ?st\<rparr>)) = ?st" by simp
    show "questions (stamped e (?ad\<lparr>status := ?st\<rparr>))
            = (case nextQuestionOf e data of
                 Some q \<Rightarrow>
                   if list_ex (\<lambda>item. q_id item = q_id q) (questions cur) then questions cur
                   else questions cur @ [q]
               | None \<Rightarrow> questions cur)"
      using q by simp
    show "\<forall>r. ?ri = Some r \<longrightarrow>
            currentIndex (stamped e (?ad\<lparr>status := ?st\<rparr>))
              = min (max 0 r) (max (of_nat (length (questions (stamped e (?ad\<lparr>status := ?st\<rparr>)))) - 1) 0)
            \<and> (0 \<le> r \<and> r \<le> of_nat (length (questions (stamped e (?ad\<lparr>status := ?st\<rparr>)))) - 1 \<longrightarrow>
                 currentIndex (stamped e (?ad\<lparr>status := ?st\<rparr>)) = r)"
      using i by simp
    show "?ri = None \<longrightarrow>
            currentIndex (stamped e (?ad\<lparr>status := ?st\<rparr>))
              = min (case nextQuestionOf e data of
                       Some q \<Rightarrow>
                         (case findIndex (\<lambda>item. q_id item = q_id q)
                                 (questions (stamped e (?ad\<lparr>status := ?st\<rparr>))) of
                            Some idx \<Rightarrow> of_nat idx
                          | None \<Rightarrow> currentIndex cur)
                     | None \<Rightarrow> currentIndex cur)
                  (max (of_nat (length (questions (stamped e (?ad\<lparr>status := ?st\<rparr>)))) - 1) 0)"
      using n by (simp cong: option.case_cong)
  qed
qed

theorem C8_witness:
  "currentSession page_answering = Some session_local \<and> status session_local = Active
   \<and> mode session_local = Local \<and> isSafeInteger (currentIndex session_local)
   \<and> (\<exists>s'. currentSession (nextQuestion env_down page_answering) = Some s' \<and> mode s' = Local
           \<and> status s' = Active \<and> questions s' = questions session_local \<and> currentIndex s' = 1)
   \<and> (\<exists>cur. currentSession started_at_last = Some cur \<and> status cur = Active \<and> mode cur = Remote
          \<and> fst (callInterviewApi (env_replying (reply_index 0)) (nextCandidates cur)
                    (started_at_last\<lparr>error := []\<rparr>)) = Inr (reply_index 0)
          \<and> fst (callInterviewApi (env_replying reply_next) (nextCandidates cur)
                    (started_at_last\<lparr>error := []\<rparr>)) = Inr reply_next)
   \<and> (\<exists>s'. currentSession (nextQuestion (env_replying (reply_index 0)) started_at_last) = Some s'
          \<and> mode s' = Remote \<and> status s' = Active \<and> length (questions s') = 2 \<and> currentIndex s' = 0)
   \<and> (\<exists>s'. currentSession (nextQuestion (env_replying reply_next) started_at_last) = Some s'
          \<and> mode s' = Remote \<and> status s' = Active
          \<and> map q_id (questions s') = [u16 ''q-1'', u16 ''q-2'', u16 ''q-9'']
          \<and> currentIndex s' = 2)"
proof -
  have h1: "currentSession page_answering = Some session_local"
    by (simp add: page_answering_def)
  have h2: "status session_local = Active" "mode session_local = Local" "currentIndex session_local = 0"
           "length (questions session_local) = 3"
    by (simp_all add: session_local_def fallbackRecord_invariants)
  have h3: "isSafeInteger (currentIndex session_local)" using h2 by (simp add: isSafeInteger_def)
  from started_at_last_questions obtain cur
    where k: "currentSession started_at_last = Some cur \<and> mode cur = Remote \<and> status cur = Active
              \<and> map q_id (questions cur) = [u16 ''q-1'', u16 ''q-2'']"
    by (rule exE)
  note k1 = k [THEN conjunct1] and k2 = k [THEN conjunct2, THEN conjunct1]
    and k3 = k [THEN conjunct2, THEN conjunct2, THEN conjunct1]
    and k7 = k [THEN conjunct2, THEN conjunct2, THEN conjunct2]
  have k4: "fst (callInterviewApi (env_replying reply) (nextCandidates cur)
                    (started_at_last\<lparr>error := []\<rparr>)) = Inr reply" for reply
    unfolding nextCandidates_def by (rule callInterviewApi_replying)
  have k5: "toSafeNumber (js_get (sessionPayloadOf (reply_index 0)) ''currentIndex'') = Some 0"
           "js_get (sessionPayloadOf (reply_index 0)) ''status'' = JUndefined"
           "nextQuestionOf (env_replying (reply_index 0)) (reply_index 0) = None"
           "toSafeNumber (js_get (sessionPayloadOf reply_next) ''currentIndex'') = Some 2"
           "js_get (sessionPayloadOf reply_next) ''status'' = JUndefined"
    by (simp_all add: reply_index_def reply_next_def sessionPayloadOf_def js_get_def toSafeNumber_def
          isRecord_def u16_def js_or_def js_nullish_def truthy_def nextQuestionOf_def
          toInterviewQuestion_def)
  obtain q where k8: "nextQuestionOf (env_replying reply_next) reply_next = Some q"
    and k9: "q_id q = u16 ''q-9''"
    by (simp add: reply_next_def nextQuestionOf_def toInterviewQuestion_def js_get_def js_or_def
          js_nullish_def truthy_def isRecord_def toSafeString_def toSafeNumber_def toStringArray_def
          u16_def trim_def isWhiteSpace_def Let_def)
  have k10: "\<not> list_ex (\<lambda>item. q_id item = q_id q) (questions cur)"
  proof
    assume "list_ex (\<lambda>item. q_id item = q_id q) (questions cur)"
    then obtain x where x: "x \<in> set (questions cur)" and same: "q_id x = q_id q"
      by (auto simp add: list_ex_iff)
    from x have "q_id x \<in> set (map q_id (questions cur))" by simp
    then show False unfolding k7 same k9 by (simp add: u16_def)
  qed
  have k6: "normalizeStatus (js_or JUndefined (statusText Active)) = Active"
    by (simp add: normalizeStatus_def js_or_def truthy_def statusText_def toSafeString_def u16_def
          toLowerCase_def trim_def isWhiteSpace_def)
  have len: "length (questions cur) = 2" using arg_cong [OF k7, of length] by simp
  have local:
    "\<exists>s'. currentSession (nextQuestion env_down page_answering) = Some s' \<and> mode s' = Local
           \<and> status s' = Active \<and> questions s' = questions session_local \<and> currentIndex s' = 1"
    using C8_advance [of page_answering session_local env_down] h1 h2 h3 by simp
  have remote:
    "\<exists>s'. currentSession (nextQuestion (env_replying (reply_index 0)) started_at_last) = Some s'
          \<and> mode s' = Remote \<and> status s' = Active \<and> length (questions s') = 2 \<and> currentIndex s' = 0"
    using C8_advance [of started_at_last cur "env_replying (reply_index 0)"] k1 k2 k3 k4 k5 k6 len
    by auto
  have appended:
    "\<exists>s'. currentSession (nextQuestion (env_replying reply_next) started_at_last) = Some s'
          \<and> mode s' = Remote \<and> status s' = Active
          \<and> map q_id (questions s') = [u16 ''q-1'', u16 ''q-2'', u16 ''q-9'']
          \<and> currentIndex s' = 2"
    using C8_advance [of started_at_last cur "env_replying reply_next"] k1 k2 k3 k4 k5 k6 k7 k8 k9 k10
    by auto
  show ?thesis using h1 h2 h3 local remote appended k1 k2 k3 k4 by blast
qed

text \<open>
  C8 as stated fails in remote mode. A session started remotely stands at index 1, the last
  of its two questions. When the reply reports index 0 the index becomes 0, so it does
  change at the last question; when the reply reports index 9 the index is 1, so the
  reported index is not adopted verbatim.
\<close>

theorem C8_remote_index_counterexample:
  "map_option (\<lambda>s. (mode s, status s, length (questions s), currentIndex s)) (currentSession started_at_last)
     = Some (Remote, Active, 2, 1)
   \<and> map_option (\<lambda>s. (length (questions s), currentIndex s))
       (currentSession (nextQuestion (env_replying (reply_index 0)) started_at_last)) = Some (2, 0)
   \<and> map_option (\<lambda>s. (length (questions s), currentIndex s))
       (currentSession (nextQuestion (env_replying (reply_index 9)) started_at_last)) = Some (2, 1)"
  by (simp add: started_at_last_def eval_defs start_defs reply_created_at_last_def reply_index_def
        nextQuestion_def applySessionPatch_def stamped_def adoptRemoteProgress_def nextQuestionOf_def
        sessionPayloadOf_def spread_def statusText_def)

text \<open>
  C9. With the clock read once per operation, a credential in authenticated mode that is
  past its expiry and has no refresh credential is never returned, held or stored:
  normalising a stored value and loading return no such credential; persisting one persists
  a fresh guest credential instead, which is then held and stored; using the held
  credential replaces such a one by a fresh guest credential, held and stored; and after
  mounting, after a request, and after login, logout, applying a token and rotating the
  session, the credential held and the credential left in storage are not such a one.
\<close>

theorem C9_expired_credential_without_refresh_is_replaced:
  "(normalizeClientAuthState e v = Some s \<longrightarrow> \<not> expiredWithoutRefresh e s)
   \<and> (fst (loadClientAuthState e c) = Some s \<longrightarrow> \<not> expiredWithoutRefresh e s)
   \<and> (fst (persistState e nxt c) = (if expiredWithoutRefresh e nxt then createGuestAuthState e else nxt)
      \<and> \<not> expiredWithoutRefresh e (fst (persistState e nxt c))
      \<and> authRef (snd (persistState e nxt c)) = Some (fst (persistState e nxt c))
      \<and> storage_v3 (snd (persistState e nxt c)) = Some (Parsed (authJson (fst (persistState e nxt c)))))
   \<and> (\<not> expiredWithoutRefresh e (fst (ensureAuthState e c))
      \<and> authRef (snd (ensureAuthState e c)) = Some (fst (ensureAuthState e c))
      \<and> storesNoExpired e c (snd (ensureAuthState e c))
      \<and> (authRef c = Some cur \<and> expiredWithoutRefresh e cur \<longrightarrow>
           fst (ensureAuthState e c) = createGuestAuthState e
           \<and> storage_v3 (snd (ensureAuthState e c)) = Some (Parsed (authJson (createGuestAuthState e)))))
   \<and> (\<exists>held. authRef (initAuth e reasonParam c) = Some held
         \<and> storage_v3 (initAuth e reasonParam c) = Some (Parsed (authJson held))
         \<and> \<not> expiredWithoutRefresh e held)
   \<and> (holdsCredential e (snd (apiFetch e redirect m input c))
      \<and> storesNoExpired e c (snd (apiFetch e redirect m input c)))
   \<and> (\<forall>saved c'. login e payload c = (Inr saved, c') \<longrightarrow>
         \<not> expiredWithoutRefresh e saved \<and> holdsCredential e c')
   \<and> (\<not> expiredWithoutRefresh e (fst (logout e c)) \<and> holdsCredential e (snd (logout e c)))
   \<and> (\<not> expiredWithoutRefresh e (fst (applyAccessToken e token c))
      \<and> holdsCredential e (snd (applyAccessToken e token c)))
   \<and> (\<not> expiredWithoutRefresh e (fst (rotateSession e c)) \<and> holdsCredential e (snd (rotateSession e c)))"
proof (intro conjI impI allI)
  assume "normalizeClientAuthState e v = Some s"
  then show "\<not> expiredWithoutRefresh e s" by (rule normalize_not_expired)
next
  assume "fst (loadClientAuthState e c) = Some s"
  then show "\<not> expiredWithoutRefresh e s"
    using load_not_expired [of e c s "snd (loadClientAuthState e c)"] by (simp add: prod_eq_iff)
next
  show "fst (persistState e nxt c) = (if expiredWithoutRefresh e nxt then createGuestAuthState e else nxt)"
    by (simp add: persistState_result)
  show "\<not> expiredWithoutRefresh e (fst (persistState e nxt c))" by (rule persistState_not_expired)
  show "authRef (snd (persistState e nxt c)) = Some (fst (persistState e nxt c))"
    by (simp add: persistState_result)
  show "storage_v3 (snd (persistState e nxt c)) = Some (Parsed (authJson (fst (persistState e nxt c))))"
    by (simp add: persistState_result)
  show "\<not> expiredWithoutRefresh e (fst (ensureAuthState e c))" by (rule ensureAuthState_not_expired)
  show "authRef (snd (ensureAuthState e c)) = Some (fst (ensureAuthState e c))"
    by (rule ensureAuthState_authRef)
  show "storesNoExpired e c (snd (ensureAuthState e c))" by (rule ensureAuthState_stores)
  show "\<exists>held. authRef (initAuth e reasonParam c) = Some held
         \<and> storage_v3 (initAuth e reasonParam c) = Some (Parsed (authJson held))
         \<and> \<not> expiredWithoutRefresh e held" by (rule initAuth_not_expired)
  show "holdsCredential e (snd (apiFetch e redirect m input c))" using apiFetch_invariant by blast
  show "storesNoExpired e c (snd (apiFetch e redirect m input c))" using apiFetch_invariant by blast
  show "\<not> expiredWithoutRefresh e (fst (logout e c))" using logout_not_expired by blast
  show "holdsCredential e (snd (logout e c))" using logout_not_expired by blast
  show "\<not> expiredWithoutRefresh e (fst (applyAccessToken e token c))" using applyAccessToken_not_expired by blast
  show "holdsCredential e (snd (applyAccessToken e token c))" using applyAccessToken_not_expired by blast
  show "\<not> expiredWithoutRefresh e (fst (rotateSession e c))" using rotateSession_not_expired by blast
  show "holdsCredential e (snd (rotateSession e c))" using rotateSession_not_expired by blast
next
  assume a: "authRef c = Some cur \<and> expiredWithoutRefresh e cur"
  then show "fst (ensureAuthState e c) = createGuestAuthState e"
    using ensureAuthState_replaces(2) [of c cur e] by simp
  from a show "storage_v3 (snd (ensureAuthState e c)) = Some (Parsed (authJson (createGuestAuthState e)))"
    using ensureAuthState_replaces(3) [of c cur e] by simp
next
  fix saved c'
  assume "login e payload c = (Inr saved, c')"
  then show "\<not> expiredWithoutRefresh e saved" using login_not_expired by blast
next
  fix saved c'
  assume "login e payload c = (Inr saved, c')"
  then show "holdsCredential e c'" using login_not_expired by blast
qed

theorem C9_witness:
  "expiredWithoutRefresh env_clock cred_expired
   \<and> authRef client_expired = Some cred_expired
   \<and> normalizeClientAuthState env_clock (authJson cred_expired) = None
   \<and> (\<exists>s. normalizeClientAuthState env_clock (authJson cred_custom) = Some s
          \<and> \<not> expiredWithoutRefresh env_clock s)
   \<and> fst (persistState env_clock cred_expired client0) = createGuestAuthState env_clock
   \<and> storage_v3 (snd (persistState env_clock cred_expired client0))
       = Some (Parsed (authJson (createGuestAuthState env_clock)))
   \<and> fst (ensureAuthState env_clock client_expired) = createGuestAuthState env_clock
   \<and> authRef (snd (ensureAuthState env_clock client_expired)) = Some (createGuestAuthState env_clock)
   \<and> storage_v3 (snd (ensureAuthState env_clock client_expired))
       = Some (Parsed (authJson (createGuestAuthState env_clock)))
   \<and> authRef (initAuth env_clock None (client0\<lparr>storage_v3 := Some (Parsed (authJson cred_expired))\<rparr>))
       = Some (createGuestAuthState env_clock)
   \<and> storage_v3 (initAuth env_clock None (client0\<lparr>storage_v3 := Some (Parsed (authJson cred_expired))\<rparr>))
       = Some (Parsed (authJson (createGuestAuthState env_clock)))
   \<and> holdsCredential env_clock (snd (apiFetch env_clock True POST (u16 ''/api/interview/start'') client_expired))"
proof -
  have h1: "expiredWithoutRefresh env_clock cred_expired" by (rule cred_expired_is)
  have h2: "authRef client_expired = Some cred_expired" by (simp add: client_expired_def)
  have h3: "normalizeClientAuthState env_clock (authJson cred_expired) = None"
    by (simp add: normalizeClientAuthState_def authJson_def cred_expired_def cred_custom_def isRecord_def
          js_get_def trimmedString_def orNull_def toLowerCase_def u16_def trim_def isWhiteSpace_def
          expiredWithoutRefresh_def isAuthExpired_def hasRefreshToken_def
          env_clock_def env_down_def env_replying_def Let_def)
  have h4: "normalizeClientAuthState env_clock (authJson cred_custom) = Some cred_custom"
    by (simp add: normalizeClientAuthState_def authJson_def cred_custom_def isRecord_def
          js_get_def trimmedString_def orNull_def toLowerCase_def u16_def trim_def isWhiteSpace_def
          expiredWithoutRefresh_def isAuthExpired_def hasRefreshToken_def
          env_clock_def env_down_def env_replying_def Let_def)
  note th = C9_expired_credential_without_refresh_is_replaced
              [where e = env_clock and v = "authJson cred_custom" and s = cred_custom and nxt = cred_expired
                 and cur = cred_expired and redirect = True and m = POST
                 and input = "u16 ''/api/interview/start''"]
  have h5: "initAuth env_clock None (client0\<lparr>storage_v3 := Some (Parsed (authJson cred_expired))\<rparr>)
              = client0\<lparr>storage_v3 := Some (Parsed (authJson (createGuestAuthState env_clock))),
                        authRef := Some (createGuestAuthState env_clock),
                        authState := Some (createGuestAuthState env_clock),
                        tokenDraft := accessToken (createGuestAuthState env_clock)\<rparr>"
    using h3
    by (simp add: initAuth_def loadClientAuthState_def clearClientAuthState_def saveClientAuthState_def
          toSafeAuthReason_def client0_def)
  show ?thesis
    using th [where c = client0] th [where c = client_expired] h1 h2 h3 h4
    by (simp add: h5)
qed

text \<open>
  C10. For every answers map, question count and position, the local feedback has a score
  between 45 and 95 and at least one improvement suggestion.
\<close>

theorem C10_local_feedback_score_range:
  "(\<exists>n::nat. score (buildLocalFeedback ans n_questions pos) = Some (of_nat n) \<and> 45 \<le> n \<and> n \<le> 95)
   \<and> improvements (buildLocalFeedback ans n_questions pos) \<noteq> []"
  by (simp add: buildLocalFeedback_def Let_def)

end
